theory Spec2Isabelle
  imports Complex_Main
begin

section \<open>Data model\<close>

text \<open>
  The module \<^verbatim>\<open>GWFish/modules/fishermatrix.py\<close> computes with numpy float and complex
  arrays.  Floats are modelled in exact arithmetic as \<^typ>\<open>real\<close> and \<^typ>\<open>complex\<close>;
  rounding and overflow are outside the model.  The arrays that \<^verbatim>\<open>invertSVD\<close> builds
  by dividing by its normalizer, and everything computed from them, can hold the values
  numpy gives a quotient with a zero divisor and the square root of a negative number:
  their entries are of the type \<open>npfloat\<close> below.

  Python exceptions are values of the type \<open>error\<close>; a function that can raise returns
  \<open>error + 'a\<close> with \<open>Inl\<close> for the exception.
\<close>

datatype error = AssertionError | KeyError string | IndexError | ValueError | LinAlgError

text \<open>A parameter set (a dict or a pandas row): parameter name to value.\<close>

type_synonym params = "string \<rightharpoonup> real"

text \<open>A two-dimensional real array, as the list of its rows.\<close>

type_synonym mat = "real list list"

text \<open>
  A numpy \<^verbatim>\<open>float64\<close>: a finite value, an infinity or NaN.  There is one zero, the
  positive one, which is what \<^verbatim>\<open>np.zeros\<close> holds and what the square root of a zero is.
\<close>

datatype npfloat = Finite real | PosInf | NegInf | NaN

type_synonym npmat = "npfloat list list"

text \<open>
  A projected signal or a derivative of one: a complex array with one row per frequency
  bin of the detector's grid and one column per detector component.
\<close>

type_synonym signal = "complex list list"

text \<open>
  Modelled from the spec: the class \<^verbatim>\<open>det.Detector\<close> of the detection module.  This
  module reads its \<^verbatim>\<open>name\<close> and its \<^verbatim>\<open>frequencyvector\<close> (a column of frequencies,
  one per bin) only; everything else, opaque here, is \<open>noise\<close>.
\<close>

record 'n detector =
  name :: string
  frequencyvector :: "real list"
  noise :: 'n

text \<open>
  Modelled from the spec: the class \<^verbatim>\<open>det.Network\<close> of the detection module, an
  ordered collection of detectors with the pair (individual threshold, network
  threshold).  Its method \<^verbatim>\<open>partial\<close> is a parameter of the function that calls it.
\<close>

record 'n network =
  detectors :: "'n detector list"
  detection_SNR :: "real \<times> real"

text \<open>
  A pandas DataFrame of parameter values: the column names and one row of values per
  signal.  \<open>iloc df k\<close> is the row \<open>k\<close> as a parameter set.
\<close>

record DataFrame =
  columns :: "string list"
  rows :: "real list list"

definition iloc :: "DataFrame \<Rightarrow> nat \<Rightarrow> params" where
  "iloc df k = map_of (zip (columns df) (rows df ! k))"

text \<open>
  A waveform class, seen through what this module does with it: constructed from the
  waveform name, the parameters and \<^verbatim>\<open>data_params\<close> (frequency vector and \<^verbatim>\<open>f_ref\<close>),
  then called; the result is the wave together with the \<^verbatim>\<open>t_of_f\<close> track.
\<close>

type_synonym 'w waveform_class = "string \<Rightarrow> params \<Rightarrow> real list \<times> real \<Rightarrow> 'w \<times> real list"

text \<open>
  The functions of the other modules and of numpy that this module calls, taken as
  parameters: \<^verbatim>\<open>det.projection\<close>, \<^verbatim>\<open>det.SNR\<close>, \<^verbatim>\<open>aux.scalar_product\<close> (one real
  number per frequency bin, summed by the caller) and \<^verbatim>\<open>np.linalg.svd\<close>, which can
  raise \<^verbatim>\<open>LinAlgError\<close> and otherwise returns finite arrays.
\<close>

record ('w, 'n) collaborators =
  projection :: "params \<Rightarrow> 'n detector \<Rightarrow> 'w \<Rightarrow> real list \<Rightarrow> signal"
  SNR :: "'n detector \<Rightarrow> signal \<Rightarrow> bool \<Rightarrow> real list"
  scalar_product :: "signal \<Rightarrow> signal \<Rightarrow> 'n detector \<Rightarrow> real list"
  svd :: "npmat \<Rightarrow> error + mat \<times> real list \<times> mat"

section \<open>Arrays\<close>

definition zeros :: "nat \<Rightarrow> nat \<Rightarrow> mat" where
  "zeros r c = replicate r (replicate c 0)"

text \<open>\<^verbatim>\<open>np.diag\<close> and \<^verbatim>\<open>np.diagonal\<close> of a square matrix: its diagonal.\<close>

definition np_diagonal :: "'a list list \<Rightarrow> 'a list" where
  "np_diagonal M = map (\<lambda>i. M ! i ! i) [0..<length M]"

text \<open>\<^verbatim>\<open>np.diag\<close> of a vector: the diagonal matrix.\<close>

definition np_diag :: "real list \<Rightarrow> mat" where
  "np_diag v = map (\<lambda>i. map (\<lambda>j. if i = j then v ! i else 0) [0..<length v]) [0..<length v]"

text \<open>Elementwise sum of two arrays of one shape.\<close>

definition mat_add :: "mat \<Rightarrow> mat \<Rightarrow> mat" where
  "mat_add A B = map2 (\<lambda>ra rb. map2 (\<lambda>a b. a + b) ra rb) A B"

definition ncols :: "mat \<Rightarrow> nat" where
  "ncols M = (case M of [] \<Rightarrow> 0 | r # _ \<Rightarrow> length r)"

text \<open>
  The matrix product \<^verbatim>\<open>A @ B\<close>; \<open>c\<close> is the number of columns of \<open>B\<close>, which a numpy
  array carries in its shape even when it has no rows.
\<close>

definition matmul :: "nat \<Rightarrow> mat \<Rightarrow> mat \<Rightarrow> mat" where
  "matmul c A B =
     map (\<lambda>r. map (\<lambda>j. sum_list (map2 (\<lambda>a brow. a * brow ! j) r B)) [0..<c]) A"

section \<open>Floating-point operations that leave the reals\<close>

text \<open>
  The numpy operations on \<^verbatim>\<open>float64\<close> values, with the results of IEEE 754 where the
  real operation is undefined.  None of them raises: numpy reports a zero divisor or an
  invalid operand by a \<^verbatim>\<open>RuntimeWarning\<close> and goes on.  \<open>signed_inf x\<close> is the quotient
  of \<open>x\<close> by zero, and also the product of \<open>x\<close> with the positive infinity.
\<close>

definition signed_inf :: "real \<Rightarrow> npfloat" where
  "signed_inf x = (if x = 0 then NaN else if 0 < x then PosInf else NegInf)"

text \<open>\<^verbatim>\<open>np.sqrt\<close>.\<close>

fun np_sqrt :: "npfloat \<Rightarrow> npfloat" where
  "np_sqrt (Finite x) = (if x < 0 then NaN else Finite (sqrt x))"
| "np_sqrt PosInf = PosInf"
| "np_sqrt NegInf = NaN"
| "np_sqrt NaN = NaN"

text \<open>The product \<^verbatim>\<open>a * b\<close>.\<close>

fun np_multiply :: "npfloat \<Rightarrow> npfloat \<Rightarrow> npfloat" where
  "np_multiply (Finite x) (Finite y) = Finite (x * y)"
| "np_multiply (Finite x) PosInf = signed_inf x"
| "np_multiply (Finite x) NegInf = signed_inf (- x)"
| "np_multiply PosInf (Finite y) = signed_inf y"
| "np_multiply NegInf (Finite y) = signed_inf (- y)"
| "np_multiply PosInf PosInf = PosInf"
| "np_multiply PosInf NegInf = NegInf"
| "np_multiply NegInf PosInf = NegInf"
| "np_multiply NegInf NegInf = PosInf"
| "np_multiply NaN b = NaN"
| "np_multiply a NaN = NaN"

text \<open>The difference \<^verbatim>\<open>a - b\<close>.\<close>

fun np_subtract :: "npfloat \<Rightarrow> npfloat \<Rightarrow> npfloat" where
  "np_subtract (Finite x) (Finite y) = Finite (x - y)"
| "np_subtract (Finite x) PosInf = NegInf"
| "np_subtract (Finite x) NegInf = PosInf"
| "np_subtract PosInf (Finite y) = PosInf"
| "np_subtract NegInf (Finite y) = NegInf"
| "np_subtract PosInf PosInf = NaN"
| "np_subtract PosInf NegInf = PosInf"
| "np_subtract NegInf PosInf = NegInf"
| "np_subtract NegInf NegInf = NaN"
| "np_subtract NaN b = NaN"
| "np_subtract a NaN = NaN"

text \<open>
  The quotient \<^verbatim>\<open>a / b\<close>.  With a zero divisor it is NaN for a zero dividend and the
  infinity of the dividend's sign otherwise.
\<close>

fun np_true_divide :: "npfloat \<Rightarrow> npfloat \<Rightarrow> npfloat" where
  "np_true_divide (Finite x) (Finite y) = (if y = 0 then signed_inf x else Finite (x / y))"
| "np_true_divide (Finite x) PosInf = Finite 0"
| "np_true_divide (Finite x) NegInf = Finite 0"
| "np_true_divide PosInf (Finite y) = (if y < 0 then NegInf else PosInf)"
| "np_true_divide NegInf (Finite y) = (if y < 0 then PosInf else NegInf)"
| "np_true_divide PosInf PosInf = NaN"
| "np_true_divide PosInf NegInf = NaN"
| "np_true_divide NegInf PosInf = NaN"
| "np_true_divide NegInf NegInf = NaN"
| "np_true_divide NaN b = NaN"
| "np_true_divide a NaN = NaN"

text \<open>A real array as a float array, and \<^verbatim>\<open>np.outer\<close> and the elementwise quotient.\<close>

definition float_array :: "mat \<Rightarrow> npmat" where
  "float_array M = map (map Finite) M"

definition np_outer :: "npfloat list \<Rightarrow> npfloat list \<Rightarrow> npmat" where
  "np_outer u v = map (\<lambda>a. map (\<lambda>b. np_multiply a b) v) u"

definition mat_divide :: "npmat \<Rightarrow> npmat \<Rightarrow> npmat" where
  "mat_divide A B = map2 (\<lambda>ra rb. map2 (\<lambda>a b. np_true_divide a b) ra rb) A B"

section \<open>Robust inversion\<close>

definition thresh :: real where
  "thresh = 1 / 10 ^ 10"

definition normalizer :: "mat \<Rightarrow> npmat" where
  "normalizer matrix =
     (let dm = map (\<lambda>x. np_sqrt (Finite x)) (np_diagonal matrix) in np_outer dm dm)"

definition matrix_norm :: "mat \<Rightarrow> npmat" where
  "matrix_norm matrix = mat_divide (float_array matrix) (normalizer matrix)"

definition kVal :: "real list \<Rightarrow> nat" where
  "kVal S = length (filter (\<lambda>s. s > thresh) S)"

definition matrix_inverse_norm :: "mat \<Rightarrow> real list \<Rightarrow> mat \<Rightarrow> mat" where
  "matrix_inverse_norm U S Vh =
     matmul (ncols Vh)
       (matmul (kVal S) (map (take (kVal S)) U) (np_diag (map (\<lambda>s. 1 / s) (take (kVal S) S))))
       (take (kVal S) Vh)"

text \<open>
  \<^verbatim>\<open>invertSVD(matrix)\<close> for a square matrix.  \<open>svd_fn\<close> is \<^verbatim>\<open>np.linalg.svd\<close>, which can
  raise \<^verbatim>\<open>LinAlgError\<close>; the function itself has no \<^verbatim>\<open>raise\<close>, no guard and no
  handler.  The singular values kept are above \<open>thresh\<close>, so \<open>1 / s\<close> is a real quotient.
\<close>

definition invertSVD ::
  "(npmat \<Rightarrow> error + mat \<times> real list \<times> mat) \<Rightarrow> mat \<Rightarrow> error + npmat \<times> real list" where
  "invertSVD svd_fn matrix =
     (case svd_fn (matrix_norm matrix) of
        Inl e \<Rightarrow> Inl e
      | Inr (U, S, Vh) \<Rightarrow>
          Inr (mat_divide (float_array (matrix_inverse_norm U S Vh)) (normalizer matrix), S))"

section \<open>Derivative engine\<close>

text \<open>Arithmetic on signals: scalar times array, difference, array over scalar.\<close>

definition sig_scale :: "complex \<Rightarrow> signal \<Rightarrow> signal" where
  "sig_scale c s = map (map (\<lambda>z. c * z)) s"

definition sig_sub :: "signal \<Rightarrow> signal \<Rightarrow> signal" where
  "sig_sub a b = map2 (\<lambda>ra rb. map2 (\<lambda>x y. x - y) ra rb) a b"

definition sig_div :: "signal \<Rightarrow> complex \<Rightarrow> signal" where
  "sig_div s c = map (map (\<lambda>z. z / c)) s"

text \<open>
  A column (one entry per frequency bin) times a signal aligned to the same bins: numpy
  broadcasts the column over the components of each row.
\<close>

definition col_mul :: "complex list \<Rightarrow> signal \<Rightarrow> signal" where
  "col_mul col s = map2 (\<lambda>f row. map (\<lambda>z. f * z) row) col s"

text \<open>
  The state of a \<^verbatim>\<open>Derivative\<close> instance.  \<open>waveform_object\<close> is the waveform object
  built in the constructor, represented by the parameters it currently holds
  (\<^verbatim>\<open>update_gw_params\<close> replaces them); the two \<open>cached\<close> fields are
  \<^verbatim>\<open>_waveform_at_parameters\<close> and \<^verbatim>\<open>_projection_at_parameters\<close>.
\<close>

record ('w, 'n) Derivative =
  waveform :: string
  detector :: "'n detector"
  eps :: real
  wf_class :: "'w waveform_class"
  data_params :: "real list \<times> real"
  waveform_object :: params
  cached_waveform_at_parameters :: "('w \<times> real list) option"
  cached_projection_at_parameters :: "signal option"
  local_params :: params
  pv_set1 :: params
  pv_set2 :: params
  tc :: real

definition default_eps :: real where
  "default_eps = 1 / 10 ^ 5"

text \<open>\<^verbatim>\<open>Derivative.__init__\<close>; reading \<^verbatim>\<open>parameters['geocent_time']\<close> can raise.\<close>

definition Derivative_init ::
  "string \<Rightarrow> params \<Rightarrow> 'n detector \<Rightarrow> real \<Rightarrow> 'w waveform_class \<Rightarrow> error + ('w, 'n) Derivative" where
  "Derivative_init wfm parameters det e wc =
     (case parameters ''geocent_time'' of
        None \<Rightarrow> Inl (KeyError ''geocent_time'')
      | Some t \<Rightarrow>
          Inr \<lparr> waveform = wfm, detector = det, eps = e, wf_class = wc,
                data_params = (frequencyvector det, 50),
                waveform_object = parameters,
                cached_waveform_at_parameters = None,
                cached_projection_at_parameters = None,
                local_params = parameters, pv_set1 = parameters, pv_set2 = parameters,
                tc = t \<rparr>)"

text \<open>The two lazy properties: compute on first access, then return the cached value.\<close>

definition waveform_at_parameters ::
  "('w, 'n) Derivative \<Rightarrow> ('w \<times> real list) \<times> ('w, 'n) Derivative" where
  "waveform_at_parameters D =
     (case cached_waveform_at_parameters D of
        None \<Rightarrow>
          (let w = wf_class D (waveform D) (waveform_object D) (data_params D)
           in (w, D\<lparr>cached_waveform_at_parameters := Some w\<rparr>))
      | Some w \<Rightarrow> (w, D))"

definition projection_at_parameters ::
  "(params \<Rightarrow> 'n detector \<Rightarrow> 'w \<Rightarrow> real list \<Rightarrow> signal) \<Rightarrow> ('w, 'n) Derivative
     \<Rightarrow> signal \<times> ('w, 'n) Derivative" where
  "projection_at_parameters proj D =
     (case cached_projection_at_parameters D of
        None \<Rightarrow>
          (let (w0, D0) = waveform_at_parameters D;
               (w1, D1) = waveform_at_parameters D0;
               p = proj (local_params D1) (detector D1) (fst w0) (snd w1)
           in (p, D1\<lparr>cached_projection_at_parameters := Some p\<rparr>))
      | Some p \<Rightarrow> (p, D))"

text \<open>The step of the finite difference: \<^verbatim>\<open>np.maximum(self.eps, self.eps * pv)\<close>.\<close>

definition step_size :: "real \<Rightarrow> real \<Rightarrow> real" where
  "step_size e pv = max e (e * pv)"

text \<open>The last statement of \<^verbatim>\<open>with_respect_to\<close>, reached when nothing was raised.\<close>

definition update_gw_params :: "('w, 'n) Derivative \<Rightarrow> ('w, 'n) Derivative" where
  "update_gw_params D = D\<lparr>waveform_object := local_params D\<rparr>"

text \<open>The branch for \<^verbatim>\<open>ra\<close>, \<^verbatim>\<open>dec\<close> and \<^verbatim>\<open>psi\<close>: the central waveform is projected twice.\<close>

definition projection_difference ::
  "(params \<Rightarrow> 'n detector \<Rightarrow> 'w \<Rightarrow> real list \<Rightarrow> signal) \<Rightarrow> real \<Rightarrow> ('w, 'n) Derivative
     \<Rightarrow> signal \<times> ('w, 'n) Derivative" where
  "projection_difference proj dp D =
     (let (w, D0) = waveform_at_parameters D;
          signal1 = proj (pv_set1 D0) (detector D0) (fst w) (snd w);
          signal2 = proj (pv_set2 D0) (detector D0) (fst w) (snd w)
      in (sig_div (sig_sub signal2 signal1) (complex_of_real dp), D0))"

text \<open>
  The branch for every other parameter: both waveforms are generated again with
  \<^verbatim>\<open>geocent_time\<close> set to 0, projected with the time restored, and the difference is
  multiplied by the phase factor.
\<close>

definition waveform_difference ::
  "(params \<Rightarrow> 'n detector \<Rightarrow> 'w \<Rightarrow> real list \<Rightarrow> signal) \<Rightarrow> real \<Rightarrow> ('w, 'n) Derivative
     \<Rightarrow> signal \<times> ('w, 'n) Derivative" where
  "waveform_difference proj dp D =
     (let z1 = (pv_set1 D)(''geocent_time'' \<mapsto> 0);
          z2 = (pv_set2 D)(''geocent_time'' \<mapsto> 0);
          (wave1, t_of_f1) = wf_class D (waveform D) z1 (data_params D);
          (wave2, t_of_f2) = wf_class D (waveform D) z2 (data_params D);
          D0 = D\<lparr>pv_set1 := z1(''geocent_time'' \<mapsto> tc D),
                 pv_set2 := z2(''geocent_time'' \<mapsto> tc D)\<rparr>;
          signal1 = proj (pv_set1 D0) (detector D0) wave1 (map (\<lambda>t. t + tc D0) t_of_f1);
          signal2 = proj (pv_set2 D0) (detector D0) wave2 (map (\<lambda>t. t + tc D0) t_of_f2);
          phase_factor =
            map (\<lambda>f. exp (2 * \<i> * complex_of_real pi * complex_of_real f * complex_of_real (tc D0)))
              (frequencyvector (detector D0))
      in (sig_div (col_mul phase_factor (sig_sub signal2 signal1)) (complex_of_real dp), D0))"

text \<open>
  \<^verbatim>\<open>Derivative.with_respect_to\<close> (and \<^verbatim>\<open>__call__\<close>): the derivative, or the exception,
  together with the state the instance is left in.
\<close>

definition with_respect_to ::
  "(params \<Rightarrow> 'n detector \<Rightarrow> 'w \<Rightarrow> real list \<Rightarrow> signal) \<Rightarrow> string \<Rightarrow> ('w, 'n) Derivative
     \<Rightarrow> (error + signal) \<times> ('w, 'n) Derivative" where
  "with_respect_to proj target_parameter D =
     (if target_parameter = ''luminosity_distance'' then
        (case local_params D target_parameter of
           None \<Rightarrow> (Inl (KeyError target_parameter), D)
         | Some d \<Rightarrow>
             (let (p, D0) = projection_at_parameters proj D
              in (Inr (sig_scale (complex_of_real (- 1 / d)) p), update_gw_params D0)))
      else if target_parameter = ''geocent_time'' then
        (let (p, D0) = projection_at_parameters proj D
         in (Inr (col_mul (map (\<lambda>f. 2 * \<i> * complex_of_real pi * complex_of_real f)
                             (frequencyvector (detector D0))) p),
             update_gw_params D0))
      else if target_parameter = ''phase'' then
        (let (p, D0) = projection_at_parameters proj D
         in (Inr (sig_scale (- \<i>) p), update_gw_params D0))
      else
        (case local_params D target_parameter of
           None \<Rightarrow> (Inl (KeyError target_parameter), D)
         | Some pv \<Rightarrow>
             (let dp = step_size (eps D) pv;
                  D0 = D\<lparr>pv_set1 := (local_params D)(target_parameter \<mapsto> pv - dp / 2),
                         pv_set2 := (local_params D)(target_parameter \<mapsto> pv + dp / 2)\<rparr>;
                  (derivative, D1) =
                    (if target_parameter \<in> set [''ra'', ''dec'', ''psi'']
                     then projection_difference proj dp D0
                     else waveform_difference proj dp D0)
              in (Inr derivative, update_gw_params D1))))"

section \<open>Fisher matrix assembly\<close>

text \<open>\<^verbatim>\<open>M[i, j] = v\<close> on a list of rows.\<close>

definition set_entry :: "mat \<Rightarrow> nat \<Rightarrow> nat \<Rightarrow> real \<Rightarrow> mat" where
  "set_entry M i j v = M[i := (M ! i)[j := v]]"

text \<open>
  The state of a \<^verbatim>\<open>FisherMatrix\<close> instance.  \<open>derivative\<close> is the state of the callable
  stored in \<^verbatim>\<open>self.derivative\<close>; \<open>cached_fm\<close> is \<^verbatim>\<open>_fm\<close>.
\<close>

record ('s, 'n) FisherMatrix =
  fisher_parameters :: "string list"
  fm_detector :: "'n detector"
  derivative :: 's
  nd :: nat
  cached_fm :: "mat option"

text \<open>
  The loops of \<^verbatim>\<open>update_fm\<close>.  \<open>call\<close> is \<^verbatim>\<open>self.derivative(...)\<close>: it returns the
  derivative or raises, and changes the state of the callable.  \<open>sp\<close> is
  \<^verbatim>\<open>aux.scalar_product\<close>.  The result is the exception, if any, the matrix \<^verbatim>\<open>_fm\<close> as
  far as it was filled, and the state of the callable.
\<close>

fun fm_inner ::
  "(string \<Rightarrow> 's \<Rightarrow> (error + signal) \<times> 's) \<Rightarrow> (signal \<Rightarrow> signal \<Rightarrow> 'n detector \<Rightarrow> real list)
     \<Rightarrow> 'n detector \<Rightarrow> string list \<Rightarrow> nat \<Rightarrow> signal \<Rightarrow> nat list \<Rightarrow> mat \<times> 's
     \<Rightarrow> error option \<times> mat \<times> 's" where
  "fm_inner call sp det fps p1 deriv1 [] (M, s) = (None, M, s)"
| "fm_inner call sp det fps p1 deriv1 (p2 # ps) (M, s) =
     (case call (fps ! p2) s of
        (Inl e, s') \<Rightarrow> (Some e, M, s')
      | (Inr deriv2, s') \<Rightarrow>
          (let M1 = set_entry M p1 p2 (sum_list (sp deriv1 deriv2 det));
               M2 = set_entry M1 p2 p1 (M1 ! p1 ! p2)
           in fm_inner call sp det fps p1 deriv1 ps (M2, s')))"

fun fm_outer ::
  "(string \<Rightarrow> 's \<Rightarrow> (error + signal) \<times> 's) \<Rightarrow> (signal \<Rightarrow> signal \<Rightarrow> 'n detector \<Rightarrow> real list)
     \<Rightarrow> 'n detector \<Rightarrow> string list \<Rightarrow> nat \<Rightarrow> nat list \<Rightarrow> mat \<times> 's
     \<Rightarrow> error option \<times> mat \<times> 's" where
  "fm_outer call sp det fps n [] (M, s) = (None, M, s)"
| "fm_outer call sp det fps n (p1 # ps) (M, s) =
     (case call (fps ! p1) s of
        (Inl e, s') \<Rightarrow> (Some e, M, s')
      | (Inr deriv1, s') \<Rightarrow>
          (case fm_inner call sp det fps p1 deriv1 [p1 + 1..<n]
                  (set_entry M p1 p1 (sum_list (sp deriv1 deriv1 det)), s') of
             (Some e, M', s'') \<Rightarrow> (Some e, M', s'')
           | (None, M', s'') \<Rightarrow> fm_outer call sp det fps n ps (M', s'')))"

text \<open>
  \<^verbatim>\<open>FisherMatrix.__init__\<close>: it builds the \<^verbatim>\<open>Derivative\<close> instance, which can raise, and
  sets \<open>nd\<close> to the number of fisher parameters, so that the indices of the loops are
  in range.
\<close>

definition FisherMatrix_init ::
  "string \<Rightarrow> params \<Rightarrow> string list \<Rightarrow> 'n detector \<Rightarrow> real \<Rightarrow> 'w waveform_class
     \<Rightarrow> error + (('w, 'n) Derivative, 'n) FisherMatrix" where
  "FisherMatrix_init wfm parameters fps det e wc =
     (case Derivative_init wfm parameters det e wc of
        Inl err \<Rightarrow> Inl err
      | Inr D \<Rightarrow>
          Inr \<lparr> fisher_parameters = fps, fm_detector = det, derivative = D,
                nd = length fps, cached_fm = None \<rparr>)"

text \<open>The body of \<^verbatim>\<open>update_fm\<close>: the loops, started on \<^verbatim>\<open>np.zeros((nd, nd))\<close>.\<close>

definition update_fm_run ::
  "(string \<Rightarrow> 's \<Rightarrow> (error + signal) \<times> 's) \<Rightarrow> (signal \<Rightarrow> signal \<Rightarrow> 'n detector \<Rightarrow> real list)
     \<Rightarrow> ('s, 'n) FisherMatrix \<Rightarrow> error option \<times> mat \<times> 's" where
  "update_fm_run call sp FM =
     fm_outer call sp (fm_detector FM) (fisher_parameters FM) (nd FM) [0..<nd FM]
       (zeros (nd FM) (nd FM), derivative FM)"

text \<open>\<^verbatim>\<open>FisherMatrix.update_fm\<close>: the exception, if any, and the instance afterwards.\<close>

definition update_fm ::
  "(string \<Rightarrow> 's \<Rightarrow> (error + signal) \<times> 's) \<Rightarrow> (signal \<Rightarrow> signal \<Rightarrow> 'n detector \<Rightarrow> real list)
     \<Rightarrow> ('s, 'n) FisherMatrix \<Rightarrow> error option \<times> ('s, 'n) FisherMatrix" where
  "update_fm call sp FM =
     (case update_fm_run call sp FM of
        (e, M, s) \<Rightarrow> (e, FM\<lparr>cached_fm := Some M, derivative := s\<rparr>))"

text \<open>The \<^verbatim>\<open>fm\<close> property (and \<^verbatim>\<open>__call__\<close>): built on first access, then cached.\<close>

definition fm ::
  "(string \<Rightarrow> 's \<Rightarrow> (error + signal) \<times> 's) \<Rightarrow> (signal \<Rightarrow> signal \<Rightarrow> 'n detector \<Rightarrow> real list)
     \<Rightarrow> ('s, 'n) FisherMatrix \<Rightarrow> (error + mat) \<times> ('s, 'n) FisherMatrix" where
  "fm call sp FM =
     (case cached_fm FM of
        Some M \<Rightarrow> (Inr M, FM)
      | None \<Rightarrow>
          (case update_fm_run call sp FM of
             (e, M, s) \<Rightarrow>
               (case e of Some err \<Rightarrow> Inl err | None \<Rightarrow> Inr M,
                FM\<lparr>cached_fm := Some M, derivative := s\<rparr>)))"

section \<open>Sky localization\<close>

definition sky_localization_area :: "npmat \<Rightarrow> real \<Rightarrow> nat \<Rightarrow> nat \<Rightarrow> npfloat" where
  "sky_localization_area network_fisher_inverse declination_angle right_ascension_index
       declination_index =
     np_multiply (Finite (pi * \<bar>cos declination_angle\<bar>))
       (np_sqrt
          (np_subtract
             (np_multiply (network_fisher_inverse ! right_ascension_index ! right_ascension_index)
                (network_fisher_inverse ! declination_index ! declination_index))
             (np_multiply (network_fisher_inverse ! right_ascension_index ! declination_index)
                (network_fisher_inverse ! right_ascension_index ! declination_index))))"

section \<open>Per-detector evaluator\<close>

definition compute_detector_fisher ::
  "('w, 'n) collaborators \<Rightarrow> 'n detector \<Rightarrow> params \<Rightarrow> string list \<Rightarrow> string
     \<Rightarrow> 'w waveform_class \<Rightarrow> bool \<Rightarrow> error + mat \<times> real" where
  "compute_detector_fisher E det signal_parameter_values fps waveform_model wc use_duty_cycle =
     (let (wave, t_of_f) = wc waveform_model signal_parameter_values (frequencyvector det, 50);
          signal = projection E signal_parameter_values det wave t_of_f;
          component_SNRs = SNR E det signal use_duty_cycle;
          detector_SNR_square = sum_list (map (\<lambda>x. x\<^sup>2) component_SNRs)
      in case FisherMatrix_init waveform_model signal_parameter_values fps det default_eps wc of
           Inl e \<Rightarrow> Inl e
         | Inr FM \<Rightarrow>
             (case fst (fm (with_respect_to (projection E)) (scalar_product E) FM) of
                Inl e \<Rightarrow> Inl e
              | Inr M \<Rightarrow> Inr (M, detector_SNR_square)))"

section \<open>Network aggregator\<close>

text \<open>
  The loop over \<^verbatim>\<open>network.detectors\<close> for one signal; the state is
  (\<^verbatim>\<open>network_fisher_matrix\<close>, \<^verbatim>\<open>network_snr_square\<close>).
\<close>

fun detector_loop ::
  "('w, 'n) collaborators \<Rightarrow> real \<Rightarrow> params \<Rightarrow> string list \<Rightarrow> string \<Rightarrow> 'w waveform_class
     \<Rightarrow> bool \<Rightarrow> 'n detector list \<Rightarrow> mat \<times> real \<Rightarrow> error + mat \<times> real" where
  "detector_loop E detector_snr_thr spv fps wm wc udc [] acc = Inr acc"
| "detector_loop E detector_snr_thr spv fps wm wc udc (det # dets)
       (network_fisher_matrix, network_snr_square) =
     (case compute_detector_fisher E det spv fps wm wc udc of
        Inl e \<Rightarrow> Inl e
      | Inr (detector_fisher, detector_snr_square) \<Rightarrow>
          detector_loop E detector_snr_thr spv fps wm wc udc dets
            (if sqrt detector_snr_square > detector_snr_thr
             then mat_add network_fisher_matrix detector_fisher
             else network_fisher_matrix,
             network_snr_square + detector_snr_square))"

text \<open>\<^verbatim>\<open>list.index\<close>, for an element that is in the list.\<close>

fun index_of :: "'a list \<Rightarrow> 'a \<Rightarrow> nat" where
  "index_of [] x = 0"
| "index_of (y # ys) x = (if y = x then 0 else Suc (index_of ys x))"

text \<open>
  The body of the loop over the signals, for the signal \<open>k\<close>.  The state is
  (\<^verbatim>\<open>parameter_errors\<close>, \<^verbatim>\<open>sky_localization\<close>, \<^verbatim>\<open>network_snr\<close>); \<open>sky_idx\<close> is
  \<open>Some (i_ra, i_dec)\<close> when \<^verbatim>\<open>signals_havesky\<close> is true, and the array
  \<^verbatim>\<open>sky_localization\<close> exists in that case only.
\<close>

definition signal_step ::
  "('w, 'n) collaborators \<Rightarrow> 'n network \<Rightarrow> DataFrame \<Rightarrow> string list \<Rightarrow> string
     \<Rightarrow> 'w waveform_class \<Rightarrow> bool \<Rightarrow> (nat \<times> nat) option \<Rightarrow> nat
     \<Rightarrow> npmat \<times> npfloat list option \<times> real list
     \<Rightarrow> error + npmat \<times> npfloat list option \<times> real list" where
  "signal_step E net parameter_values fps wm wc udc sky_idx k st =
     (case st of (parameter_errors, sky_localization, network_snr) \<Rightarrow>
        (let n_params = length fps;
             signal_parameter_values = iloc parameter_values k
         in case detector_loop E (fst (detection_SNR net)) signal_parameter_values fps wm wc udc
                   (detectors net) (zeros n_params n_params, 0) of
              Inl e \<Rightarrow> Inl e
            | Inr (network_fisher_matrix, network_snr_square) \<Rightarrow>
                (case invertSVD (svd E) network_fisher_matrix of
                   Inl e \<Rightarrow> Inl e
                 | Inr (network_fisher_inverse, S) \<Rightarrow>
                     (let parameter_errors' =
                            parameter_errors[k := map np_sqrt (np_diagonal network_fisher_inverse)];
                          network_snr' = network_snr[k := sqrt network_snr_square]
                      in case sky_idx of
                           None \<Rightarrow> Inr (parameter_errors', sky_localization, network_snr')
                         | Some (i_ra, i_dec) \<Rightarrow>
                             (case signal_parameter_values ''dec'' of
                                None \<Rightarrow> Inl (KeyError ''dec'')
                              | Some dec \<Rightarrow>
                                  Inr (parameter_errors',
                                       map_option
                                         (\<lambda>sky. sky[k := sky_localization_area
                                                          network_fisher_inverse dec i_ra i_dec])
                                         sky_localization,
                                       network_snr'))))))"

fun signal_loop ::
  "('w, 'n) collaborators \<Rightarrow> 'n network \<Rightarrow> DataFrame \<Rightarrow> string list \<Rightarrow> string
     \<Rightarrow> 'w waveform_class \<Rightarrow> bool \<Rightarrow> (nat \<times> nat) option \<Rightarrow> nat list
     \<Rightarrow> npmat \<times> npfloat list option \<times> real list
     \<Rightarrow> error + npmat \<times> npfloat list option \<times> real list" where
  "signal_loop E net parameter_values fps wm wc udc sky_idx [] st = Inr st"
| "signal_loop E net parameter_values fps wm wc udc sky_idx (k # ks) st =
     (case signal_step E net parameter_values fps wm wc udc sky_idx k st of
        Inl e \<Rightarrow> Inl e
      | Inr st' \<Rightarrow> signal_loop E net parameter_values fps wm wc udc sky_idx ks st')"

text \<open>\<^verbatim>\<open>np.where(network_snr > network_snr_thr)\<close>: the indices, ascending.\<close>

definition detected :: "real list \<Rightarrow> real \<Rightarrow> nat list" where
  "detected network_snr network_snr_thr =
     filter (\<lambda>k. network_snr ! k > network_snr_thr) [0..<length network_snr]"

text \<open>\<^verbatim>\<open>a[detected]\<close>: the entries (or rows) of \<open>a\<close> at the given indices.\<close>

definition select :: "'a list \<Rightarrow> nat list \<Rightarrow> 'a list" where
  "select a idx = map (\<lambda>k. a ! k) idx"

text \<open>
  \<^verbatim>\<open>compute_network_errors\<close> up to the end of the loop over the signals: the two
  assertions, and the arrays \<^verbatim>\<open>parameter_errors\<close>, \<^verbatim>\<open>sky_localization\<close> and
  \<^verbatim>\<open>network_snr\<close> with one entry per signal.
\<close>

definition network_arrays ::
  "('w, 'n) collaborators \<Rightarrow> 'n network \<Rightarrow> DataFrame \<Rightarrow> string list \<Rightarrow> string
     \<Rightarrow> 'w waveform_class \<Rightarrow> bool \<Rightarrow> error + npmat \<times> npfloat list option \<times> real list" where
  "network_arrays E net parameter_values fps wm wc udc =
     (let n_params = length fps;
          n_signals = length (rows parameter_values)
      in if \<not> n_params > 0 then Inl AssertionError
         else if \<not> n_signals > 0 then Inl AssertionError
         else
           (let signals_havesky = (''ra'' \<in> set fps \<and> ''dec'' \<in> set fps);
                sky_idx = (if signals_havesky
                           then Some (index_of fps ''ra'', index_of fps ''dec'') else None);
                parameter_errors0 = float_array (zeros n_signals n_params);
                sky_localization0 =
                  (if signals_havesky then Some (replicate n_signals (Finite 0)) else None);
                network_snr0 = replicate n_signals 0
            in signal_loop E net parameter_values fps wm wc udc sky_idx [0..<n_signals]
                 (parameter_errors0, sky_localization0, network_snr0)))"

text \<open>
  \<^verbatim>\<open>compute_network_errors\<close>: the arrays, restricted to the detected signals.  The third
  component is \<^verbatim>\<open>None\<close> when the signals have no sky position.
\<close>

definition compute_network_errors ::
  "('w, 'n) collaborators \<Rightarrow> 'n network \<Rightarrow> DataFrame \<Rightarrow> string list \<Rightarrow> string
     \<Rightarrow> 'w waveform_class \<Rightarrow> bool \<Rightarrow> error + real list \<times> npmat \<times> npfloat list option" where
  "compute_network_errors E net parameter_values fps wm wc udc =
     (case network_arrays E net parameter_values fps wm wc udc of
        Inl e \<Rightarrow> Inl e
      | Inr (parameter_errors, sky_localization, network_snr) \<Rightarrow>
          (let network_snr_thr = snd (detection_SNR net);
               det_idx = detected network_snr network_snr_thr
           in Inr (select network_snr det_idx,
                   select parameter_errors det_idx,
                   map_option (\<lambda>sky. select sky det_idx) sky_localization)))"

section \<open>Reporting\<close>

text \<open>Python list indexing by an integer: a negative index counts from the end.\<close>

definition py_get :: "'a list \<Rightarrow> int \<Rightarrow> error + 'a" where
  "py_get xs i =
     (if 0 \<le> i \<and> i < int (length xs) then Inr (xs ! nat i)
      else if i < 0 \<and> - i \<le> int (length xs) then Inr (xs ! nat (int (length xs) + i))
      else Inl IndexError)"

fun names_of :: "'n detector list \<Rightarrow> int list \<Rightarrow> error + string list" where
  "names_of dets [] = Inr []"
| "names_of dets (k # ks) =
     (case py_get dets k of
        Inl e \<Rightarrow> Inl e
      | Inr d \<Rightarrow> (case names_of dets ks of Inl e \<Rightarrow> Inl e | Inr ns \<Rightarrow> Inr (name d # ns)))"

text \<open>\<^verbatim>\<open>sep.join(xs)\<close>.\<close>

fun join :: "string \<Rightarrow> string list \<Rightarrow> string" where
  "join sep [] = []"
| "join sep [x] = x"
| "join sep (x # y # ys) = x @ sep @ join sep (y # ys)"

text \<open>
  \<^verbatim>\<open>errors_file_name\<close> (defined twice in the module, with one body).  \<open>str_of\<close> is
  Python's \<^verbatim>\<open>str\<close> on a float.
\<close>

definition errors_file_name ::
  "(real \<Rightarrow> string) \<Rightarrow> 'n network \<Rightarrow> int list \<Rightarrow> string \<Rightarrow> error + string" where
  "errors_file_name str_of net sub_network_ids population_name =
     (case names_of (detectors net) sub_network_ids of
        Inl e \<Rightarrow> Inl e
      | Inr ns \<Rightarrow>
          Inr (''Errors_'' @ join ''_'' ns @ ''_'' @ population_name @ ''_SNR''
                 @ str_of (snd (detection_SNR net))))"

text \<open>What \<^verbatim>\<open>output_to_txt_file\<close> hands to \<^verbatim>\<open>np.savetxt\<close>.\<close>

record txt_file =
  file_name :: string
  header :: string
  save_data :: npmat
  fmt :: string

text \<open>
  \<^verbatim>\<open>output_to_txt_file\<close>.  \<^verbatim>\<open>np.c_\<close> raises \<^verbatim>\<open>ValueError\<close> unless its arguments have
  the same number of rows; \<open>parameter_errors\<close> has one column per fisher parameter.
\<close>

definition output_to_txt_file ::
  "DataFrame \<Rightarrow> real list \<Rightarrow> npmat \<Rightarrow> npfloat list option \<Rightarrow> string list \<Rightarrow> string
     \<Rightarrow> error + txt_file" where
  "output_to_txt_file parameter_values network_snr parameter_errors sky_localization fps filename =
     (let delim = '' '';
          header0 = ''network_SNR '' @ join delim (columns parameter_values) @ '' ''
                      @ join delim (map (\<lambda>x. ''err_'' @ x) fps);
          n = length (rows parameter_values);
          width0 = 1 + length (columns parameter_values) + length fps
      in if length network_snr \<noteq> n \<or> length parameter_errors \<noteq> n then Inl ValueError
         else
           (let data0 = map (\<lambda>k. Finite (network_snr ! k) # map Finite (rows parameter_values ! k)
                                    @ parameter_errors ! k)
                          [0..<n]
            in case sky_localization of
                 None \<Rightarrow>
                   Inr \<lparr> file_name = filename @ ''.txt'', header = header0, save_data = data0,
                         fmt = ''%s '' @ join '' '' (replicate (width0 - 1) ''%.3E'') \<rparr>
               | Some sky \<Rightarrow>
                   if length sky \<noteq> n then Inl ValueError
                   else
                     Inr \<lparr> file_name = filename @ ''.txt'',
                           header = header0 @ '' err_sky_location'',
                           save_data = map (\<lambda>k. data0 ! k @ [sky ! k]) [0..<n],
                           fmt = ''%s '' @ join '' '' (replicate width0 ''%.3E'') \<rparr>))"

text \<open>
  One iteration of the loop of \<^verbatim>\<open>analyze_and_save_to_txt\<close>.  \<open>partial\<close> is
  \<^verbatim>\<open>network.partial\<close>, of the detection module; it returns a new network or raises.
\<close>

definition analyze_one ::
  "('w, 'n) collaborators \<Rightarrow> ('n network \<Rightarrow> int list \<Rightarrow> error + 'n network) \<Rightarrow> (real \<Rightarrow> string)
     \<Rightarrow> 'n network \<Rightarrow> DataFrame \<Rightarrow> string list \<Rightarrow> int list \<Rightarrow> string \<Rightarrow> string
     \<Rightarrow> 'w waveform_class \<Rightarrow> bool \<Rightarrow> error + txt_file" where
  "analyze_one E partial str_of net parameter_values fps sub_network_ids population_name wm wc udc =
     (case partial net sub_network_ids of
        Inl e \<Rightarrow> Inl e
      | Inr partial_network \<Rightarrow>
          (case compute_network_errors E net parameter_values fps wm wc udc of
             Inl e \<Rightarrow> Inl e
           | Inr (network_snr, errors, sky_localization) \<Rightarrow>
               (case errors_file_name str_of net sub_network_ids population_name of
                  Inl e \<Rightarrow> Inl e
                | Inr filename \<Rightarrow>
                    output_to_txt_file parameter_values network_snr errors sky_localization
                      fps filename)))"

text \<open>
  \<^verbatim>\<open>analyze_and_save_to_txt\<close>: the files written, in order, and the exception that
  stopped the loop, if any.
\<close>

fun analyze_and_save_to_txt ::
  "('w, 'n) collaborators \<Rightarrow> ('n network \<Rightarrow> int list \<Rightarrow> error + 'n network) \<Rightarrow> (real \<Rightarrow> string)
     \<Rightarrow> 'n network \<Rightarrow> DataFrame \<Rightarrow> string list \<Rightarrow> int list list \<Rightarrow> string \<Rightarrow> string
     \<Rightarrow> 'w waveform_class \<Rightarrow> bool \<Rightarrow> txt_file list \<times> error option" where
  "analyze_and_save_to_txt E partial str_of net parameter_values fps [] population_name wm wc udc =
     ([], None)"
| "analyze_and_save_to_txt E partial str_of net parameter_values fps (ids # rest) population_name
       wm wc udc =
     (case analyze_one E partial str_of net parameter_values fps ids population_name wm wc udc of
        Inl e \<Rightarrow> ([], Some e)
      | Inr f \<Rightarrow>
          (case analyze_and_save_to_txt E partial str_of net parameter_values fps rest
                  population_name wm wc udc of
             (fs, e) \<Rightarrow> (f # fs, e)))"

section \<open>Properties stated of matrices\<close>

text \<open>An \<open>n\<close> by \<open>n\<close> matrix that equals its transpose.\<close>

definition symmetric :: "nat \<Rightarrow> mat \<Rightarrow> bool" where
  "symmetric n M \<longleftrightarrow>
     length M = n \<and> (\<forall>i<n. length (M ! i) = n) \<and> (\<forall>i<n. \<forall>j<n. M ! i ! j = M ! j ! i)"

text \<open>An \<open>n\<close> by \<open>n\<close> array.\<close>

definition square :: "nat \<Rightarrow> 'a list list \<Rightarrow> bool" where
  "square n M \<longleftrightarrow> length M = n \<and> (\<forall>i<n. length (M ! i) = n)"

text \<open>\<^verbatim>\<open>np.eye(n)\<close>: the identity matrix.\<close>

definition eye :: "nat \<Rightarrow> mat" where
  "eye n = np_diag (replicate n 1)"

text \<open>
  What \<^verbatim>\<open>np.linalg.svd\<close> returns for an \<open>n\<close> by \<open>n\<close> matrix \<open>A\<close> of finite entries, as far
  as the statements below need it: \<open>U\<close> and \<open>Vh\<close> are \<open>n\<close> by \<open>n\<close> with orthonormal columns,
  the singular values \<open>S\<close> are non-negative and in descending order, and
  \<open>A = U diag(S) Vh\<close>.
\<close>

definition svd_contract :: "nat \<Rightarrow> npmat \<Rightarrow> mat \<Rightarrow> real list \<Rightarrow> mat \<Rightarrow> bool" where
  "svd_contract n A U S Vh \<longleftrightarrow>
     square n U \<and> length S = n \<and> square n Vh
     \<and> (\<forall>l<n. 0 \<le> S ! l) \<and> sorted_wrt (\<lambda>a b. a \<ge> b) S
     \<and> (\<forall>i<n. \<forall>j<n. A ! i ! j = Finite (\<Sum>l<n. U ! i ! l * S ! l * Vh ! l ! j))
     \<and> (\<forall>a<n. \<forall>b<n. (\<Sum>k<n. U ! k ! a * U ! k ! b) = (if a = b then 1 else 0))
     \<and> (\<forall>a<n. \<forall>b<n. (\<Sum>k<n. Vh ! k ! a * Vh ! k ! b) = (if a = b then 1 else 0))"

text \<open>
  The entry of the pair \<open>(i, j)\<close> of a Fisher matrix whose derivative with respect to the
  parameter \<open>p\<close> is \<open>dv p\<close>: the scalar product, summed over the frequency axis, with the
  smaller index first.
\<close>

definition pair_entry ::
  "(signal \<Rightarrow> signal \<Rightarrow> 'n detector \<Rightarrow> real list) \<Rightarrow> 'n detector \<Rightarrow> (string \<Rightarrow> signal)
     \<Rightarrow> string list \<Rightarrow> nat \<Rightarrow> nat \<Rightarrow> real" where
  "pair_entry sp det dv fps i j = sum_list (sp (dv (fps ! min i j)) (dv (fps ! max i j)) det)"

section \<open>The derivative as a function of the central parameters\<close>

text \<open>
  The central waveform and its projection, as the two cached properties compute them
  from the fields that never change, and the instances whose caches, where filled, hold
  these values and whose waveform object holds the central parameters.  A new instance
  is consistent.  \<open>same_instance\<close> relates two states of one instance.
  \<open>derivative_value\<close> is what \<^verbatim>\<open>with_respect_to\<close> returns for a consistent instance.
\<close>

definition central_waveform :: "('w, 'n) Derivative \<Rightarrow> 'w \<times> real list" where
  "central_waveform D = wf_class D (waveform D) (local_params D) (data_params D)"

definition central_projection ::
  "(params \<Rightarrow> 'n detector \<Rightarrow> 'w \<Rightarrow> real list \<Rightarrow> signal) \<Rightarrow> ('w, 'n) Derivative \<Rightarrow> signal" where
  "central_projection proj D =
     proj (local_params D) (detector D) (fst (central_waveform D)) (snd (central_waveform D))"

definition consistent ::
  "(params \<Rightarrow> 'n detector \<Rightarrow> 'w \<Rightarrow> real list \<Rightarrow> signal) \<Rightarrow> ('w, 'n) Derivative \<Rightarrow> bool" where
  "consistent proj D \<longleftrightarrow>
     waveform_object D = local_params D
     \<and> (\<forall>w. cached_waveform_at_parameters D = Some w \<longrightarrow> w = central_waveform D)
     \<and> (\<forall>p. cached_projection_at_parameters D = Some p \<longrightarrow> p = central_projection proj D)"

definition same_instance :: "('w, 'n) Derivative \<Rightarrow> ('w, 'n) Derivative \<Rightarrow> bool" where
  "same_instance D0 D \<longleftrightarrow>
     waveform D = waveform D0 \<and> detector D = detector D0 \<and> eps D = eps D0
     \<and> wf_class D = wf_class D0 \<and> data_params D = data_params D0
     \<and> local_params D = local_params D0 \<and> tc D = tc D0"

definition derivative_value ::
  "(params \<Rightarrow> 'n detector \<Rightarrow> 'w \<Rightarrow> real list \<Rightarrow> signal) \<Rightarrow> ('w, 'n) Derivative \<Rightarrow> string
     \<Rightarrow> error + signal" where
  "derivative_value proj D target_parameter =
     (if target_parameter = ''luminosity_distance'' then
        (case local_params D target_parameter of
           None \<Rightarrow> Inl (KeyError target_parameter)
         | Some d \<Rightarrow> Inr (sig_scale (complex_of_real (- 1 / d)) (central_projection proj D)))
      else if target_parameter = ''geocent_time'' then
        Inr (col_mul (map (\<lambda>f. 2 * \<i> * complex_of_real pi * complex_of_real f)
                        (frequencyvector (detector D))) (central_projection proj D))
      else if target_parameter = ''phase'' then
        Inr (sig_scale (- \<i>) (central_projection proj D))
      else
        (case local_params D target_parameter of
           None \<Rightarrow> Inl (KeyError target_parameter)
         | Some pv \<Rightarrow>
             (let dp = step_size (eps D) pv;
                  p1 = (local_params D)(target_parameter \<mapsto> pv - dp / 2);
                  p2 = (local_params D)(target_parameter \<mapsto> pv + dp / 2)
              in if target_parameter \<in> set [''ra'', ''dec'', ''psi''] then
                   Inr (sig_div
                          (sig_sub
                             (proj p2 (detector D) (fst (central_waveform D)) (snd (central_waveform D)))
                             (proj p1 (detector D) (fst (central_waveform D)) (snd (central_waveform D))))
                          (complex_of_real dp))
                 else
                   (let w1 = wf_class D (waveform D) (p1(''geocent_time'' \<mapsto> 0)) (data_params D);
                        w2 = wf_class D (waveform D) (p2(''geocent_time'' \<mapsto> 0)) (data_params D);
                        signal1 = proj (p1(''geocent_time'' \<mapsto> tc D)) (detector D) (fst w1)
                                    (map (\<lambda>t. t + tc D) (snd w1));
                        signal2 = proj (p2(''geocent_time'' \<mapsto> tc D)) (detector D) (fst w2)
                                    (map (\<lambda>t. t + tc D) (snd w2))
                    in Inr (sig_div
                              (col_mul
                                 (map (\<lambda>f. exp (2 * \<i> * complex_of_real pi * complex_of_real f
                                                   * complex_of_real (tc D)))
                                    (frequencyvector (detector D)))
                                 (sig_sub signal2 signal1))
                              (complex_of_real dp))))))"

section \<open>Observing the invocations of the derivative\<close>

text \<open>
  The callable \<open>call\<close> with a trace beside its state: the results and the state are
  those of \<open>call\<close>, and every invocation appends its parameter to the trace.
  \<open>traced FM\<close> is the instance \<open>FM\<close> with the empty trace beside its derivative.
\<close>

definition logged ::
  "(string \<Rightarrow> 's \<Rightarrow> (error + signal) \<times> 's) \<Rightarrow> string \<Rightarrow> 's \<times> string list
     \<Rightarrow> (error + signal) \<times> ('s \<times> string list)" where
  "logged call p st = (case call p (fst st) of (r, s') \<Rightarrow> (r, (s', snd st @ [p])))"


definition traced :: "('s, 'n) FisherMatrix \<Rightarrow> ('s \<times> string list, 'n) FisherMatrix" where
  "traced FM =
     \<lparr> fisher_parameters = fisher_parameters FM, fm_detector = fm_detector FM,
       derivative = (derivative FM, []), nd = nd FM, cached_fm = cached_fm FM \<rparr>"

section \<open>Example inputs\<close>

text \<open>Concrete collaborators and inputs on which the statements below are evaluated.\<close>

definition ex_detector :: "unit detector" where
  "ex_detector = \<lparr> name = ''ET'', frequencyvector = [1], noise = () \<rparr>"

definition ex_waveform_class :: "unit waveform_class" where
  "ex_waveform_class wm p dp = ((), [0])"

definition ex_projection :: "params \<Rightarrow> unit detector \<Rightarrow> unit \<Rightarrow> real list \<Rightarrow> signal" where
  "ex_projection p det w t = [[complex_of_real (case p ''dec'' of None \<Rightarrow> 0 | Some v \<Rightarrow> v)]]"

definition ex_params :: params where
  "ex_params = [''geocent_time'' \<mapsto> 0, ''luminosity_distance'' \<mapsto> 2, ''dec'' \<mapsto> - 2]"

definition ex_Derivative :: "(unit, unit) Derivative" where
  "ex_Derivative =
     \<lparr> waveform = ''IMRPhenomD'', detector = ex_detector, eps = default_eps,
       wf_class = ex_waveform_class, data_params = ([1], 50), waveform_object = ex_params,
       cached_waveform_at_parameters = None, cached_projection_at_parameters = None,
       local_params = ex_params, pv_set1 = ex_params, pv_set2 = ex_params, tc = 0 \<rparr>"

definition ex_scalar_product :: "signal \<Rightarrow> signal \<Rightarrow> unit detector \<Rightarrow> real list" where
  "ex_scalar_product a b det = map2 (\<lambda>x y. Re (x * cnj y)) (concat a) (concat b)"

definition ex_fisher_parameters :: "string list" where
  "ex_fisher_parameters = [''luminosity_distance'', ''dec'']"

definition ex_FisherMatrix :: "((unit, unit) Derivative, unit) FisherMatrix" where
  "ex_FisherMatrix =
     \<lparr> fisher_parameters = ex_fisher_parameters, fm_detector = ex_detector,
       derivative = ex_Derivative, nd = 2, cached_fm = None \<rparr>"

definition ex_detector2 :: "unit detector" where
  "ex_detector2 = \<lparr> name = ''CE'', frequencyvector = [1], noise = () \<rparr>"

definition ex_SNR :: "unit detector \<Rightarrow> signal \<Rightarrow> bool \<Rightarrow> real list" where
  "ex_SNR det s use_duty_cycle = (if name det = ''ET'' then [4] else map (\<lambda>z. Re z - 1) (concat s))"

text \<open>
  The singular value decomposition of a one by one matrix.  Like numpy's, it raises
  \<^verbatim>\<open>LinAlgError\<close> when the entry is not finite.
\<close>

definition ex_svd :: "npmat \<Rightarrow> error + mat \<times> real list \<times> mat" where
  "ex_svd A =
     (case A ! 0 ! 0 of
        Finite m \<Rightarrow> Inr ([[1]], [\<bar>m\<bar>], [[if m < 0 then - 1 else 1]])
      | _ \<Rightarrow> Inl LinAlgError)"

definition ex_collaborators :: "(unit, unit) collaborators" where
  "ex_collaborators =
     \<lparr> projection = ex_projection, SNR = ex_SNR, scalar_product = ex_scalar_product,
       svd = ex_svd \<rparr>"

definition ex_network :: "unit network" where
  "ex_network = \<lparr> detectors = [ex_detector, ex_detector2], detection_SNR = (3, 4) \<rparr>"

definition ex_parameter_values :: DataFrame where
  "ex_parameter_values =
     \<lparr> columns = [''geocent_time'', ''luminosity_distance'', ''dec''],
       rows = [[0, 2, 4], [0, 1 / 2, 1]] \<rparr>"

definition ex_single :: DataFrame where
  "ex_single =
     \<lparr> columns = [''geocent_time'', ''luminosity_distance'', ''dec''], rows = [[0, 2, 4]] \<rparr>"

text \<open>Two signals of which only the second reaches the network threshold.\<close>

definition ex_late :: DataFrame where
  "ex_late =
     \<lparr> columns = [''geocent_time'', ''luminosity_distance'', ''dec''],
       rows = [[0, 1, 1], [0, 2, 4]] \<rparr>"

text \<open>A \<^verbatim>\<open>partial\<close> that picks the detectors at the given indices, and a \<^verbatim>\<open>str\<close>.\<close>

fun ex_pick :: "'a list \<Rightarrow> int list \<Rightarrow> error + 'a list" where
  "ex_pick xs [] = Inr []"
| "ex_pick xs (k # ks) =
     (case py_get xs k of
        Inl e \<Rightarrow> Inl e
      | Inr x \<Rightarrow> (case ex_pick xs ks of Inl e \<Rightarrow> Inl e | Inr ys \<Rightarrow> Inr (x # ys)))"

definition ex_partial :: "unit network \<Rightarrow> int list \<Rightarrow> error + unit network" where
  "ex_partial net ids =
     (case ex_pick (detectors net) ids of
        Inl e \<Rightarrow> Inl e
      | Inr ds \<Rightarrow> Inr (net\<lparr>detectors := ds\<rparr>))"

definition ex_str_of :: "real \<Rightarrow> string" where
  "ex_str_of x = (if x = 4 then ''4.0'' else ''?'')"

text \<open>A singular value decomposition of the matrix of ones, and a network whose individual threshold no detector reaches.\<close>

definition ex_svd2 :: "npmat \<Rightarrow> error + mat \<times> real list \<times> mat" where
  "ex_svd2 M =
     Inr ([[1 / sqrt 2, 1 / sqrt 2], [1 / sqrt 2, - (1 / sqrt 2)]], [2, 0],
          [[1 / sqrt 2, 1 / sqrt 2], [1 / sqrt 2, - (1 / sqrt 2)]])"

definition ex_network_quiet :: "unit network" where
  "ex_network_quiet = \<lparr> detectors = [ex_detector, ex_detector2], detection_SNR = (10, 4) \<rparr>"

text \<open>The same two detectors under an individual threshold that both exceed.\<close>

definition ex_network_both :: "unit network" where
  "ex_network_both = \<lparr> detectors = [ex_detector, ex_detector2], detection_SNR = (2, 4) \<rparr>"

text \<open>A singular value decomposition of the normalized matrix of \<open>[[4, 2], [2, 4]]\<close>.\<close>

definition ex_svd3 :: "npmat \<Rightarrow> error + mat \<times> real list \<times> mat" where
  "ex_svd3 M =
     Inr ([[1 / sqrt 2, 1 / sqrt 2], [1 / sqrt 2, - (1 / sqrt 2)]], [3 / 2, 1 / 2],
          [[1 / sqrt 2, 1 / sqrt 2], [1 / sqrt 2, - (1 / sqrt 2)]])"

section \<open>The derivative engine: properties\<close>

lemma waveform_at_parameters_fields:
  "local_params (snd (waveform_at_parameters D)) = local_params D"
  "detector (snd (waveform_at_parameters D)) = detector D"
  "eps (snd (waveform_at_parameters D)) = eps D"
  "tc (snd (waveform_at_parameters D)) = tc D"
  "pv_set1 (snd (waveform_at_parameters D)) = pv_set1 D"
  "pv_set2 (snd (waveform_at_parameters D)) = pv_set2 D"
  "cached_projection_at_parameters (snd (waveform_at_parameters D)) = cached_projection_at_parameters D"
  "cached_waveform_at_parameters (snd (waveform_at_parameters D)) = Some (fst (waveform_at_parameters D))"
  by (auto simp: waveform_at_parameters_def Let_def split: option.splits)

lemma waveform_at_parameters_again:
  "fst (waveform_at_parameters (snd (waveform_at_parameters D))) = fst (waveform_at_parameters D)"
  by (auto simp: waveform_at_parameters_def Let_def split: option.splits)

lemma with_respect_to_numeric:
  assumes "target \<noteq> ''luminosity_distance''" "target \<noteq> ''geocent_time''" "target \<noteq> ''phase''"
    and "local_params D target = Some pv"
  shows "with_respect_to proj target D =
     (let dp = step_size (eps D) pv;
          D0 = D\<lparr>pv_set1 := (local_params D)(target \<mapsto> pv - dp / 2),
                 pv_set2 := (local_params D)(target \<mapsto> pv + dp / 2)\<rparr>;
          r = (if target \<in> set [''ra'', ''dec'', ''psi'']
                     then projection_difference proj dp D0
                     else waveform_difference proj dp D0)
      in (Inr (fst r), update_gw_params (snd r)))"
  using assms by (simp add: with_respect_to_def Let_def split_beta)

lemma projection_difference_pv:
  "pv_set1 (snd (projection_difference proj dp D)) = pv_set1 D"
  "pv_set2 (snd (projection_difference proj dp D)) = pv_set2 D"
  by (simp_all add: projection_difference_def Let_def split_beta waveform_at_parameters_fields)

lemma waveform_difference_pv:
  "pv_set1 (snd (waveform_difference proj dp D)) = (pv_set1 D)(''geocent_time'' \<mapsto> tc D)"
  "pv_set2 (snd (waveform_difference proj dp D)) = (pv_set2 D)(''geocent_time'' \<mapsto> tc D)"
  by (simp_all add: waveform_difference_def Let_def split_beta)

lemma update_gw_params_pv:
  "pv_set1 (update_gw_params D) = pv_set1 D"  "pv_set2 (update_gw_params D) = pv_set2 D"
  "cached_projection_at_parameters (update_gw_params D) = cached_projection_at_parameters D"
  by (simp_all add: update_gw_params_def)

lemma perturbed_points:
  assumes "target \<noteq> ''luminosity_distance''" "target \<noteq> ''geocent_time''" "target \<noteq> ''phase''"
    and "local_params D target = Some pv"
  shows "pv_set1 (snd (with_respect_to proj target D)) target = Some (pv - step_size (eps D) pv / 2)"
    and "pv_set2 (snd (with_respect_to proj target D)) target = Some (pv + step_size (eps D) pv / 2)"
  using assms
  by (auto simp: with_respect_to_numeric Let_def update_gw_params_pv projection_difference_pv
        waveform_difference_pv)

lemma numeric_projection_branch:
  assumes "target \<in> set [''ra'', ''dec'', ''psi'']" and "local_params D target = Some pv"
  shows "fst (with_respect_to proj target D) =
     (let dp = step_size (eps D) pv;
          (wave, t_of_f) = fst (waveform_at_parameters D)
      in Inr (sig_div
               (sig_sub (proj ((local_params D)(target \<mapsto> pv + dp / 2)) (detector D) wave t_of_f)
                        (proj ((local_params D)(target \<mapsto> pv - dp / 2)) (detector D) wave t_of_f))
               (complex_of_real dp)))"
proof -
  have "target \<noteq> ''luminosity_distance''" "target \<noteq> ''geocent_time''" "target \<noteq> ''phase''"
    using assms(1) by auto
  then show ?thesis
    using assms
    by (simp add: with_respect_to_numeric Let_def split_beta projection_difference_def
          waveform_at_parameters_fields waveform_at_parameters_def split: option.splits)
qed

lemma numeric_waveform_branch:
  assumes "target \<noteq> ''luminosity_distance''" "target \<noteq> ''geocent_time''" "target \<noteq> ''phase''"
    and "target \<notin> set [''ra'', ''dec'', ''psi'']" and "local_params D target = Some pv"
  shows "fst (with_respect_to proj target D) =
     (let dp = step_size (eps D) pv;
          p1 = (local_params D)(target \<mapsto> pv - dp / 2);
          p2 = (local_params D)(target \<mapsto> pv + dp / 2);
          (wave1, t_of_f1) = wf_class D (waveform D) (p1(''geocent_time'' \<mapsto> 0)) (data_params D);
          (wave2, t_of_f2) = wf_class D (waveform D) (p2(''geocent_time'' \<mapsto> 0)) (data_params D);
          signal1 = proj (p1(''geocent_time'' \<mapsto> tc D)) (detector D) wave1 (map (\<lambda>t. t + tc D) t_of_f1);
          signal2 = proj (p2(''geocent_time'' \<mapsto> tc D)) (detector D) wave2 (map (\<lambda>t. t + tc D) t_of_f2)
      in Inr (sig_div
               (col_mul (map (\<lambda>f. exp (2 * \<i> * complex_of_real pi * complex_of_real f * complex_of_real (tc D)))
                           (frequencyvector (detector D)))
                        (sig_sub signal2 signal1))
               (complex_of_real dp)))"
  using assms
  by (simp add: with_respect_to_numeric Let_def split_beta waveform_difference_def)

lemma step_size_cases:
  "0 \<le> pv \<Longrightarrow> step_size e pv = max e (e * \<bar>pv\<bar>)"
  "pv < 0 \<Longrightarrow> 0 < e \<Longrightarrow> step_size e pv = e"
proof -
  show "0 \<le> pv \<Longrightarrow> step_size e pv = max e (e * \<bar>pv\<bar>)"
    by (simp add: step_size_def)
  assume "pv < 0" "0 < e"
  then have "e * pv < 0" by (simp add: mult_pos_neg)
  with \<open>0 < e\<close> have "e * pv \<le> e" by linarith
  then show "step_size e pv = e" unfolding step_size_def by (rule max_absorb1)
qed

lemma projection_at_parameters_cached:
  "cached_projection_at_parameters (snd (projection_at_parameters proj D)) = Some (fst (projection_at_parameters proj D))"
  "cached_projection_at_parameters D = Some P0 \<Longrightarrow> fst (projection_at_parameters proj D) = P0"
  "detector (snd (projection_at_parameters proj D)) = detector D"
  by (auto simp: projection_at_parameters_def Let_def split_beta waveform_at_parameters_fields split: option.splits)

lemma projection_at_parameters_fresh:
  "cached_projection_at_parameters D = None \<Longrightarrow>
   fst (projection_at_parameters proj D) =
     proj (local_params D) (detector D) (fst (fst (waveform_at_parameters D))) (snd (fst (waveform_at_parameters D)))"
  by (simp add: projection_at_parameters_def Let_def split_beta waveform_at_parameters_fields waveform_at_parameters_again)

lemma analytic_luminosity_distance:
  "local_params D ''luminosity_distance'' = Some d \<Longrightarrow>
     fst (with_respect_to proj ''luminosity_distance'' D)
       = Inr (map (map (\<lambda>z. complex_of_real (- (1 / d)) * z)) (fst (projection_at_parameters proj D)))"
  by (simp add: with_respect_to_def split_beta sig_scale_def)

lemma analytic_geocent_time:
  "fst (with_respect_to proj ''geocent_time'' D)
       = Inr (map2 (\<lambda>f row. map (\<lambda>z. \<i> * complex_of_real (2 * pi * f) * z) row)
               (frequencyvector (detector D)) (fst (projection_at_parameters proj D)))"
proof -
  have "(\<lambda>x. map ((*) (2 * \<i> * complex_of_real pi * complex_of_real (fst x))) (snd x))
      = (\<lambda>x. map ((*) (\<i> * (2 * complex_of_real pi * complex_of_real (fst x)))) (snd x))"
    by (rule ext) (simp add: mult_ac)
  then show ?thesis
    by (simp add: with_respect_to_def split_beta col_mul_def projection_at_parameters_cached
        zip_map1 o_def)
qed

lemma analytic_phase:
  "fst (with_respect_to proj ''phase'' D)
       = Inr (map (map (\<lambda>z. - \<i> * z)) (fst (projection_at_parameters proj D)))"
  by (simp add: with_respect_to_def split_beta sig_scale_def)

lemma analytic_caches:
  "local_params D ''luminosity_distance'' = Some d \<Longrightarrow>
     cached_projection_at_parameters (snd (with_respect_to proj ''luminosity_distance'' D))
       = Some (fst (projection_at_parameters proj D))"
  "cached_projection_at_parameters (snd (with_respect_to proj ''geocent_time'' D))
       = Some (fst (projection_at_parameters proj D))"
  "cached_projection_at_parameters (snd (with_respect_to proj ''phase'' D))
       = Some (fst (projection_at_parameters proj D))"
  by (simp_all add: with_respect_to_def split_beta update_gw_params_pv projection_at_parameters_cached)


lemma ex_Derivative_init:
  "Derivative_init ''IMRPhenomD'' ex_params ex_detector default_eps ex_waveform_class = Inr ex_Derivative"
  by (simp add: Derivative_init_def ex_Derivative_def ex_params_def ex_detector_def)

lemma ex_Derivative_fields:
  "local_params ex_Derivative ''dec'' = Some (- 2)"
  "local_params ex_Derivative ''luminosity_distance'' = Some 2"
  "eps ex_Derivative = 1 / 10 ^ 5"
  "cached_projection_at_parameters ex_Derivative = None"
  by (simp_all add: ex_Derivative_def ex_params_def default_eps_def)

text \<open>
  Claim C3, as the code has it.  For every numerically differentiated parameter (the
  projection-only branch for \<^verbatim>\<open>ra\<close>, \<^verbatim>\<open>dec\<close>, \<^verbatim>\<open>psi\<close> and the branch that generates
  both waveforms again) the step is \<open>d\<theta> = max eps (eps * \<theta>)\<close>, with no absolute value,
  the default \<open>eps\<close> is \<open>1e-5\<close>, and the two perturbed points are \<open>\<theta> - d\<theta>/2\<close> and
  \<open>\<theta> + d\<theta>/2\<close>: they are the values stored in \<^verbatim>\<open>pv_set1\<close> and \<^verbatim>\<open>pv_set2\<close> and the
  points at which the projection (and the waveform) is evaluated.  For \<open>\<theta> \<ge> 0\<close> the step
  equals \<open>max eps (eps * |\<theta>|)\<close>; for \<open>\<theta> < 0\<close> and a positive \<open>eps\<close> it is \<open>eps\<close>.
\<close>

theorem C3_finite_difference_step:
  assumes "target \<noteq> ''luminosity_distance''" "target \<noteq> ''geocent_time''" "target \<noteq> ''phase''"
    and "local_params D target = Some pv"
  shows "step_size (eps D) pv = max (eps D) (eps D * pv)
    \<and> default_eps = 1 / 100000
    \<and> pv_set1 (snd (with_respect_to proj target D)) target = Some (pv - step_size (eps D) pv / 2)
    \<and> pv_set2 (snd (with_respect_to proj target D)) target = Some (pv + step_size (eps D) pv / 2)
    \<and> (target \<in> set [''ra'', ''dec'', ''psi''] \<longrightarrow>
         fst (with_respect_to proj target D) =
           (let dp = step_size (eps D) pv;
                (wave, t_of_f) = fst (waveform_at_parameters D)
            in Inr (sig_div
                 (sig_sub (proj ((local_params D)(target \<mapsto> pv + dp / 2)) (detector D) wave t_of_f)
                          (proj ((local_params D)(target \<mapsto> pv - dp / 2)) (detector D) wave t_of_f))
                 (complex_of_real dp))))
    \<and> (target \<notin> set [''ra'', ''dec'', ''psi''] \<longrightarrow>
         fst (with_respect_to proj target D) =
           (let dp = step_size (eps D) pv;
                p1 = (local_params D)(target \<mapsto> pv - dp / 2);
                p2 = (local_params D)(target \<mapsto> pv + dp / 2);
                (wave1, t_of_f1) = wf_class D (waveform D) (p1(''geocent_time'' \<mapsto> 0)) (data_params D);
                (wave2, t_of_f2) = wf_class D (waveform D) (p2(''geocent_time'' \<mapsto> 0)) (data_params D);
                signal1 = proj (p1(''geocent_time'' \<mapsto> tc D)) (detector D) wave1
                            (map (\<lambda>t. t + tc D) t_of_f1);
                signal2 = proj (p2(''geocent_time'' \<mapsto> tc D)) (detector D) wave2
                            (map (\<lambda>t. t + tc D) t_of_f2)
            in Inr (sig_div
                 (col_mul (map (\<lambda>f. exp (2 * \<i> * complex_of_real pi * complex_of_real f
                                           * complex_of_real (tc D)))
                             (frequencyvector (detector D)))
                          (sig_sub signal2 signal1))
                 (complex_of_real dp))))
    \<and> (0 \<le> pv \<longrightarrow> step_size (eps D) pv = max (eps D) (eps D * \<bar>pv\<bar>))
    \<and> (pv < 0 \<and> 0 < eps D \<longrightarrow> step_size (eps D) pv = eps D)"
proof -
  have a: "step_size (eps D) pv = max (eps D) (eps D * pv)" "default_eps = 1 / 100000"
    by (simp_all add: step_size_def default_eps_def)
  note b = perturbed_points[OF assms, of proj]
  have c: "target \<in> set [''ra'', ''dec'', ''psi''] \<longrightarrow>
         fst (with_respect_to proj target D) =
           (let dp = step_size (eps D) pv;
                (wave, t_of_f) = fst (waveform_at_parameters D)
            in Inr (sig_div
                 (sig_sub (proj ((local_params D)(target \<mapsto> pv + dp / 2)) (detector D) wave t_of_f)
                          (proj ((local_params D)(target \<mapsto> pv - dp / 2)) (detector D) wave t_of_f))
                 (complex_of_real dp)))"
    using numeric_projection_branch[OF _ assms(4), of proj] by blast
  have d: "target \<notin> set [''ra'', ''dec'', ''psi''] \<longrightarrow>
         fst (with_respect_to proj target D) =
           (let dp = step_size (eps D) pv;
                p1 = (local_params D)(target \<mapsto> pv - dp / 2);
                p2 = (local_params D)(target \<mapsto> pv + dp / 2);
                (wave1, t_of_f1) = wf_class D (waveform D) (p1(''geocent_time'' \<mapsto> 0)) (data_params D);
                (wave2, t_of_f2) = wf_class D (waveform D) (p2(''geocent_time'' \<mapsto> 0)) (data_params D);
                signal1 = proj (p1(''geocent_time'' \<mapsto> tc D)) (detector D) wave1
                            (map (\<lambda>t. t + tc D) t_of_f1);
                signal2 = proj (p2(''geocent_time'' \<mapsto> tc D)) (detector D) wave2
                            (map (\<lambda>t. t + tc D) t_of_f2)
            in Inr (sig_div
                 (col_mul (map (\<lambda>f. exp (2 * \<i> * complex_of_real pi * complex_of_real f
                                           * complex_of_real (tc D)))
                             (frequencyvector (detector D)))
                          (sig_sub signal2 signal1))
                 (complex_of_real dp)))"
    using numeric_waveform_branch[OF assms(1-3) _ assms(4), of proj] by blast
  have e: "0 \<le> pv \<longrightarrow> step_size (eps D) pv = max (eps D) (eps D * \<bar>pv\<bar>)"
    "pv < 0 \<and> 0 < eps D \<longrightarrow> step_size (eps D) pv = eps D"
    using step_size_cases[of pv "eps D"] by blast+
  from a b c d e show ?thesis by blast
qed

text \<open>The statement at \<open>\<theta> = -2\<close> for \<^verbatim>\<open>dec\<close>, with the default \<open>eps\<close>.\<close>

theorem C3_finite_difference_step_witness:
  "pv_set1 (snd (with_respect_to ex_projection ''dec'' ex_Derivative)) ''dec''
     = Some (- 2 - (1 / 10 ^ 5) / 2)
   \<and> pv_set2 (snd (with_respect_to ex_projection ''dec'' ex_Derivative)) ''dec''
     = Some (- 2 + (1 / 10 ^ 5) / 2)"
  using C3_finite_difference_step[of "''dec''" ex_Derivative "- 2" ex_projection]
  by (simp add: ex_Derivative_fields step_size_def)

text \<open>
  With \<open>\<theta> = -2\<close> and \<open>eps = 1e-5\<close> the lower point is not \<open>\<theta> - max eps (eps * |\<theta>|) / 2\<close>.
\<close>

theorem C3_counterexample:
  "local_params ex_Derivative ''dec'' = Some (- 2) \<and> eps ex_Derivative = 1 / 10 ^ 5
   \<and> pv_set1 (snd (with_respect_to ex_projection ''dec'' ex_Derivative)) ''dec''
       \<noteq> Some (- 2 - max (1 / 10 ^ 5) (1 / 10 ^ 5 * \<bar>- 2\<bar>) / 2)"
  using perturbed_points(1)[of "''dec''" ex_Derivative "- 2" ex_projection]
  by (simp add: ex_Derivative_fields step_size_def)

lemma ex_central_projection:
  "fst (projection_at_parameters ex_projection ex_Derivative) = [[- 2]]"
  by (simp add: projection_at_parameters_fresh ex_Derivative_fields)
     (simp add: ex_projection_def ex_Derivative_def ex_params_def)

lemma ex_frequencyvector: "frequencyvector (detector ex_Derivative) = [1]"
  by (simp add: ex_Derivative_def ex_detector_def)

text \<open>
  Claim C4.  The three analytic derivatives are built from the central projection \<open>P\<close>,
  the value of the cached property \<^verbatim>\<open>projection_at_parameters\<close> (the cache when it is
  filled, the projection of the central waveform at the central parameters otherwise;
  the call leaves it cached): for \<^verbatim>\<open>luminosity_distance\<close> the result is \<open>-(1/d) * P\<close> with
  \<open>d\<close> the central luminosity distance, for \<^verbatim>\<open>geocent_time\<close> it is \<open>\<i> * 2 * pi * f * P\<close>
  row by row, \<open>f\<close> being the frequency of the row's bin, and for \<^verbatim>\<open>phase\<close> it is
  \<open>- \<i> * P\<close>.
\<close>

theorem C4_analytic_derivatives:
  "(let P = fst (projection_at_parameters proj D) in
     (\<forall>d. local_params D ''luminosity_distance'' = Some d \<longrightarrow>
        fst (with_respect_to proj ''luminosity_distance'' D)
          = Inr (map (map (\<lambda>z. complex_of_real (- (1 / d)) * z)) P)
        \<and> cached_projection_at_parameters (snd (with_respect_to proj ''luminosity_distance'' D))
          = Some P)
     \<and> fst (with_respect_to proj ''geocent_time'' D)
          = Inr (map2 (\<lambda>f row. map (\<lambda>z. \<i> * complex_of_real (2 * pi * f) * z) row)
                  (frequencyvector (detector D)) P)
     \<and> cached_projection_at_parameters (snd (with_respect_to proj ''geocent_time'' D)) = Some P
     \<and> fst (with_respect_to proj ''phase'' D) = Inr (map (map (\<lambda>z. - \<i> * z)) P)
     \<and> cached_projection_at_parameters (snd (with_respect_to proj ''phase'' D)) = Some P
     \<and> (\<forall>P0. cached_projection_at_parameters D = Some P0 \<longrightarrow> P = P0)
     \<and> (cached_projection_at_parameters D = None \<longrightarrow>
          P = proj (local_params D) (detector D) (fst (fst (waveform_at_parameters D)))
                (snd (fst (waveform_at_parameters D)))))"
  unfolding Let_def
  using analytic_luminosity_distance[of D _ proj] analytic_geocent_time[of proj D]
    analytic_phase[of proj D] analytic_caches(1)[of D _ proj] analytic_caches(2,3)[of proj D]
    projection_at_parameters_cached(2)[of D _ proj] projection_at_parameters_fresh[of D proj]
  by blast

text \<open>The three results for a one-bin detector at frequency 1, \<open>d = 2\<close> and \<open>P = [[-2]]\<close>.\<close>

theorem C4_analytic_derivatives_witness:
  "fst (with_respect_to ex_projection ''luminosity_distance'' ex_Derivative) = Inr [[1]]
   \<and> fst (with_respect_to ex_projection ''geocent_time'' ex_Derivative)
       = Inr [[- (\<i> * complex_of_real (4 * pi))]]
   \<and> fst (with_respect_to ex_projection ''phase'' ex_Derivative) = Inr [[2 * \<i>]]"
  using C4_analytic_derivatives[of ex_projection ex_Derivative]
  by (simp add: Let_def ex_central_projection ex_Derivative_fields ex_frequencyvector)

section \<open>Fisher matrix assembly: properties\<close>

lemma square_zeros: "square n (zeros n n)"
  by (simp add: square_def zeros_def)

lemma symmetric_zeros: "symmetric n (zeros n n)"
  by (simp add: symmetric_def zeros_def)

lemma set_entry_length: "length (set_entry M a b v) = length M"
  by (simp add: set_entry_def)

lemma set_entry_row_length: "length (set_entry M a b v ! i) = length (M ! i)"
  by (cases "a < length M") (simp_all add: set_entry_def nth_list_update list_update_beyond)

lemma set_entry_nth:
  "a < length M \<Longrightarrow> b < length (M ! a) \<Longrightarrow>
   set_entry M a b v ! i ! j = (if i = a \<and> j = b then v else M ! i ! j)"
  by (simp add: set_entry_def nth_list_update)

lemma symmetric_set_diag:
  assumes "symmetric n M" "p < n"
  shows "symmetric n (set_entry M p p v)"
proof -
  have len: "length M = n" "\<forall>i<n. length (M ! i) = n" and sym: "\<forall>i<n. \<forall>j<n. M ! i ! j = M ! j ! i"
    using assms(1) by (simp_all add: symmetric_def)
  have "set_entry M p p v ! i ! j = set_entry M p p v ! j ! i" if "i < n" "j < n" for i j
    using that len sym assms(2) by (simp add: set_entry_nth)
  then show ?thesis
    using len by (simp add: symmetric_def set_entry_length set_entry_row_length)
qed

lemma set_entry_nth_same:
  "a < length M \<Longrightarrow> b < length (M ! a) \<Longrightarrow> set_entry M a b v ! a ! b = v"
  by (simp add: set_entry_def)

lemma set_entry_nth_other:
  "i \<noteq> a \<or> j \<noteq> b \<Longrightarrow> set_entry M a b v ! i ! j = M ! i ! j"
  by (cases "a < length M"; cases "i = a")
     (simp_all add: set_entry_def list_update_beyond)

lemma symmetric_set_pair:
  assumes "symmetric n M" "p1 < n" "p2 < n"
  shows "symmetric n (set_entry (set_entry M p1 p2 v) p2 p1 (set_entry M p1 p2 v ! p1 ! p2))"
proof -
  define M1 where "M1 = set_entry M p1 p2 v"
  define M2 where "M2 = set_entry M1 p2 p1 (M1 ! p1 ! p2)"
  have len: "length M = n" "\<And>i. i < n \<Longrightarrow> length (M ! i) = n"
    and M_sym: "\<And>i j. i < n \<Longrightarrow> j < n \<Longrightarrow> M ! i ! j = M ! j ! i"
    using assms(1) by (simp_all add: symmetric_def)
  have len1: "length M1 = n" "\<And>i. i < n \<Longrightarrow> length (M1 ! i) = n"
    using len by (simp_all add: M1_def set_entry_length set_entry_row_length)
  have len2: "length M2 = n" "\<And>i. i < n \<Longrightarrow> length (M2 ! i) = n"
    using len1 by (simp_all add: M2_def set_entry_length set_entry_row_length)
  have m1: "M1 ! p1 ! p2 = v"
    unfolding M1_def by (rule set_entry_nth_same) (simp_all add: len assms)
  have v21: "M2 ! p2 ! p1 = v"
    unfolding M2_def m1 by (rule set_entry_nth_same) (simp_all add: len1 assms)
  have v12: "M2 ! p1 ! p2 = v"
  proof (cases "p1 = p2")
    case True
    with v21 show ?thesis by simp
  next
    case False
    then have "M2 ! p1 ! p2 = M1 ! p1 ! p2"
      unfolding M2_def by (intro set_entry_nth_other) simp
    with m1 show ?thesis by simp
  qed
  have rest: "M2 ! i ! j = M ! i ! j" if "i \<noteq> p1 \<or> j \<noteq> p2" "i \<noteq> p2 \<or> j \<noteq> p1" for i j
  proof -
    have "M2 ! i ! j = M1 ! i ! j"
      unfolding M2_def using that(2) by (rule set_entry_nth_other)
    also have "\<dots> = M ! i ! j"
      unfolding M1_def using that(1) by (rule set_entry_nth_other)
    finally show ?thesis .
  qed
  have "M2 ! i ! j = M2 ! j ! i" if "i < n" "j < n" for i j
  proof -
    consider (a) "i = p1" "j = p2" | (b) "i = p2" "j = p1"
      | (c) "i \<noteq> p1 \<or> j \<noteq> p2" "i \<noteq> p2 \<or> j \<noteq> p1"
      by blast
    then show ?thesis
    proof cases
      case a
      then show ?thesis by (simp only: v12 v21)
    next
      case b
      then show ?thesis by (simp only: v12 v21)
    next
      case c
      then have "M2 ! i ! j = M ! i ! j" "M2 ! j ! i = M ! j ! i"
        by (blast intro: rest)+
      then show ?thesis using M_sym[OF that] by (simp only:)
    qed
  qed
  then have "symmetric n M2"
    using len2 by (simp add: symmetric_def)
  then show ?thesis by (simp only: M2_def M1_def)
qed

lemma fm_inner_symmetric:
  assumes "symmetric n M" "p1 < n" "\<forall>p\<in>set ps. p < n"
  shows "symmetric n (fst (snd (fm_inner call sp det fps p1 deriv1 ps (M, s))))"
  using assms
proof (induction ps arbitrary: M s)
  case Nil
  then show ?case by simp
next
  case (Cons p2 ps)
  show ?case
  proof (cases "call (fps ! p2) s")
    case (Pair r s')
    show ?thesis
    proof (cases r)
      case (Inl e)
      with Pair Cons.prems show ?thesis by simp
    next
      case (Inr deriv2)
      have "symmetric n (set_entry (set_entry M p1 p2 (sum_list (sp deriv1 deriv2 det))) p2 p1
              (set_entry M p1 p2 (sum_list (sp deriv1 deriv2 det)) ! p1 ! p2))"
        using Cons.prems by (intro symmetric_set_pair) auto
      then show ?thesis
        using Pair Inr Cons.prems Cons.IH by (simp add: Let_def)
    qed
  qed
qed

lemma fm_outer_symmetric:
  assumes "symmetric n M" "\<forall>p\<in>set ps. p < n"
  shows "symmetric n (fst (snd (fm_outer call sp det fps n ps (M, s))))"
  using assms
proof (induction ps arbitrary: M s)
  case Nil
  then show ?case by simp
next
  case (Cons p1 ps)
  show ?case
  proof (cases "call (fps ! p1) s")
    case (Pair r s')
    show ?thesis
    proof (cases r)
      case (Inl e)
      with Pair Cons.prems show ?thesis by simp
    next
      case (Inr deriv1)
      let ?R = "fm_inner call sp det fps p1 deriv1 [p1 + 1..<n]
                  (set_entry M p1 p1 (sum_list (sp deriv1 deriv1 det)), s')"
      have sym: "symmetric n (fst (snd ?R))"
        using Cons.prems by (intro fm_inner_symmetric symmetric_set_diag) auto
      obtain e M' s'' where R: "?R = (e, M', s'')" by (cases ?R) auto
      show ?thesis
      proof (cases e)
        case None
        with R sym Pair Inr Cons.prems Cons.IH[of M' s''] show ?thesis by simp
      next
        case (Some err)
        with R sym Pair Inr show ?thesis by simp
      qed
    qed
  qed
qed

lemma update_fm_run_symmetric:
  "symmetric (nd FM) (fst (snd (update_fm_run call sp FM)))"
  unfolding update_fm_run_def by (intro fm_outer_symmetric symmetric_zeros) simp

lemma update_fm_cached:
  "cached_fm (snd (update_fm call sp FM)) = Some (fst (snd (update_fm_run call sp FM)))"
  by (simp add: update_fm_def split_beta)

lemma fm_fresh:
  "cached_fm FM = None \<Longrightarrow> fst (fm call sp FM) = Inr M \<Longrightarrow> M = fst (snd (update_fm_run call sp FM))"
  "cached_fm FM = None \<Longrightarrow> cached_fm (snd (fm call sp FM)) = Some (fst (snd (update_fm_run call sp FM)))"
  by (auto simp: fm_def split_beta split: option.splits)

lemma FisherMatrix_init_fields:
  assumes "FisherMatrix_init wm parameters fps det e wc = Inr FM"
  shows "nd FM = length fps" "cached_fm FM = None" "fisher_parameters FM = fps" "fm_detector FM = det"
    "Derivative_init wm parameters det e wc = Inr (derivative FM)"
  using assms by (auto simp: FisherMatrix_init_def split: sum.splits)


lemma ex_FisherMatrix_init:
  "FisherMatrix_init ''IMRPhenomD'' ex_params ex_fisher_parameters ex_detector default_eps
     ex_waveform_class = Inr ex_FisherMatrix"
  by (simp add: FisherMatrix_init_def ex_Derivative_init ex_FisherMatrix_def ex_fisher_parameters_def)

lemma ex_update_fm_run:
  "fst (update_fm_run (with_respect_to ex_projection) ex_scalar_product ex_FisherMatrix) = None
   \<and> fst (snd (update_fm_run (with_respect_to ex_projection) ex_scalar_product ex_FisherMatrix))
       = [[1, 1], [1, 1]]"
  by (simp add: update_fm_run_def ex_FisherMatrix_def ex_fisher_parameters_def upt_rec
        with_respect_to_def projection_at_parameters_def waveform_at_parameters_def
        projection_difference_def update_gw_params_def step_size_def default_eps_def
        ex_Derivative_def ex_params_def ex_projection_def ex_waveform_class_def ex_detector_def
        ex_scalar_product_def sig_scale_def sig_sub_def sig_div_def zeros_def set_entry_def
        Let_def split_beta numeral_2_eq_2)


text \<open>
  Claim C7.  For every parameter list \<open>fps\<close> and every parameter set, the matrix that
  \<^verbatim>\<open>update_fm\<close> builds and stores, and that the \<^verbatim>\<open>fm\<close> accessor of a new instance
  returns, is an \<open>n\<close> by \<open>n\<close> matrix with \<open>M[i,j] = M[j,i]\<close> for all \<open>i, j < n\<close>, whatever
  the derivative callable and the scalar product are (and even when a derivative
  raises and the matrix is left partly filled): each off-diagonal entry is written
  together with its mirror image.
\<close>

theorem C7_fisher_matrix_symmetric:
  assumes "FisherMatrix_init wm parameters fps det e wc = Inr FM"
  shows "symmetric (length fps) (fst (snd (update_fm_run call sp FM)))
    \<and> cached_fm (snd (update_fm call sp FM)) = Some (fst (snd (update_fm_run call sp FM)))
    \<and> cached_fm (snd (fm call sp FM)) = Some (fst (snd (update_fm_run call sp FM)))
    \<and> (\<forall>M. fst (fm call sp FM) = Inr M \<longrightarrow>
          M = fst (snd (update_fm_run call sp FM))
          \<and> (\<forall>i<length fps. \<forall>j<length fps. M ! i ! j = M ! j ! i))"
proof -
  note f = FisherMatrix_init_fields[OF assms]
  have s: "symmetric (length fps) (fst (snd (update_fm_run call sp FM)))"
    using update_fm_run_symmetric[of FM call sp] f(1) by simp
  moreover have "\<forall>i<length fps. \<forall>j<length fps. M ! i ! j = M ! j ! i"
    if "fst (fm call sp FM) = Inr M" for M
    using s fm_fresh(1)[OF f(2) that] by (simp add: symmetric_def)
  ultimately show ?thesis
    using update_fm_cached[of call sp FM] fm_fresh[OF f(2), of call sp] by blast
qed

text \<open>The matrix of the example instance, with parameters \<^verbatim>\<open>luminosity_distance\<close> and \<^verbatim>\<open>dec\<close>.\<close>

theorem C7_fisher_matrix_symmetric_witness:
  "fst (fm (with_respect_to ex_projection) ex_scalar_product ex_FisherMatrix) = Inr [[1, 1], [1, 1]]
   \<and> symmetric 2 [[1, 1], [1, 1]]"
proof -
  have "fst (fm (with_respect_to ex_projection) ex_scalar_product ex_FisherMatrix) = Inr [[1, 1], [1, 1]]"
    using ex_update_fm_run by (simp add: fm_def split_beta ex_FisherMatrix_def)
  then show ?thesis
    using C7_fisher_matrix_symmetric[OF ex_FisherMatrix_init, of "with_respect_to ex_projection"
        ex_scalar_product] ex_update_fm_run
    by (simp add: ex_fisher_parameters_def numeral_2_eq_2)
qed

lemma logged_apply:
  "call p s = (r, s') \<Longrightarrow> logged call p (s, l) = (r, (s', l @ [p]))"
  by (simp add: logged_def)

lemma fm_inner_logged:
  "fm_inner (logged call) sp det fps p1 deriv1 ps (M, (s, l)) = (e, M', (s', l')) \<Longrightarrow>
   fm_inner call sp det fps p1 deriv1 ps (M, s) = (e, M', s')
   \<and> (e = None \<longrightarrow> l' = l @ map (\<lambda>p. fps ! p) ps)"
proof (induction ps arbitrary: M s l)
  case Nil
  then show ?case by simp
next
  case (Cons p2 ps)
  obtain r s1 where c: "call (fps ! p2) s = (r, s1)" by (cases "call (fps ! p2) s")
  note lc = logged_apply[of call "fps ! p2" s r s1 l, OF c]
  show ?case
  proof (cases r)
    case (Inl err)
    with c lc Cons.prems show ?thesis by auto
  next
    case (Inr deriv2)
    let ?M1 = "set_entry M p1 p2 (sum_list (sp deriv1 deriv2 det))"
    let ?M2 = "set_entry ?M1 p2 p1 (?M1 ! p1 ! p2)"
    from c lc Inr Cons.prems
    have "fm_inner (logged call) sp det fps p1 deriv1 ps (?M2, (s1, l @ [fps ! p2])) = (e, M', (s', l'))"
      by (simp add: Let_def)
    from Cons.IH[OF this] c Inr show ?thesis by (simp add: Let_def)
  qed
qed

lemma fm_outer_logged:
  "fm_outer (logged call) sp det fps n ps (M, (s, l)) = (e, M', (s', l')) \<Longrightarrow>
   fm_outer call sp det fps n ps (M, s) = (e, M', s')
   \<and> (e = None \<longrightarrow> l' = l @ concat (map (\<lambda>p1. fps ! p1 # map (\<lambda>p. fps ! p) [p1 + 1..<n]) ps))"
proof (induction ps arbitrary: M s l)
  case Nil
  then show ?case by simp
next
  case (Cons p1 ps)
  obtain r s1 where c: "call (fps ! p1) s = (r, s1)" by (cases "call (fps ! p1) s")
  note lc = logged_apply[of call "fps ! p1" s r s1 l, OF c]
  show ?case
  proof (cases r)
    case (Inl err)
    with c lc Cons.prems show ?thesis by auto
  next
    case (Inr deriv1)
    let ?M0 = "set_entry M p1 p1 (sum_list (sp deriv1 deriv1 det))"
    obtain e1 M1 s2 l2 where
      i: "fm_inner (logged call) sp det fps p1 deriv1 [p1 + 1..<n] (?M0, (s1, l @ [fps ! p1]))
            = (e1, M1, (s2, l2))"
      by (metis prod.exhaust)
    note j = fm_inner_logged[OF i]
    show ?thesis
    proof (cases e1)
      case (Some err)
      with c lc Inr i j Cons.prems show ?thesis by auto
    next
      case None
      with c lc Inr i Cons.prems
      have "fm_outer (logged call) sp det fps n ps (M1, (s2, l2)) = (e, M', (s', l'))"
        by simp
      from Cons.IH[OF this] c Inr None j show ?thesis by simp
    qed
  qed
qed

lemma double_sum_descending: "2 * (\<Sum>p<n. n - p) = n * (n + 1)" for n :: nat
proof (induction n)
  case 0
  then show ?case by simp
next
  case (Suc n)
  have "(\<Sum>p<Suc n. Suc n - p) = (\<Sum>p<n. Suc n - p) + 1" by simp
  also have "(\<Sum>p<n. Suc n - p) = (\<Sum>p<n. Suc (n - p))"
    by (intro sum.cong) auto
  also have "\<dots> = (\<Sum>p<n. n - p) + n" by (simp add: sum_Suc)
  finally show ?case using Suc by simp
qed

lemma sum_descending: "(\<Sum>p<n. n - p) = n * (n + 1) div 2" for n :: nat
  using double_sum_descending[of n] by simp

lemma invocations_length:
  "length (concat (map (\<lambda>p1. fps ! p1 # map (\<lambda>p. fps ! p) [p1 + 1..<n]) [0..<n])) = n * (n + 1) div 2"
proof -
  have "length (concat (map (\<lambda>p1. fps ! p1 # map (\<lambda>p. fps ! p) [p1 + 1..<n]) [0..<n]))
      = sum_list (map (\<lambda>p. Suc (n - Suc p)) [0..<n])"
    by (simp add: length_concat o_def)
  also have "\<dots> = sum_list (map (\<lambda>p. n - p) [0..<n])"
    by (intro arg_cong[where f = sum_list] map_cong) auto
  also have "\<dots> = (\<Sum>p<n. n - p)"
    by (simp add: sum_list_sum_nth atLeast0LessThan)
  finally show ?thesis by (simp add: sum_descending)
qed


lemma update_fm_run_logged:
  assumes "update_fm_run call sp FM = (e, M, s)"
  shows "\<exists>l. update_fm_run (logged call) sp (traced FM) = (e, M, (s, l))
    \<and> (e = None \<longrightarrow>
         l = concat (map (\<lambda>p1. fisher_parameters FM ! p1
                              # map (\<lambda>p. fisher_parameters FM ! p) [p1 + 1..<nd FM])
                      [0..<nd FM]))"
proof -
  obtain e' M' s' l' where
    r: "update_fm_run (logged call) sp (traced FM) = (e', M', (s', l'))"
    by (metis prod.exhaust)
  then have "fm_outer (logged call) sp (fm_detector FM) (fisher_parameters FM) (nd FM) [0..<nd FM]
               (zeros (nd FM) (nd FM), (derivative FM, [])) = (e', M', (s', l'))"
    by (simp add: update_fm_run_def traced_def)
  from fm_outer_logged[OF this] assms r show ?thesis
    by (simp add: update_fm_run_def)
qed

lemma ex_logged_run:
  "update_fm_run (with_respect_to ex_projection) ex_scalar_product ex_FisherMatrix = (e, M, s) \<Longrightarrow>
   update_fm_run (logged (with_respect_to ex_projection)) ex_scalar_product (traced ex_FisherMatrix)
     = (None, [[1, 1], [1, 1]], (s, [''luminosity_distance'', ''dec'', ''dec'']))"
  using update_fm_run_logged[of "with_respect_to ex_projection" ex_scalar_product ex_FisherMatrix e M s]
    ex_update_fm_run
  by (auto simp: ex_FisherMatrix_def ex_fisher_parameters_def upt_rec numeral_2_eq_2)

lemma set_entry_square: "square n M \<Longrightarrow> square n (set_entry M a b v)"
  by (simp add: square_def set_entry_length set_entry_row_length)

lemma set_entry_nth_sq:
  "square n M \<Longrightarrow> a < n \<Longrightarrow> b < n \<Longrightarrow>
   set_entry M a b v ! i ! j = (if i = a \<and> j = b then v else M ! i ! j)"
  by (rule set_entry_nth) (simp_all add: square_def)

lemma fm_inner_pure:
  assumes pure: "\<And>p s. p < n \<Longrightarrow> I s \<Longrightarrow>
                   fst (call (fps ! p) s) = Inr (dv (fps ! p)) \<and> I (snd (call (fps ! p) s))"
    and "I s" "square n M" "p1 < n" "\<forall>p\<in>set ps. p1 < p \<and> p < n"
  shows "\<exists>M' s'. fm_inner call sp det fps p1 (dv (fps ! p1)) ps (M, s) = (None, M', s')
    \<and> I s' \<and> square n M'
    \<and> (\<forall>i<n. \<forall>j<n. M' ! i ! j
          = (if (i = p1 \<and> j \<in> set ps) \<or> (j = p1 \<and> i \<in> set ps)
             then pair_entry sp det dv fps i j else M ! i ! j))"
  using assms(2-)
proof (induction ps arbitrary: M s)
  case Nil
  then show ?case by simp
next
  case (Cons p2 ps)
  have p2: "p1 < p2" "p2 < n" using Cons.prems(4) by simp_all
  obtain s1 where c: "call (fps ! p2) s = (Inr (dv (fps ! p2)), s1)" and I1: "I s1"
    using pure[OF p2(2) Cons.prems(1)] by (cases "call (fps ! p2) s") simp
  define v where "v = sum_list (sp (dv (fps ! p1)) (dv (fps ! p2)) det)"
  define M1 where "M1 = set_entry M p1 p2 v"
  define M2 where "M2 = set_entry M1 p2 p1 (M1 ! p1 ! p2)"
  have v: "v = pair_entry sp det dv fps p1 p2" "v = pair_entry sp det dv fps p2 p1"
    using p2 by (simp_all add: v_def pair_entry_def min_def max_def)
  have sq1: "square n M1" unfolding M1_def using Cons.prems(2) by (rule set_entry_square)
  have sq2: "square n M2" unfolding M2_def using sq1 by (rule set_entry_square)
  have e1: "M1 ! i ! j = (if i = p1 \<and> j = p2 then v else M ! i ! j)" for i j
    unfolding M1_def using Cons.prems(2,3) p2(2) by (rule set_entry_nth_sq)
  have m1: "M1 ! p1 ! p2 = v" by (simp add: e1)
  have e2: "M2 ! i ! j = (if i = p2 \<and> j = p1 then v else M1 ! i ! j)" for i j
    unfolding M2_def m1 using sq1 p2(2) Cons.prems(3) by (rule set_entry_nth_sq)
  have step: "fm_inner call sp det fps p1 (dv (fps ! p1)) (p2 # ps) (M, s)
      = fm_inner call sp det fps p1 (dv (fps ! p1)) ps (M2, s1)"
    by (simp add: c Let_def M2_def M1_def v_def)
  from Cons.IH[OF I1 sq2 Cons.prems(3)] Cons.prems(4)
  obtain M' s' where
    r: "fm_inner call sp det fps p1 (dv (fps ! p1)) ps (M2, s1) = (None, M', s')"
    and I': "I s'" and sq': "square n M'"
    and ent: "\<And>i j. i < n \<Longrightarrow> j < n \<Longrightarrow> M' ! i ! j
          = (if (i = p1 \<and> j \<in> set ps) \<or> (j = p1 \<and> i \<in> set ps)
             then pair_entry sp det dv fps i j else M2 ! i ! j)"
    by auto
  have "M' ! i ! j = (if (i = p1 \<and> j \<in> set (p2 # ps)) \<or> (j = p1 \<and> i \<in> set (p2 # ps))
             then pair_entry sp det dv fps i j else M ! i ! j)" if "i < n" "j < n" for i j
  proof (cases "(i = p1 \<and> j \<in> set ps) \<or> (j = p1 \<and> i \<in> set ps)")
    case True
    then show ?thesis using ent[OF that] by auto
  next
    case False
    then have a: "M' ! i ! j = M2 ! i ! j" by (simp only: ent[OF that] if_False)
    consider (x) "i = p1" "j = p2" | (y) "i = p2" "j = p1"
      | (z) "\<not> (i = p1 \<and> j = p2)" "\<not> (i = p2 \<and> j = p1)" by blast
    then show ?thesis
    proof cases
      case x
      with a p2 v show ?thesis by (simp add: e2 e1)
    next
      case y
      with a p2 v show ?thesis by (simp add: e2)
    next
      case z
      then have "M2 ! i ! j = M ! i ! j" by (simp only: e2 e1 if_False)
      with a z False show ?thesis by auto
    qed
  qed
  with step r sq' I' show ?case by auto
qed


lemma fm_outer_pure:
  assumes pure: "\<And>p s. p < n \<Longrightarrow> I s \<Longrightarrow>
                   fst (call (fps ! p) s) = Inr (dv (fps ! p)) \<and> I (snd (call (fps ! p) s))"
    and "I s" "square n M" "\<forall>p\<in>set ps. p < n"
  shows "\<exists>M' s'. fm_outer call sp det fps n ps (M, s) = (None, M', s')
    \<and> I s' \<and> square n M'
    \<and> (\<forall>i<n. \<forall>j<n. M' ! i ! j
          = (if min i j \<in> set ps then pair_entry sp det dv fps i j else M ! i ! j))"
  using assms(2-)
proof (induction ps arbitrary: M s)
  case Nil
  then show ?case by simp
next
  case (Cons p1 ps)
  have p1: "p1 < n" using Cons.prems(3) by simp
  obtain s1 where c: "call (fps ! p1) s = (Inr (dv (fps ! p1)), s1)" and I1: "I s1"
    using pure[OF p1 Cons.prems(1)] by (cases "call (fps ! p1) s") simp
  define M0 where "M0 = set_entry M p1 p1 (sum_list (sp (dv (fps ! p1)) (dv (fps ! p1)) det))"
  have sq0: "square n M0" unfolding M0_def using Cons.prems(2) by (rule set_entry_square)
  have e0: "M0 ! i ! j = (if i = p1 \<and> j = p1 then pair_entry sp det dv fps p1 p1 else M ! i ! j)"
    for i j
    unfolding M0_def using set_entry_nth_sq[OF Cons.prems(2) p1 p1]
    by (simp add: pair_entry_def)
  have "\<forall>p\<in>set [p1 + 1..<n]. p1 < p \<and> p < n" by simp
  from fm_inner_pure[where call = call and dv = dv and I = I, OF pure I1 sq0 p1 this, of sp det]
  obtain M1 s2 where
    i: "fm_inner call sp det fps p1 (dv (fps ! p1)) [p1 + 1..<n] (M0, s1) = (None, M1, s2)"
    and I2: "I s2" and sq1: "square n M1"
    and e1: "\<And>i j. i < n \<Longrightarrow> j < n \<Longrightarrow> M1 ! i ! j
          = (if (i = p1 \<and> j \<in> set [p1 + 1..<n]) \<or> (j = p1 \<and> i \<in> set [p1 + 1..<n])
             then pair_entry sp det dv fps i j else M0 ! i ! j)"
    by blast
  have m1: "M1 ! i ! j = (if min i j = p1 then pair_entry sp det dv fps i j else M ! i ! j)"
    if "i < n" "j < n" for i j
  proof -
    consider (a) "i = p1" "j = p1" | (b) "i = p1" "p1 < j" | (c) "j = p1" "p1 < i"
      | (d) "min i j \<noteq> p1"
      by (cases i p1 rule: linorder_cases; cases j p1 rule: linorder_cases) auto
    then show ?thesis
    proof cases
      case a
      with that show ?thesis by (simp add: e1 e0)
    next
      case b
      with that show ?thesis by (simp add: e1)
    next
      case c
      with that show ?thesis by (simp add: e1)
    next
      case d
      then have "\<not> (i = p1 \<and> j \<in> set [p1 + 1..<n])" "\<not> (j = p1 \<and> i \<in> set [p1 + 1..<n])"
        "\<not> (i = p1 \<and> j = p1)"
        by (auto simp: min_def split: if_splits)
      with d that show ?thesis by (simp only: e1 e0 if_False simp_thms)
    qed
  qed
  have step: "fm_outer call sp det fps n (p1 # ps) (M, s) = fm_outer call sp det fps n ps (M1, s2)"
    using i by (simp add: c M0_def)
  from Cons.IH[OF I2 sq1] Cons.prems(3)
  obtain M' s' where
    r: "fm_outer call sp det fps n ps (M1, s2) = (None, M', s')"
    and I': "I s'" and sq': "square n M'"
    and ent: "\<And>i j. i < n \<Longrightarrow> j < n \<Longrightarrow> M' ! i ! j
          = (if min i j \<in> set ps then pair_entry sp det dv fps i j else M1 ! i ! j)"
    by auto
  have "M' ! i ! j = (if min i j \<in> set (p1 # ps) then pair_entry sp det dv fps i j else M ! i ! j)"
    if "i < n" "j < n" for i j
    using ent[OF that] m1[OF that] by auto
  with step r sq' I' show ?case by auto
qed

lemma update_fm_run_pure:
  assumes pure: "\<And>p s. p < nd FM \<Longrightarrow> I s \<Longrightarrow>
                   fst (call (fisher_parameters FM ! p) s) = Inr (dv (fisher_parameters FM ! p))
                   \<and> I (snd (call (fisher_parameters FM ! p) s))"
    and "I (derivative FM)"
  shows "fst (update_fm_run call sp FM) = None"
    and "\<forall>i<nd FM. \<forall>j<nd FM. fst (snd (update_fm_run call sp FM)) ! i ! j
           = pair_entry sp (fm_detector FM) dv (fisher_parameters FM) i j"
proof -
  have "\<forall>p\<in>set [0..<nd FM]. p < nd FM" by simp
  from fm_outer_pure[where call = call and dv = dv and I = I, OF pure assms(2) square_zeros this,
      of sp "fm_detector FM"]
  obtain M' s' where
    r: "update_fm_run call sp FM = (None, M', s')"
    and ent: "\<And>i j. i < nd FM \<Longrightarrow> j < nd FM \<Longrightarrow> M' ! i ! j
          = (if min i j \<in> set [0..<nd FM]
             then pair_entry sp (fm_detector FM) dv (fisher_parameters FM) i j
             else zeros (nd FM) (nd FM) ! i ! j)"
    unfolding update_fm_run_def by blast
  show "fst (update_fm_run call sp FM) = None" using r by simp
  show "\<forall>i<nd FM. \<forall>j<nd FM. fst (snd (update_fm_run call sp FM)) ! i ! j
           = pair_entry sp (fm_detector FM) dv (fisher_parameters FM) i j"
    using r ent by (auto simp: min_def)
qed


lemma waveform_at_parameters_consistent:
  assumes "consistent proj D"
  shows "fst (waveform_at_parameters D) = central_waveform D"
    and "consistent proj (snd (waveform_at_parameters D))"
    and "same_instance D (snd (waveform_at_parameters D))"
  using assms
  by (auto simp: waveform_at_parameters_def consistent_def same_instance_def central_waveform_def
      central_projection_def Let_def split: option.splits)

lemma same_instance_central:
  "same_instance D D' \<Longrightarrow> central_waveform D' = central_waveform D"
  "same_instance D D' \<Longrightarrow> central_projection proj D' = central_projection proj D"
  by (simp_all add: same_instance_def central_waveform_def central_projection_def)

lemma same_instance_trans:
  "same_instance D D' \<Longrightarrow> same_instance D' D'' \<Longrightarrow> same_instance D D''"
  "same_instance D D"
  by (simp_all add: same_instance_def)

lemma projection_at_parameters_consistent:
  assumes "consistent proj D"
  shows "fst (projection_at_parameters proj D) = central_projection proj D"
    and "consistent proj (snd (projection_at_parameters proj D))"
    and "same_instance D (snd (projection_at_parameters proj D))"
proof -
  let ?D0 = "snd (waveform_at_parameters D)"
  let ?D1 = "snd (waveform_at_parameters ?D0)"
  note a = waveform_at_parameters_consistent[OF assms]
  note b = waveform_at_parameters_consistent[OF a(2)]
  have s: "same_instance D ?D1" using a(3) b(3) by (rule same_instance_trans)
  have w: "fst (waveform_at_parameters D) = central_waveform D"
    "fst (waveform_at_parameters ?D0) = central_waveform D"
    using a(1) b(1) same_instance_central(1)[OF a(3)] by simp_all
  have f: "local_params ?D1 = local_params D" "detector ?D1 = detector D"
    using s by (simp_all add: same_instance_def)
  show "fst (projection_at_parameters proj D) = central_projection proj D"
    using assms
    by (auto simp: projection_at_parameters_def split_beta Let_def w f central_projection_def
        consistent_def split: option.splits)
  show "consistent proj (snd (projection_at_parameters proj D))"
    using assms b(2) same_instance_central(1)[OF s] same_instance_central(2)[OF s, of proj]
    by (auto simp: projection_at_parameters_def split_beta Let_def w f central_projection_def
        consistent_def central_waveform_def split: option.splits)
  show "same_instance D (snd (projection_at_parameters proj D))"
    using s
    by (auto simp: projection_at_parameters_def split_beta Let_def same_instance_def
        split: option.splits)
qed


lemma pv_update_consistent:
  "consistent proj (D\<lparr>pv_set1 := a, pv_set2 := b\<rparr>) = consistent proj D"
  "same_instance D (D\<lparr>pv_set1 := a, pv_set2 := b\<rparr>)"
  "central_waveform (D\<lparr>pv_set1 := a, pv_set2 := b\<rparr>) = central_waveform D"
  by (simp_all add: consistent_def same_instance_def central_waveform_def central_projection_def)

lemma update_gw_params_consistent:
  "consistent proj D \<Longrightarrow> consistent proj (update_gw_params D)"
  "same_instance D (update_gw_params D)"
  by (simp_all add: update_gw_params_def consistent_def same_instance_def central_waveform_def
      central_projection_def)

lemma projection_difference_consistent:
  assumes "consistent proj D"
  shows "fst (projection_difference proj dp D)
           = sig_div (sig_sub (proj (pv_set2 D) (detector D) (fst (central_waveform D))
                                 (snd (central_waveform D)))
                              (proj (pv_set1 D) (detector D) (fst (central_waveform D))
                                 (snd (central_waveform D))))
               (complex_of_real dp)"
    and "consistent proj (snd (projection_difference proj dp D))"
    and "same_instance D (snd (projection_difference proj dp D))"
  using waveform_at_parameters_consistent[OF assms]
  by (simp_all add: projection_difference_def split_beta Let_def waveform_at_parameters_fields
      same_instance_def)

lemma waveform_difference_consistent:
  assumes "consistent proj D"
  shows "consistent proj (snd (waveform_difference proj dp D))"
    and "same_instance D (snd (waveform_difference proj dp D))"
  using assms
  by (simp_all add: waveform_difference_def split_beta Let_def consistent_def same_instance_def
      central_waveform_def central_projection_def)

lemma with_respect_to_consistent:
  assumes "consistent proj D"
  shows "fst (with_respect_to proj t D) = derivative_value proj D t"
    and "consistent proj (snd (with_respect_to proj t D))"
    and "same_instance D (snd (with_respect_to proj t D))"
proof -
  note P = projection_at_parameters_consistent[OF assms]
  have an: "consistent proj (update_gw_params (snd (projection_at_parameters proj D)))"
    "same_instance D (update_gw_params (snd (projection_at_parameters proj D)))"
    using update_gw_params_consistent(1)[OF P(2)]
      same_instance_trans(1)[OF P(3) update_gw_params_consistent(2)] by simp_all
  have det: "detector (snd (projection_at_parameters proj D)) = detector D"
    using P(3) by (simp add: same_instance_def)
  consider (ld) "t = ''luminosity_distance''" | (gt) "t = ''geocent_time''" | (ph) "t = ''phase''"
    | (num) "t \<noteq> ''luminosity_distance''" "t \<noteq> ''geocent_time''" "t \<noteq> ''phase''"
    by blast
  then have "fst (with_respect_to proj t D) = derivative_value proj D t
    \<and> consistent proj (snd (with_respect_to proj t D))
    \<and> same_instance D (snd (with_respect_to proj t D))"
  proof cases
    case ld
    have "fst (with_respect_to proj t D) = derivative_value proj D t"
      by (simp add: ld with_respect_to_def derivative_value_def split_beta P(1) split: option.splits)
    moreover have "consistent proj (snd (with_respect_to proj t D))"
      using assms an(1) by (simp add: ld with_respect_to_def split_beta split: option.splits)
    moreover have "same_instance D (snd (with_respect_to proj t D))"
      using an(2) by (simp add: ld with_respect_to_def split_beta same_instance_trans(2)
          split: option.splits)
    ultimately show ?thesis by simp
  next
    case gt
    have "fst (with_respect_to proj t D) = derivative_value proj D t"
      by (simp add: gt with_respect_to_def derivative_value_def split_beta P(1) det)
    moreover have "consistent proj (snd (with_respect_to proj t D))"
      using an(1) by (simp add: gt with_respect_to_def split_beta)
    moreover have "same_instance D (snd (with_respect_to proj t D))"
      using an(2) by (simp add: gt with_respect_to_def split_beta)
    ultimately show ?thesis by simp
  next
    case ph
    have "fst (with_respect_to proj t D) = derivative_value proj D t"
      by (simp add: ph with_respect_to_def derivative_value_def split_beta P(1))
    moreover have "consistent proj (snd (with_respect_to proj t D))"
      using an(1) by (simp add: ph with_respect_to_def split_beta)
    moreover have "same_instance D (snd (with_respect_to proj t D))"
      using an(2) by (simp add: ph with_respect_to_def split_beta)
    ultimately show ?thesis by simp
  next
    case num
    show ?thesis
    proof (cases "local_params D t")
      case None
      with num assms show ?thesis
        by (simp add: with_respect_to_def derivative_value_def same_instance_trans(2))
    next
      case (Some pv)
      define dp where "dp = step_size (eps D) pv"
      define D0 where "D0 = D\<lparr>pv_set1 := (local_params D)(t \<mapsto> pv - dp / 2),
                               pv_set2 := (local_params D)(t \<mapsto> pv + dp / 2)\<rparr>"
      have c0: "consistent proj D0" and s0: "same_instance D D0"
        and w0: "central_waveform D0 = central_waveform D"
        using assms by (simp_all add: D0_def pv_update_consistent)
      have f0: "detector D0 = detector D" "pv_set1 D0 = (local_params D)(t \<mapsto> pv - dp / 2)"
        "pv_set2 D0 = (local_params D)(t \<mapsto> pv + dp / 2)" "waveform D0 = waveform D"
        "wf_class D0 = wf_class D" "data_params D0 = data_params D" "tc D0 = tc D"
        by (simp_all add: D0_def)
      show ?thesis
      proof (cases "t \<in> set [''ra'', ''dec'', ''psi'']")
        case True
        note pd = projection_difference_consistent[OF c0, of dp]
        have "fst (with_respect_to proj t D) = Inr (fst (projection_difference proj dp D0))"
          "snd (with_respect_to proj t D) = update_gw_params (snd (projection_difference proj dp D0))"
          using num Some True
          by (simp_all add: with_respect_to_numeric Let_def dp_def D0_def)
        moreover have "derivative_value proj D t = Inr (fst (projection_difference proj dp D0))"
          using num Some True
          by (simp add: derivative_value_def Let_def pd(1) f0 w0 dp_def[symmetric])
        ultimately show ?thesis
          using update_gw_params_consistent(1)[OF pd(2)]
            same_instance_trans(1)[OF same_instance_trans(1)[OF s0 pd(3)]
              update_gw_params_consistent(2)]
          by simp
      next
        case False
        note wd = waveform_difference_consistent[OF c0, of dp]
        have "fst (with_respect_to proj t D) = Inr (fst (waveform_difference proj dp D0))"
          "snd (with_respect_to proj t D) = update_gw_params (snd (waveform_difference proj dp D0))"
          using num Some False
          by (simp_all add: with_respect_to_numeric Let_def dp_def D0_def)
        moreover have "derivative_value proj D t = Inr (fst (waveform_difference proj dp D0))"
          using num Some False
          by (simp add: derivative_value_def Let_def waveform_difference_def split_beta f0
              dp_def[symmetric])
        ultimately show ?thesis
          using update_gw_params_consistent(1)[OF wd(1)]
            same_instance_trans(1)[OF same_instance_trans(1)[OF s0 wd(2)]
              update_gw_params_consistent(2)]
          by simp
      qed
    qed
  qed
  then show "fst (with_respect_to proj t D) = derivative_value proj D t"
    and "consistent proj (snd (with_respect_to proj t D))"
    and "same_instance D (snd (with_respect_to proj t D))"
    by simp_all
qed


lemma derivative_value_same:
  "same_instance D0 D \<Longrightarrow> derivative_value proj D t = derivative_value proj D0 t"
  by (simp add: derivative_value_def same_instance_def central_waveform_def central_projection_def
      Let_def split: option.splits)

lemma Derivative_init_consistent:
  "Derivative_init wm parameters det e wc = Inr D \<Longrightarrow> consistent proj D"
  by (auto simp: Derivative_init_def consistent_def split: option.splits)

lemma fisher_matrix_entries:
  assumes init: "FisherMatrix_init wm parameters fps det e wc = Inr FM"
    and ok: "\<forall>p\<in>set fps. derivative_value proj (derivative FM) p = Inr (dv p)"
  shows "\<exists>M. fst (fm (with_respect_to proj) sp FM) = Inr M
    \<and> (\<forall>i<length fps. \<forall>j<length fps. M ! i ! j = pair_entry sp det dv fps i j)"
proof -
  note f = FisherMatrix_init_fields[OF init]
  define I where "I D \<longleftrightarrow> consistent proj D \<and> same_instance (derivative FM) D" for D
  have I0: "I (derivative FM)"
    using Derivative_init_consistent[OF f(5)] by (simp add: I_def same_instance_trans(2))
  have pure: "fst (with_respect_to proj (fisher_parameters FM ! p) s)
                = Inr (dv (fisher_parameters FM ! p))
              \<and> I (snd (with_respect_to proj (fisher_parameters FM ! p) s))"
    if "p < nd FM" "I s" for p s
  proof -
    have c: "consistent proj s" and si: "same_instance (derivative FM) s"
      using that(2) by (simp_all add: I_def)
    have "fps ! p \<in> set fps" using that(1) f(1) by simp
    then have "derivative_value proj s (fps ! p) = Inr (dv (fps ! p))"
      using ok derivative_value_same[OF si] by simp
    with with_respect_to_consistent[OF c, of "fps ! p"] si f(3) show ?thesis
      by (auto simp: I_def intro: same_instance_trans(1))
  qed
  note r = update_fm_run_pure[where call = "with_respect_to proj" and I = I and dv = dv,
      OF pure I0, of sp]
  obtain M s where run: "update_fm_run (with_respect_to proj) sp FM = (None, M, s)"
    using r(1) by (metis fst_conv prod.exhaust)
  have "fst (fm (with_respect_to proj) sp FM) = Inr M"
    using f(2) run by (simp add: fm_def)
  with r(2) run f show ?thesis by simp
qed

text \<open>
  Claim C8, as the code has it.  When no invocation raises, \<^verbatim>\<open>update_fm\<close> over \<open>n\<close>
  fisher parameters invokes the derivative callable \<open>n * (n + 1) / 2\<close> times, not \<open>n\<close>
  times: for each index \<open>p1\<close>, once for the parameter \<open>p1\<close> (the result is used for the
  diagonal entry and as the first argument of every pair of the row) and then once more
  for every \<open>p2 > p1\<close>, whose derivative is computed again for the pair \<open>(p1, p2)\<close>.  The
  trace does not change the matrix or the state of the callable.  When the callable
  returns the same derivative \<open>dv p\<close> for a parameter \<open>p\<close> at every invocation (in all the
  states it goes through, described by an invariant \<open>I\<close>), the entry of every pair
  \<open>(i, j)\<close>, self-pairs included, is the summed scalar product of the derivatives of the
  two parameters, the one with the smaller index first.
\<close>

theorem C8_derivative_invocations:
  assumes "FisherMatrix_init wm parameters fps det e wc = Inr FM"
    and "fst (update_fm_run call sp FM) = None"
  shows "(let n = length fps;
              run = update_fm_run (logged call) sp (traced FM);
              invocations = snd (snd (snd run))
          in fst run = None
           \<and> fst (snd run) = fst (snd (update_fm_run call sp FM))
           \<and> fst (snd (snd run)) = snd (snd (update_fm_run call sp FM))
           \<and> invocations = concat (map (\<lambda>p1. fps ! p1 # map (\<lambda>p2. fps ! p2) [p1 + 1..<n]) [0..<n])
           \<and> length invocations = n * (n + 1) div 2
           \<and> (\<forall>I dv. I (derivative FM)
                  \<and> (\<forall>p<n. \<forall>s. I s \<longrightarrow> fst (call (fps ! p) s) = Inr (dv (fps ! p))
                                      \<and> I (snd (call (fps ! p) s)))
                \<longrightarrow> (\<forall>i<n. \<forall>j<n. fst (snd (update_fm_run call sp FM)) ! i ! j
                        = sum_list (sp (dv (fps ! min i j)) (dv (fps ! max i j)) det))))"
proof -
  note f = FisherMatrix_init_fields[OF assms(1)]
  obtain M s where r: "update_fm_run call sp FM = (None, M, s)"
    using assms(2) by (metis fst_conv prod.exhaust)
  from update_fm_run_logged[OF r] obtain l where
    l: "update_fm_run (logged call) sp (traced FM) = (None, M, (s, l))"
      "l = concat (map (\<lambda>p1. fps ! p1 # map (\<lambda>p2. fps ! p2) [p1 + 1..<length fps]) [0..<length fps])"
    using f by auto
  have len: "length l = length fps * (length fps + 1) div 2"
    unfolding l(2) by (rule invocations_length)
  have ent: "\<forall>i<length fps. \<forall>j<length fps. fst (snd (update_fm_run call sp FM)) ! i ! j
                        = sum_list (sp (dv (fps ! min i j)) (dv (fps ! max i j)) det)"
    if "I (derivative FM)"
      "\<forall>p<length fps. \<forall>s. I s \<longrightarrow> fst (call (fps ! p) s) = Inr (dv (fps ! p))
                                      \<and> I (snd (call (fps ! p) s))"
    for I dv
    using update_fm_run_pure(2)[where call = call and I = I and dv = dv and FM = FM, of sp] that f
    by (simp add: pair_entry_def)
  from l len ent show ?thesis
    by (simp only: Let_def r fst_conv snd_conv simp_thms) blast
qed


lemma ex_derivative_value:
  "derivative_value ex_projection ex_Derivative ''luminosity_distance'' = Inr [[1]]"
  "derivative_value ex_projection ex_Derivative ''dec'' = Inr [[1]]"
  by (simp_all add: derivative_value_def central_projection_def central_waveform_def
      ex_Derivative_def ex_params_def ex_projection_def ex_waveform_class_def ex_detector_def
      step_size_def default_eps_def sig_scale_def sig_sub_def sig_div_def Let_def)

lemma ex_consistent: "consistent ex_projection ex_Derivative"
  by (simp add: consistent_def ex_Derivative_def)

text \<open>
  The invocations for the example instance with two parameters, whose derivative
  instance returns \<open>[[1]]\<close> for both at every invocation.
\<close>

theorem C8_derivative_invocations_witness:
  "snd (snd (snd (update_fm_run (logged (with_respect_to ex_projection)) ex_scalar_product
                    (traced ex_FisherMatrix))))
     = [''luminosity_distance'', ''dec'', ''dec'']
   \<and> fst (snd (update_fm_run (with_respect_to ex_projection) ex_scalar_product ex_FisherMatrix))
       ! 0 ! 1 = sum_list (ex_scalar_product [[1]] [[1]] ex_detector)"
proof -
  define I where "I D \<longleftrightarrow> consistent ex_projection D \<and> same_instance ex_Derivative D" for D
  have ok: "fst (update_fm_run (with_respect_to ex_projection) ex_scalar_product ex_FisherMatrix) = None"
    using ex_update_fm_run by simp
  have I0: "I (derivative ex_FisherMatrix)"
    by (simp add: I_def ex_FisherMatrix_def ex_consistent same_instance_trans(2))
  have pure: "\<forall>p<length ex_fisher_parameters. \<forall>s. I s \<longrightarrow>
      fst (with_respect_to ex_projection (ex_fisher_parameters ! p) s) = Inr [[1]]
      \<and> I (snd (with_respect_to ex_projection (ex_fisher_parameters ! p) s))"
  proof (intro allI impI)
    fix p s assume p: "p < length ex_fisher_parameters" and s: "I s"
    have c: "consistent ex_projection s" and si: "same_instance ex_Derivative s"
      using s by (simp_all add: I_def)
    have "ex_fisher_parameters ! p = ''luminosity_distance'' \<or> ex_fisher_parameters ! p = ''dec''"
      using p by (auto simp: ex_fisher_parameters_def less_Suc_eq)
    then have "derivative_value ex_projection s (ex_fisher_parameters ! p) = Inr [[1]]"
      using derivative_value_same[OF si] ex_derivative_value by auto
    with with_respect_to_consistent[OF c, of "ex_fisher_parameters ! p"] si
    show "fst (with_respect_to ex_projection (ex_fisher_parameters ! p) s) = Inr [[1]]
      \<and> I (snd (with_respect_to ex_projection (ex_fisher_parameters ! p) s))"
      by (auto simp: I_def intro: same_instance_trans(1))
  qed
  note t = C8_derivative_invocations[OF ex_FisherMatrix_init ok, unfolded Let_def]
  note t4 = t[THEN conjunct2, THEN conjunct2, THEN conjunct2]
  note t6 = t4[THEN conjunct2, THEN conjunct2]
  have a: "snd (snd (snd (update_fm_run (logged (with_respect_to ex_projection)) ex_scalar_product
                    (traced ex_FisherMatrix))))
     = concat (map (\<lambda>p1. ex_fisher_parameters ! p1 # map (\<lambda>p2. ex_fisher_parameters ! p2)
                 [p1 + 1..<length ex_fisher_parameters]) [0..<length ex_fisher_parameters])"
    by (rule t4[THEN conjunct1])
  have b: "\<forall>i<length ex_fisher_parameters. \<forall>j<length ex_fisher_parameters.
           fst (snd (update_fm_run (with_respect_to ex_projection) ex_scalar_product ex_FisherMatrix))
             ! i ! j = sum_list (ex_scalar_product [[1]] [[1]] ex_detector)"
    by (rule t6[THEN spec[where x = I], THEN spec[where x = "\<lambda>p. [[1]]"], THEN mp,
          OF conjI[OF I0 pure]])
  have "fst (snd (update_fm_run (with_respect_to ex_projection) ex_scalar_product ex_FisherMatrix))
       ! 0 ! 1 = sum_list (ex_scalar_product [[1]] [[1]] ex_detector)"
    using b by (simp add: ex_fisher_parameters_def)
  moreover have "snd (snd (snd (update_fm_run (logged (with_respect_to ex_projection))
                    ex_scalar_product (traced ex_FisherMatrix))))
     = [''luminosity_distance'', ''dec'', ''dec'']"
    unfolding a by (simp add: ex_fisher_parameters_def numeral_2_eq_2)
  ultimately show ?thesis by simp
qed

text \<open>With two fisher parameters the derivative is invoked three times.\<close>

theorem C8_counterexample:
  "length (snd (snd (snd (update_fm_run (logged (with_respect_to ex_projection)) ex_scalar_product
                            (traced ex_FisherMatrix))))) = 3
   \<and> length (fisher_parameters ex_FisherMatrix) = 2
   \<and> length (snd (snd (snd (update_fm_run (logged (with_respect_to ex_projection))
                                 ex_scalar_product (traced ex_FisherMatrix)))))
       \<noteq> length (fisher_parameters ex_FisherMatrix)"
proof -
  obtain e M s where
    "update_fm_run (with_respect_to ex_projection) ex_scalar_product ex_FisherMatrix = (e, M, s)"
    by (metis prod.exhaust)
  from ex_logged_run[OF this] show ?thesis
    by (simp add: ex_FisherMatrix_def ex_fisher_parameters_def)
qed

section \<open>Network aggregator: properties\<close>

lemma detector_loop_result:
  assumes "map (\<lambda>d. compute_detector_fisher E d spv fps wm wc udc) dets = map Inr rs"
  shows "detector_loop E thr spv fps wm wc udc dets (F0, s0) =
     Inr (foldl mat_add F0 (map fst (filter (\<lambda>r. sqrt (snd r) > thr) rs)),
          s0 + sum_list (map snd rs))"
  using assms
proof (induction dets arbitrary: rs F0 s0)
  case Nil
  then show ?case by simp
next
  case (Cons d dets)
  then obtain r rs' where rs: "rs = r # rs'"
    and r: "compute_detector_fisher E d spv fps wm wc udc = Inr r"
    and rest: "map (\<lambda>d. compute_detector_fisher E d spv fps wm wc udc) dets = map Inr rs'"
    by (cases rs) auto
  obtain dfm dss where rp: "r = (dfm, dss)" by (cases r)
  show ?case
    using Cons.IH[OF rest] by (simp add: rs r rp add.assoc)
qed

lemma detector_loop_error:
  assumes "detector_loop E thr spv fps wm wc udc dets acc = Inr res"
  shows "\<exists>rs. map (\<lambda>d. compute_detector_fisher E d spv fps wm wc udc) dets = map Inr rs"
  using assms
proof (induction dets arbitrary: acc)
  case Nil
  then show ?case by simp
next
  case (Cons d dets)
  obtain F0 s0 where acc: "acc = (F0, s0)" by (cases acc)
  show ?case
  proof (cases "compute_detector_fisher E d spv fps wm wc udc")
    case (Inl e)
    with Cons.prems acc show ?thesis by simp
  next
    case (Inr r)
    obtain dfm dss where rp: "r = (dfm, dss)" by (cases r)
    from Cons.prems acc Inr rp obtain acc' where
      "detector_loop E thr spv fps wm wc udc dets acc' = Inr res" by auto
    from Cons.IH[OF this] obtain rs where
      "map (\<lambda>d. compute_detector_fisher E d spv fps wm wc udc) dets = map Inr rs" by blast
    with Inr have "map (\<lambda>d. compute_detector_fisher E d spv fps wm wc udc) (d # dets) = map Inr (r # rs)"
      by simp
    then show ?thesis by blast
  qed
qed

lemma signal_step_snr:
  assumes "signal_step E net pv fps wm wc udc sky_idx k (pe, sky, snr) = Inr (pe', sky', snr')"
    and "detector_loop E (fst (detection_SNR net)) (iloc pv k) fps wm wc udc (detectors net)
           (zeros (length fps) (length fps), 0) = Inr (F, s)"
  shows "snr' = snr[k := sqrt s]"
    and "\<exists>Finv S. invertSVD (svd E) F = Inr (Finv, S) \<and> pe' = pe[k := map np_sqrt (np_diagonal Finv)]"
  using assms
  by (auto simp: signal_step_def Let_def split: sum.splits option.splits prod.splits)


lemma ex_iloc:
  "iloc ex_parameter_values 0 ''geocent_time'' = Some 0"
  "iloc ex_parameter_values 0 ''luminosity_distance'' = Some 2"
  "iloc ex_parameter_values 0 ''dec'' = Some 4"
  "iloc ex_parameter_values (Suc 0) ''geocent_time'' = Some 0"
  "iloc ex_parameter_values (Suc 0) ''luminosity_distance'' = Some (1 / 2)"
  "iloc ex_parameter_values (Suc 0) ''dec'' = Some 1"
  by (simp_all add: iloc_def ex_parameter_values_def)

lemma cdf_one_analytic:
  assumes "spv ''geocent_time'' = Some t" "spv ''luminosity_distance'' = Some d"
  shows "compute_detector_fisher E det spv [''luminosity_distance''] wm wc udc =
     (let (wave, t_of_f) = wc wm spv (frequencyvector det, 50);
          P = projection E spv det wave t_of_f;
          dd = sig_scale (complex_of_real (- 1 / d)) P
      in Inr ([[sum_list (scalar_product E dd dd det)]],
              sum_list (map (\<lambda>x. x\<^sup>2) (SNR E det P udc))))"
  using assms
  by (simp add: compute_detector_fisher_def FisherMatrix_init_def Derivative_init_def fm_def
      update_fm_run_def with_respect_to_def projection_at_parameters_def waveform_at_parameters_def
      zeros_def set_entry_def Let_def split_beta)

lemma ex_cdf:
  "compute_detector_fisher ex_collaborators ex_detector (iloc ex_parameter_values 0)
     [''luminosity_distance''] ''IMRPhenomD'' ex_waveform_class False = Inr ([[4]], 16)"
  "compute_detector_fisher ex_collaborators ex_detector2 (iloc ex_parameter_values 0)
     [''luminosity_distance''] ''IMRPhenomD'' ex_waveform_class False = Inr ([[4]], 9)"
  "compute_detector_fisher ex_collaborators ex_detector (iloc ex_parameter_values (Suc 0))
     [''luminosity_distance''] ''IMRPhenomD'' ex_waveform_class False = Inr ([[4]], 16)"
  "compute_detector_fisher ex_collaborators ex_detector2 (iloc ex_parameter_values (Suc 0))
     [''luminosity_distance''] ''IMRPhenomD'' ex_waveform_class False = Inr ([[4]], 0)"
  by (simp_all add: cdf_one_analytic[OF ex_iloc(1,2)] cdf_one_analytic[OF ex_iloc(4,5)]
      ex_iloc ex_collaborators_def ex_waveform_class_def ex_projection_def ex_SNR_def
      ex_scalar_product_def ex_detector_def ex_detector2_def sig_scale_def Let_def)


lemma ex_sqrt: "sqrt 16 = 4" "sqrt 9 = 3" "sqrt 25 = 5"
  using real_sqrt_abs[of 4] real_sqrt_abs[of 3] real_sqrt_abs[of 5] by simp_all

lemma mat_add_nth:
  assumes "square n A" "square n B"
  shows "square n (mat_add A B)"
    and "i < n \<Longrightarrow> j < n \<Longrightarrow> mat_add A B ! i ! j = A ! i ! j + B ! i ! j"
  using assms by (simp_all add: square_def mat_add_def)

lemma foldl_mat_add_nth:
  assumes "square n F0" "\<forall>M\<in>set Ms. square n M"
  shows "square n (foldl mat_add F0 Ms)"
    and "i < n \<Longrightarrow> j < n \<Longrightarrow>
         foldl mat_add F0 Ms ! i ! j = F0 ! i ! j + (\<Sum>M\<leftarrow>Ms. M ! i ! j)"
  using assms
proof (induction Ms arbitrary: F0)
  case Nil
  {
    case 1
    then show ?case by simp
  next
    case 2
    then show ?case by simp
  }
next
  case (Cons M Ms)
  {
    case 1
    then have "square n (mat_add F0 M)" "\<forall>M\<in>set Ms. square n M"
      by (simp_all add: mat_add_nth)
    from Cons.IH(1)[OF this] show ?case by simp
  next
    case 2
    then have s: "square n (mat_add F0 M)" "\<forall>M\<in>set Ms. square n M"
      by (simp_all add: mat_add_nth)
    from Cons.IH(2)[OF 2(1,2) s] 2 show ?case
      by (simp add: mat_add_nth)
  }
qed

lemma compute_detector_fisher_square:
  assumes "compute_detector_fisher E det spv fps wm wc udc = Inr (M, s)"
  shows "square (length fps) M"
proof -
  from assms obtain FM where
    init: "FisherMatrix_init wm spv fps det default_eps wc = Inr FM"
    and f: "fst (fm (with_respect_to (projection E)) (scalar_product E) FM) = Inr M"
    by (auto simp: compute_detector_fisher_def Let_def split_beta split: sum.splits)
  note fl = FisherMatrix_init_fields[OF init]
  from fm_fresh(1)[OF fl(2) f] update_fm_run_symmetric[of FM "with_respect_to (projection E)" "scalar_product E"] fl(1)
  show ?thesis by (simp add: symmetric_def square_def)
qed


lemma zeros_nth: "i < n \<Longrightarrow> j < m \<Longrightarrow> zeros n m ! i ! j = 0"
  by (simp add: zeros_def)

lemma detector_results_square:
  assumes "map (\<lambda>d. compute_detector_fisher E d spv fps wm wc udc) dets = map Inr rs"
  shows "\<forall>r\<in>set rs. square (length fps) (fst r)"
proof
  fix r assume "r \<in> set rs"
  then obtain l where l: "l < length rs" "rs ! l = r" by (auto simp: in_set_conv_nth)
  have len: "length dets = length rs"
    using arg_cong[OF assms, of length] by simp
  have "map (\<lambda>d. compute_detector_fisher E d spv fps wm wc udc) dets ! l = map Inr rs ! l"
    using assms by simp
  with l len have "compute_detector_fisher E (dets ! l) spv fps wm wc udc = Inr (fst r, snd r)"
    by simp
  then show "square (length fps) (fst r)" by (rule compute_detector_fisher_square)
qed

text \<open>
  Claim C1.  For the signal \<open>k\<close>, let \<open>rs\<close> be the results (Fisher matrix, SNR squared) of
  \<^verbatim>\<open>compute_detector_fisher\<close> for the detectors of the network, in order.  The loop over
  the detectors adds every SNR squared to the accumulator, and adds the Fisher matrix
  of a detector only when the square root of its own SNR squared is strictly above the
  first element of \<^verbatim>\<open>network.detection_SNR\<close>.  So every entry of the matrix that is
  inverted is the sum of that entry over the detectors above the threshold, while the
  network SNR recorded for the signal is the square root of the sum of all the SNR
  squared values, whichever matrices were included.
\<close>

theorem C1_network_accumulation:
  assumes "map (\<lambda>d. compute_detector_fisher E d (iloc pv k) fps wm wc udc) (detectors net)
             = map Inr rs"
  shows "(let detector_snr_thr = fst (detection_SNR net);
              n = length fps;
              included = filter (\<lambda>r. sqrt (snd r) > detector_snr_thr) rs;
              F = foldl mat_add (zeros n n) (map fst included);
              s = sum_list (map snd rs)
          in detector_loop E detector_snr_thr (iloc pv k) fps wm wc udc (detectors net)
               (zeros n n, 0) = Inr (F, s)
           \<and> square n F
           \<and> (\<forall>i<n. \<forall>j<n. F ! i ! j = (\<Sum>r\<leftarrow>included. fst r ! i ! j))
           \<and> (\<forall>pe sky snr pe' sky' snr'.
                 signal_step E net pv fps wm wc udc sky_idx k (pe, sky, snr) = Inr (pe', sky', snr')
                   \<longrightarrow> snr' = snr[k := sqrt s]
                       \<and> (\<exists>Finv S. invertSVD (svd E) F = Inr (Finv, S)
                                  \<and> pe' = pe[k := map np_sqrt (np_diagonal Finv)])))"
proof -
  define included where "included = filter (\<lambda>r. sqrt (snd r) > fst (detection_SNR net)) rs"
  define F where "F = foldl mat_add (zeros (length fps) (length fps)) (map fst included)"
  define s where "s = sum_list (map snd rs)"
  have loop: "detector_loop E (fst (detection_SNR net)) (iloc pv k) fps wm wc udc (detectors net)
               (zeros (length fps) (length fps), 0) = Inr (F, s)"
    using detector_loop_result[OF assms] by (simp add: F_def s_def included_def)
  have sq: "\<forall>M\<in>set (map fst included). square (length fps) M"
    using detector_results_square[OF assms] by (simp add: included_def)
  note fl = foldl_mat_add_nth[OF square_zeros sq]
  have sqF: "square (length fps) F"
    using fl(1) by (simp add: F_def)
  have ent: "\<forall>i<length fps. \<forall>j<length fps. F ! i ! j = (\<Sum>r\<leftarrow>included. fst r ! i ! j)"
    using fl(2) by (simp add: F_def zeros_nth comp_def)
  have "snr' = snr[k := sqrt s]
        \<and> (\<exists>Finv S. invertSVD (svd E) F = Inr (Finv, S) \<and> pe' = pe[k := map np_sqrt (np_diagonal Finv)])"
    if "signal_step E net pv fps wm wc udc sky_idx k (pe, sky, snr) = Inr (pe', sky', snr')"
    for pe sky snr pe' sky' snr'
    using signal_step_snr[OF that loop] by blast
  with loop sqF ent show ?thesis
    unfolding Let_def F_def s_def included_def by blast
qed

lemma signal_step_without_sky:
  assumes "detector_loop E (fst (detection_SNR net)) (iloc pv k) fps wm wc udc (detectors net)
             (zeros (length fps) (length fps), 0) = Inr (F, s)"
    and "invertSVD (svd E) F = Inr (Finv, S)"
  shows "signal_step E net pv fps wm wc udc None k (pe, sky, snr)
           = Inr (pe[k := map np_sqrt (np_diagonal Finv)], sky, snr[k := sqrt s])"
  using assms by (simp add: signal_step_def Let_def)

lemma ex_detector_loop:
  "detector_loop ex_collaborators (fst (detection_SNR ex_network)) (iloc ex_parameter_values 0)
     [''luminosity_distance''] ''IMRPhenomD'' ex_waveform_class False (detectors ex_network)
     (zeros (length [''luminosity_distance'']) (length [''luminosity_distance'']), 0)
     = Inr ([[4]], 25)"
  "detector_loop ex_collaborators (fst (detection_SNR ex_network)) (iloc ex_parameter_values (Suc 0))
     [''luminosity_distance''] ''IMRPhenomD'' ex_waveform_class False (detectors ex_network)
     (zeros (length [''luminosity_distance'']) (length [''luminosity_distance'']), 0)
     = Inr ([[4]], 16)"
  by (simp_all add: ex_network_def zeros_def ex_cdf ex_sqrt mat_add_def)

lemma ex_invertSVD: "invertSVD (svd ex_collaborators) [[4]] = Inr ([[Finite (1 / 4)]], [1])"
  by (simp add: invertSVD_def matrix_norm_def normalizer_def np_diagonal_def np_outer_def
      mat_divide_def float_array_def ex_collaborators_def ex_svd_def matrix_inverse_norm_def
      kVal_def thresh_def matmul_def np_diag_def ncols_def)

lemma ex_signal_step:
  "signal_step ex_collaborators ex_network ex_parameter_values [''luminosity_distance'']
     ''IMRPhenomD'' ex_waveform_class False None 0 (pe, sky, snr)
   = Inr (pe[0 := [Finite (1 / 2)]], sky, snr[0 := 5])"
  "signal_step ex_collaborators ex_network ex_parameter_values [''luminosity_distance'']
     ''IMRPhenomD'' ex_waveform_class False None (Suc 0) (pe, sky, snr)
   = Inr (pe[Suc 0 := [Finite (1 / 2)]], sky, snr[Suc 0 := 4])"
  by (simp_all add: signal_step_without_sky[OF ex_detector_loop(1) ex_invertSVD]
      signal_step_without_sky[OF ex_detector_loop(2) ex_invertSVD]
      ex_sqrt np_diagonal_def real_sqrt_divide)

text \<open>
  Two detectors with SNR 4 and 3, each with the Fisher matrix \<open>[[4]]\<close>.  Under the individual
  threshold 3 only the first matrix is included; under the threshold 2 both are, and the
  network Fisher matrix is \<open>[[8]]\<close>.  The network SNR is \<open>sqrt (16 + 9)\<close> in both cases.
\<close>

theorem C1_network_accumulation_witness:
  "detector_loop ex_collaborators 3 (iloc ex_parameter_values 0) [''luminosity_distance'']
     ''IMRPhenomD'' ex_waveform_class False [ex_detector, ex_detector2] ([[0]], 0)
     = Inr ([[4]], 25)
   \<and> detector_loop ex_collaborators 2 (iloc ex_parameter_values 0) [''luminosity_distance'']
     ''IMRPhenomD'' ex_waveform_class False [ex_detector, ex_detector2] ([[0]], 0)
     = Inr ([[8]], 25)
   \<and> signal_step ex_collaborators ex_network ex_parameter_values [''luminosity_distance'']
       ''IMRPhenomD'' ex_waveform_class False None 0
       ([[Finite 0], [Finite 0]], None, [0, 0])
     = Inr ([[Finite (1 / 2)], [Finite 0]], None, [sqrt 25, 0])"
proof -
  have a: "map (\<lambda>d. compute_detector_fisher ex_collaborators d (iloc ex_parameter_values 0)
                [''luminosity_distance''] ''IMRPhenomD'' ex_waveform_class False)
          (detectors ex_network) = map Inr [([[4]], 16), ([[4]], 9)]"
    by (simp add: ex_network_def ex_cdf)
  have b: "map (\<lambda>d. compute_detector_fisher ex_collaborators d (iloc ex_parameter_values 0)
                [''luminosity_distance''] ''IMRPhenomD'' ex_waveform_class False)
          (detectors ex_network_both) = map Inr [([[4]], 16), ([[4]], 9)]"
    by (simp add: ex_network_both_def ex_cdf)
  from C1_network_accumulation[OF a, of None]
  have 1: "detector_loop ex_collaborators 3 (iloc ex_parameter_values 0) [''luminosity_distance'']
     ''IMRPhenomD'' ex_waveform_class False [ex_detector, ex_detector2] ([[0]], 0)
     = Inr ([[4]], 25)"
    by (simp add: Let_def ex_network_def ex_sqrt zeros_def mat_add_def del: detector_loop.simps)
  from C1_network_accumulation[OF b, of None]
  have 2: "detector_loop ex_collaborators 2 (iloc ex_parameter_values 0) [''luminosity_distance'']
     ''IMRPhenomD'' ex_waveform_class False [ex_detector, ex_detector2] ([[0]], 0)
     = Inr ([[8]], 25)"
    by (simp add: Let_def ex_network_both_def ex_sqrt zeros_def mat_add_def del: detector_loop.simps)
  from 1 2 show ?thesis
    by (simp add: ex_signal_step ex_sqrt del: detector_loop.simps)
qed


lemma signal_step_shape:
  assumes "signal_step E net pv fps wm wc udc sky_idx k (pe, sky, snr) = Inr (pe', sky', snr')"
  shows "length pe' = length pe" "length snr' = length snr"
    "(sky' = None) = (sky = None)"
    "map_option length sky' = map_option length sky"
    "\<forall>j. j \<noteq> k \<longrightarrow> snr' ! j = snr ! j"
  using assms
  by (cases sky;
      auto simp: signal_step_def Let_def split: sum.splits option.splits prod.splits)+

lemma signal_step_detector_loop:
  assumes "signal_step E net pv fps wm wc udc sky_idx k (pe, sky, snr) = Inr (pe', sky', snr')"
  shows "\<exists>F s. detector_loop E (fst (detection_SNR net)) (iloc pv k) fps wm wc udc (detectors net)
           (zeros (length fps) (length fps), 0) = Inr (F, s) \<and> snr' = snr[k := sqrt s]"
  using assms
  by (auto simp: signal_step_def Let_def split: sum.splits option.splits prod.splits)

lemma signal_loop_shape:
  assumes "signal_loop E net pv fps wm wc udc sky_idx ks (pe, sky, snr) = Inr (pe', sky', snr')"
  shows "length pe' = length pe \<and> length snr' = length snr \<and> (sky' = None) = (sky = None)
    \<and> map_option length sky' = map_option length sky"
  using assms
proof (induction ks arbitrary: pe sky snr)
  case Nil
  then show ?case by simp
next
  case (Cons k ks)
  then obtain pe1 sky1 snr1 where
    st: "signal_step E net pv fps wm wc udc sky_idx k (pe, sky, snr) = Inr (pe1, sky1, snr1)"
    and lp: "signal_loop E net pv fps wm wc udc sky_idx ks (pe1, sky1, snr1) = Inr (pe', sky', snr')"
    by (auto split: sum.splits)
  from Cons.IH[OF lp] signal_step_shape[OF st] show ?case by simp
qed

lemma signal_loop_snr:
  assumes "signal_loop E net pv fps wm wc udc sky_idx ks (pe, sky, snr) = Inr (pe', sky', snr')"
    and "distinct ks" and "\<forall>k\<in>set ks. k < length snr"
  shows "(\<forall>k\<in>set ks. \<exists>F s. detector_loop E (fst (detection_SNR net)) (iloc pv k) fps wm wc udc
              (detectors net) (zeros (length fps) (length fps), 0) = Inr (F, s)
            \<and> snr' ! k = sqrt s)
    \<and> (\<forall>j. j \<notin> set ks \<longrightarrow> snr' ! j = snr ! j)"
  using assms
proof (induction ks arbitrary: pe sky snr)
  case Nil
  then show ?case by simp
next
  case (Cons k ks)
  then obtain pe1 sky1 snr1 where
    st: "signal_step E net pv fps wm wc udc sky_idx k (pe, sky, snr) = Inr (pe1, sky1, snr1)"
    and lp: "signal_loop E net pv fps wm wc udc sky_idx ks (pe1, sky1, snr1) = Inr (pe', sky', snr')"
    by (auto split: sum.splits)
  from signal_step_detector_loop[OF st] obtain F s where
    dl: "detector_loop E (fst (detection_SNR net)) (iloc pv k) fps wm wc udc (detectors net)
           (zeros (length fps) (length fps), 0) = Inr (F, s)"
    and s1: "snr1 = snr[k := sqrt s]" by blast
  have len: "length snr1 = length snr" using s1 by simp
  have ih: "(\<forall>k\<in>set ks. \<exists>F s. detector_loop E (fst (detection_SNR net)) (iloc pv k) fps wm wc udc
              (detectors net) (zeros (length fps) (length fps), 0) = Inr (F, s)
            \<and> snr' ! k = sqrt s)
    \<and> (\<forall>j. j \<notin> set ks \<longrightarrow> snr' ! j = snr1 ! j)"
    using Cons.IH[OF lp] Cons.prems(2,3) len by simp
  have "snr' ! k = sqrt s"
    using ih Cons.prems(2,3) s1 by simp
  with dl ih s1 show ?case by auto
qed


lemma network_arrays_shape:
  assumes "network_arrays E net pv fps wm wc udc = Inr (pe, sky, snr)"
  shows "length snr = length (rows pv)" "length pe = length (rows pv)"
    "\<forall>s. sky = Some s \<longrightarrow> length s = length (rows pv)"
    "(sky = None) = (\<not> (''ra'' \<in> set fps \<and> ''dec'' \<in> set fps))"
    "0 < length fps" "0 < length (rows pv)"
proof -
  let ?havesky = "''ra'' \<in> set fps \<and> ''dec'' \<in> set fps"
  let ?n = "length (rows pv)"
  have pos: "0 < length fps" "0 < ?n"
    using assms by (auto simp: network_arrays_def Let_def split: if_splits)
  then have "signal_loop E net pv fps wm wc udc
          (if ?havesky then Some (index_of fps ''ra'', index_of fps ''dec'') else None) [0..<?n]
          (float_array (zeros ?n (length fps)),
           if ?havesky then Some (replicate ?n (Finite 0)) else None, replicate ?n 0)
        = Inr (pe, sky, snr)"
    using assms by (simp add: network_arrays_def Let_def)
  from signal_loop_shape[OF this]
  have sh: "length pe = ?n" "length snr = ?n" "(sky = None) = (\<not> ?havesky)"
    "map_option length sky = (if ?havesky then Some ?n else None)"
    by (simp_all add: zeros_def float_array_def)
  show "length snr = ?n" "length pe = ?n" "(sky = None) = (\<not> ?havesky)" "0 < length fps" "0 < ?n"
    using sh pos by simp_all
  show "\<forall>s. sky = Some s \<longrightarrow> length s = ?n"
    using sh(4) by (auto split: if_splits)
qed

lemma network_arrays_snr:
  assumes "network_arrays E net pv fps wm wc udc = Inr (pe, sky, snr)" and "k < length (rows pv)"
  shows "\<exists>F s. detector_loop E (fst (detection_SNR net)) (iloc pv k) fps wm wc udc
              (detectors net) (zeros (length fps) (length fps), 0) = Inr (F, s)
            \<and> snr ! k = sqrt s"
proof -
  let ?havesky = "''ra'' \<in> set fps \<and> ''dec'' \<in> set fps"
  let ?n = "length (rows pv)"
  have "signal_loop E net pv fps wm wc udc
          (if ?havesky then Some (index_of fps ''ra'', index_of fps ''dec'') else None) [0..<?n]
          (float_array (zeros ?n (length fps)),
           if ?havesky then Some (replicate ?n (Finite 0)) else None, replicate ?n 0)
        = Inr (pe, sky, snr)"
    using assms(1) by (auto simp: network_arrays_def Let_def split: if_splits)
  from signal_loop_snr[OF this] assms(2) show ?thesis by simp
qed

lemma detected_props:
  "sorted (detected snr thr)" "distinct (detected snr thr)"
  "k \<in> set (detected snr thr) \<longleftrightarrow> k < length snr \<and> snr ! k > thr"
  by (auto simp: detected_def sorted_wrt_filter)

text \<open>
  Claim C2.  Let \<open>pe\<close>, \<open>sky\<close> and \<open>snr\<close> be the arrays after the loop over the signals
  (one entry per signal; \<open>snr ! k\<close> is the network SNR computed for the signal \<open>k\<close>, and
  \<open>sky\<close> exists exactly when both \<^verbatim>\<open>ra\<close> and \<^verbatim>\<open>dec\<close> are fisher parameters).  Then
  \<^verbatim>\<open>compute_network_errors\<close> returns the three arrays restricted to one index list: the
  ascending list of the signals \<open>k\<close> with \<open>snr ! k\<close> strictly above the second element of
  \<^verbatim>\<open>network.detection_SNR\<close>.  A signal whose network SNR equals the threshold is not in
  the list.
\<close>

theorem C2_detection_selection:
  assumes "network_arrays E net pv fps wm wc udc = Inr (pe, sky, snr)"
  shows "(let network_snr_thr = snd (detection_SNR net);
              n = length (rows pv);
              idx = detected snr network_snr_thr
          in compute_network_errors E net pv fps wm wc udc
               = Inr (select snr idx, select pe idx, map_option (\<lambda>s. select s idx) sky)
           \<and> length snr = n \<and> length pe = n \<and> (\<forall>s. sky = Some s \<longrightarrow> length s = n)
           \<and> (sky = None) = (\<not> (''ra'' \<in> set fps \<and> ''dec'' \<in> set fps))
           \<and> idx = filter (\<lambda>k. snr ! k > network_snr_thr) [0..<n]
           \<and> sorted idx \<and> distinct idx
           \<and> (\<forall>k<n. (k \<in> set idx) = (snr ! k > network_snr_thr))
           \<and> (\<forall>k<n. snr ! k = network_snr_thr \<longrightarrow> k \<notin> set idx)
           \<and> (\<forall>k<n. \<exists>F s. detector_loop E (fst (detection_SNR net)) (iloc pv k) fps wm wc udc
                          (detectors net) (zeros (length fps) (length fps), 0) = Inr (F, s)
                        \<and> snr ! k = sqrt s))"
proof -
  note sh = network_arrays_shape[OF assms]
  have a: "compute_network_errors E net pv fps wm wc udc
      = Inr (select snr (detected snr (snd (detection_SNR net))),
             select pe (detected snr (snd (detection_SNR net))),
             map_option (\<lambda>s. select s (detected snr (snd (detection_SNR net)))) sky)"
    using assms by (simp add: compute_network_errors_def Let_def)
  have b: "detected snr (snd (detection_SNR net))
      = filter (\<lambda>k. snr ! k > snd (detection_SNR net)) [0..<length (rows pv)]"
    using sh(1) by (simp add: detected_def)
  have c: "\<forall>k<length (rows pv). (k \<in> set (detected snr (snd (detection_SNR net))))
             = (snr ! k > snd (detection_SNR net))"
    using sh(1) by (simp add: detected_props)
  then have d: "\<forall>k<length (rows pv). snr ! k = snd (detection_SNR net)
             \<longrightarrow> k \<notin> set (detected snr (snd (detection_SNR net)))"
    by simp
  have e: "\<forall>k<length (rows pv). \<exists>F s. detector_loop E (fst (detection_SNR net)) (iloc pv k)
              fps wm wc udc (detectors net) (zeros (length fps) (length fps), 0) = Inr (F, s)
            \<and> snr ! k = sqrt s"
    using network_arrays_snr[OF assms] by blast
  show ?thesis
    unfolding Let_def
    by (intro conjI) (fact a b c d e sh detected_props)+
qed

lemma ex_rows: "length (rows ex_parameter_values) = 2"
  by (simp add: ex_parameter_values_def)

lemma ex_network_arrays:
  "network_arrays ex_collaborators ex_network ex_parameter_values [''luminosity_distance'']
     ''IMRPhenomD'' ex_waveform_class False
   = Inr ([[Finite (1 / 2)], [Finite (1 / 2)]], None, [5, 4])"
  by (simp add: network_arrays_def ex_rows Let_def numeral_2_eq_2 ex_signal_step zeros_def
      float_array_def)

lemma ex_late_iloc:
  "iloc ex_late 0 ''geocent_time'' = Some 0"
  "iloc ex_late 0 ''luminosity_distance'' = Some 1"
  "iloc ex_late 0 ''dec'' = Some 1"
  "iloc ex_late (Suc 0) ''geocent_time'' = Some 0"
  "iloc ex_late (Suc 0) ''luminosity_distance'' = Some 2"
  "iloc ex_late (Suc 0) ''dec'' = Some 4"
  by (simp_all add: iloc_def ex_late_def)

lemma ex_late_cdf:
  "compute_detector_fisher ex_collaborators ex_detector (iloc ex_late 0)
     [''luminosity_distance''] ''IMRPhenomD'' ex_waveform_class False = Inr ([[1]], 16)"
  "compute_detector_fisher ex_collaborators ex_detector2 (iloc ex_late 0)
     [''luminosity_distance''] ''IMRPhenomD'' ex_waveform_class False = Inr ([[1]], 0)"
  "compute_detector_fisher ex_collaborators ex_detector (iloc ex_late (Suc 0))
     [''luminosity_distance''] ''IMRPhenomD'' ex_waveform_class False = Inr ([[4]], 16)"
  "compute_detector_fisher ex_collaborators ex_detector2 (iloc ex_late (Suc 0))
     [''luminosity_distance''] ''IMRPhenomD'' ex_waveform_class False = Inr ([[4]], 9)"
  by (simp_all add: cdf_one_analytic[OF ex_late_iloc(1,2)] cdf_one_analytic[OF ex_late_iloc(4,5)]
      ex_late_iloc ex_collaborators_def ex_waveform_class_def ex_projection_def ex_SNR_def
      ex_scalar_product_def ex_detector_def ex_detector2_def sig_scale_def Let_def)

lemma ex_late_detector_loop:
  "detector_loop ex_collaborators (fst (detection_SNR ex_network)) (iloc ex_late 0)
     [''luminosity_distance''] ''IMRPhenomD'' ex_waveform_class False (detectors ex_network)
     (zeros (length [''luminosity_distance'']) (length [''luminosity_distance'']), 0)
     = Inr ([[1]], 16)"
  "detector_loop ex_collaborators (fst (detection_SNR ex_network)) (iloc ex_late (Suc 0))
     [''luminosity_distance''] ''IMRPhenomD'' ex_waveform_class False (detectors ex_network)
     (zeros (length [''luminosity_distance'']) (length [''luminosity_distance'']), 0)
     = Inr ([[4]], 25)"
  by (simp_all add: ex_network_def zeros_def ex_late_cdf ex_sqrt mat_add_def)

lemma ex_invertSVD_one: "invertSVD (svd ex_collaborators) [[1]] = Inr ([[Finite 1]], [1])"
  by (simp add: invertSVD_def matrix_norm_def normalizer_def np_diagonal_def np_outer_def
      mat_divide_def float_array_def ex_collaborators_def ex_svd_def matrix_inverse_norm_def
      kVal_def thresh_def matmul_def np_diag_def ncols_def)

lemma ex_late_signal_step:
  "signal_step ex_collaborators ex_network ex_late [''luminosity_distance'']
     ''IMRPhenomD'' ex_waveform_class False None 0 (pe, sky, snr)
   = Inr (pe[0 := [Finite 1]], sky, snr[0 := 4])"
  "signal_step ex_collaborators ex_network ex_late [''luminosity_distance'']
     ''IMRPhenomD'' ex_waveform_class False None (Suc 0) (pe, sky, snr)
   = Inr (pe[Suc 0 := [Finite (1 / 2)]], sky, snr[Suc 0 := 5])"
  by (simp_all add: signal_step_without_sky[OF ex_late_detector_loop(1) ex_invertSVD_one]
      signal_step_without_sky[OF ex_late_detector_loop(2) ex_invertSVD]
      ex_sqrt np_diagonal_def real_sqrt_divide)

lemma ex_late_rows: "length (rows ex_late) = 2"
  by (simp add: ex_late_def)

lemma ex_late_network_arrays:
  "network_arrays ex_collaborators ex_network ex_late [''luminosity_distance'']
     ''IMRPhenomD'' ex_waveform_class False
   = Inr ([[Finite 1], [Finite (1 / 2)]], None, [4, 5])"
  by (simp add: network_arrays_def ex_late_rows Let_def numeral_2_eq_2 ex_late_signal_step zeros_def
      float_array_def)

text \<open>
  Two signals with network SNR 5 and 4 and the network threshold 4: only the first one
  is returned.  Two signals with network SNR 4 and 5 and errors 1 and 1/2: only the
  second one is returned, with its own error.
\<close>

theorem C2_detection_selection_witness:
  "compute_network_errors ex_collaborators ex_network ex_parameter_values [''luminosity_distance'']
     ''IMRPhenomD'' ex_waveform_class False = Inr ([5], [[Finite (1 / 2)]], None)
   \<and> snd (detection_SNR ex_network) = 4
   \<and> detected [5, 4] 4 = [0]
   \<and> compute_network_errors ex_collaborators ex_network ex_late [''luminosity_distance'']
     ''IMRPhenomD'' ex_waveform_class False = Inr ([5], [[Finite (1 / 2)]], None)
   \<and> detected [4, 5] 4 = [1]"
  using C2_detection_selection[OF ex_network_arrays] C2_detection_selection[OF ex_late_network_arrays]
  by (simp add: Let_def ex_rows ex_late_rows ex_network_def detected_def select_def numeral_2_eq_2)


section \<open>Reporting: properties\<close>

lemma analyze_one_Inr:
  assumes "analyze_one E partial str_of net pv fps ids pop wm wc udc = Inr f"
  shows "\<exists>network_snr errors sky_localization filename.
           compute_network_errors E net pv fps wm wc udc = Inr (network_snr, errors, sky_localization)
         \<and> errors_file_name str_of net ids pop = Inr filename
         \<and> output_to_txt_file pv network_snr errors sky_localization fps filename = Inr f"
  using assms by (auto simp: analyze_one_def split: sum.splits prod.splits)

lemma output_to_txt_file_name:
  assumes "output_to_txt_file pv network_snr errors sky fps filename = Inr f"
  shows "file_name f = filename @ ''.txt''"
    and "output_to_txt_file pv network_snr errors sky fps filename' = Inr (f\<lparr>file_name := filename' @ ''.txt''\<rparr>)"
  using assms
  by (auto simp: output_to_txt_file_def Let_def split: if_splits option.splits)


text \<open>
  Claim C9.  In one iteration of \<^verbatim>\<open>analyze_and_save_to_txt\<close> the partial network is
  built and not used: \<^verbatim>\<open>compute_network_errors\<close> receives the full network.  So for any
  two lists of sub-network ids for which the iteration completes, and for any
  \<^verbatim>\<open>partial\<close>, the network SNRs, errors and sky localizations are the same, and the two
  files differ in their names only.
\<close>

theorem C9_sub_network_ids_only_name_the_file:
  assumes "analyze_one E partial str_of net pv fps ids1 pop wm wc udc = Inr f1"
    and "analyze_one E partial str_of net pv fps ids2 pop wm wc udc = Inr f2"
  shows "(\<exists>network_snr errors sky_localization filename1 filename2.
            compute_network_errors E net pv fps wm wc udc
              = Inr (network_snr, errors, sky_localization)
          \<and> errors_file_name str_of net ids1 pop = Inr filename1
          \<and> errors_file_name str_of net ids2 pop = Inr filename2
          \<and> output_to_txt_file pv network_snr errors sky_localization fps filename1 = Inr f1
          \<and> output_to_txt_file pv network_snr errors sky_localization fps filename2 = Inr f2)
       \<and> header f1 = header f2 \<and> save_data f1 = save_data f2 \<and> fmt f1 = fmt f2
       \<and> f2 = f1\<lparr>file_name := file_name f2\<rparr>"
proof -
  from analyze_one_Inr[OF assms(1)] obtain network_snr errors sky filename1 where
    c: "compute_network_errors E net pv fps wm wc udc = Inr (network_snr, errors, sky)"
    and n1: "errors_file_name str_of net ids1 pop = Inr filename1"
    and o1: "output_to_txt_file pv network_snr errors sky fps filename1 = Inr f1"
    by blast
  from analyze_one_Inr[OF assms(2)] c obtain filename2 where
    n2: "errors_file_name str_of net ids2 pop = Inr filename2"
    and o2: "output_to_txt_file pv network_snr errors sky fps filename2 = Inr f2"
    by auto
  from output_to_txt_file_name(2)[OF o1, of filename2] o2
  have eq: "f2 = f1\<lparr>file_name := filename2 @ ''.txt''\<rparr>" by simp
  then have "header f1 = header f2" "save_data f1 = save_data f2" "fmt f1 = fmt f2"
    "f2 = f1\<lparr>file_name := file_name f2\<rparr>"
    by simp_all
  with c n1 n2 o1 o2 show ?thesis by blast
qed

lemma ex_single_iloc:
  "iloc ex_single 0 ''geocent_time'' = Some 0"
  "iloc ex_single 0 ''luminosity_distance'' = Some 2"
  "iloc ex_single 0 ''dec'' = Some 4"
  by (simp_all add: iloc_def ex_single_def)

lemma ex_single_cdf:
  "compute_detector_fisher ex_collaborators ex_detector (iloc ex_single 0)
     [''luminosity_distance''] ''IMRPhenomD'' ex_waveform_class False = Inr ([[4]], 16)"
  "compute_detector_fisher ex_collaborators ex_detector2 (iloc ex_single 0)
     [''luminosity_distance''] ''IMRPhenomD'' ex_waveform_class False = Inr ([[4]], 9)"
  by (simp_all add: cdf_one_analytic[OF ex_single_iloc(1,2)] ex_single_iloc
      ex_collaborators_def ex_waveform_class_def ex_projection_def ex_SNR_def
      ex_scalar_product_def ex_detector_def ex_detector2_def sig_scale_def Let_def)

lemma ex_single_detector_loop:
  "detector_loop ex_collaborators (fst (detection_SNR ex_network)) (iloc ex_single 0)
     [''luminosity_distance''] ''IMRPhenomD'' ex_waveform_class False (detectors ex_network)
     (zeros (length [''luminosity_distance'']) (length [''luminosity_distance'']), 0)
     = Inr ([[4]], 25)"
  by (simp add: ex_network_def zeros_def ex_single_cdf ex_sqrt mat_add_def)

lemma ex_single_network_arrays:
  "network_arrays ex_collaborators ex_network ex_single [''luminosity_distance'']
     ''IMRPhenomD'' ex_waveform_class False = Inr ([[Finite (1 / 2)]], None, [5])"
proof -
  have "length (rows ex_single) = 1" by (simp add: ex_single_def)
  then show ?thesis
    by (simp add: network_arrays_def Let_def zeros_def float_array_def
        signal_step_without_sky[OF ex_single_detector_loop ex_invertSVD]
        ex_sqrt np_diagonal_def real_sqrt_divide)
qed

lemma ex_network_thr: "snd (detection_SNR ex_network) = 4"
  by (simp add: ex_network_def)

lemma ex_single_compute_network_errors:
  "compute_network_errors ex_collaborators ex_network ex_single [''luminosity_distance'']
     ''IMRPhenomD'' ex_waveform_class False = Inr ([5], [[Finite (1 / 2)]], None)"
  by (simp add: compute_network_errors_def ex_single_network_arrays Let_def detected_def select_def
      ex_network_thr)

lemma ex_partial_ok:
  "\<exists>partial_network. ex_partial ex_network [0] = Inr partial_network"
  "\<exists>partial_network. ex_partial ex_network [0, - 1] = Inr partial_network"
  by (simp_all add: ex_partial_def py_get_def ex_network_def)

lemma ex_errors_file_name:
  "errors_file_name ex_str_of ex_network [0] ''BBH'' = Inr ''Errors_ET_BBH_SNR4.0''"
  "errors_file_name ex_str_of ex_network [0, - 1] ''BBH'' = Inr ''Errors_ET_CE_BBH_SNR4.0''"
  by (simp_all add: errors_file_name_def py_get_def ex_str_of_def ex_network_def ex_detector_def
      ex_detector2_def)

lemma ex_output_to_txt_file:
  "output_to_txt_file ex_single [5] [[Finite (1 / 2)]] None [''luminosity_distance''] filename
   = Inr \<lparr> file_name = filename @ ''.txt'',
           header = ''network_SNR geocent_time luminosity_distance dec err_luminosity_distance'',
           save_data = [[Finite 5, Finite 0, Finite 2, Finite 4, Finite (1 / 2)]],
           fmt = ''%s %.3E %.3E %.3E %.3E'' \<rparr>"
  by (simp add: output_to_txt_file_def Let_def ex_single_def numeral_eq_Suc)

lemma ex_analyze_one:
  "analyze_one ex_collaborators ex_partial ex_str_of ex_network ex_single [''luminosity_distance'']
     [0] ''BBH'' ''IMRPhenomD'' ex_waveform_class False
   = Inr \<lparr> file_name = ''Errors_ET_BBH_SNR4.0.txt'',
           header = ''network_SNR geocent_time luminosity_distance dec err_luminosity_distance'',
           save_data = [[Finite 5, Finite 0, Finite 2, Finite 4, Finite (1 / 2)]],
           fmt = ''%s %.3E %.3E %.3E %.3E'' \<rparr>"
  "analyze_one ex_collaborators ex_partial ex_str_of ex_network ex_single [''luminosity_distance'']
     [0, - 1] ''BBH'' ''IMRPhenomD'' ex_waveform_class False
   = Inr \<lparr> file_name = ''Errors_ET_CE_BBH_SNR4.0.txt'',
           header = ''network_SNR geocent_time luminosity_distance dec err_luminosity_distance'',
           save_data = [[Finite 5, Finite 0, Finite 2, Finite 4, Finite (1 / 2)]],
           fmt = ''%s %.3E %.3E %.3E %.3E'' \<rparr>"
  using ex_partial_ok
  by (auto simp: analyze_one_def ex_single_compute_network_errors ex_errors_file_name
      ex_output_to_txt_file)

text \<open>The sub-networks \<open>[0]\<close> and \<open>[0, -1]\<close> of a network of two detectors.\<close>

theorem C9_sub_network_ids_only_name_the_file_witness:
  "save_data \<lparr> file_name = ''Errors_ET_BBH_SNR4.0.txt'',
           header = ''network_SNR geocent_time luminosity_distance dec err_luminosity_distance'',
           save_data = [[Finite 5, Finite 0, Finite 2, Finite 4, Finite (1 / 2)]],
           fmt = ''%s %.3E %.3E %.3E %.3E'' \<rparr>
   = save_data \<lparr> file_name = ''Errors_ET_CE_BBH_SNR4.0.txt'',
           header = ''network_SNR geocent_time luminosity_distance dec err_luminosity_distance'',
           save_data = [[Finite 5, Finite 0, Finite 2, Finite 4, Finite (1 / 2)]],
           fmt = ''%s %.3E %.3E %.3E %.3E'' \<rparr>
   \<and> analyze_one ex_collaborators ex_partial ex_str_of ex_network ex_single [''luminosity_distance'']
       [0] ''BBH'' ''IMRPhenomD'' ex_waveform_class False
     = Inr \<lparr> file_name = ''Errors_ET_BBH_SNR4.0.txt'',
           header = ''network_SNR geocent_time luminosity_distance dec err_luminosity_distance'',
           save_data = [[Finite 5, Finite 0, Finite 2, Finite 4, Finite (1 / 2)]],
           fmt = ''%s %.3E %.3E %.3E %.3E'' \<rparr>
   \<and> analyze_one ex_collaborators ex_partial ex_str_of ex_network ex_single [''luminosity_distance'']
       [0, - 1] ''BBH'' ''IMRPhenomD'' ex_waveform_class False
     = Inr \<lparr> file_name = ''Errors_ET_CE_BBH_SNR4.0.txt'',
           header = ''network_SNR geocent_time luminosity_distance dec err_luminosity_distance'',
           save_data = [[Finite 5, Finite 0, Finite 2, Finite 4, Finite (1 / 2)]],
           fmt = ''%s %.3E %.3E %.3E %.3E'' \<rparr>"
  using C9_sub_network_ids_only_name_the_file[OF ex_analyze_one(1) ex_analyze_one(2)] ex_analyze_one
  by simp

section \<open>Robust inversion: properties\<close>

lemma np_diagonal_nth:
  "length (np_diagonal M) = length M"
  "i < length M \<Longrightarrow> np_diagonal M ! i = M ! i ! i"
  by (simp_all add: np_diagonal_def)

lemma float_array_nth:
  "length (float_array M) = length M"
  "i < length M \<Longrightarrow> length (float_array M ! i) = length (M ! i)"
  "i < length M \<Longrightarrow> j < length (M ! i) \<Longrightarrow> float_array M ! i ! j = Finite (M ! i ! j)"
  by (simp_all add: float_array_def)

lemma float_array_inj: "float_array A = float_array B \<longleftrightarrow> A = B"
proof -
  have "inj (map (map Finite))"
    by (intro iffD2[OF inj_map] injI) simp
  then show ?thesis
    by (auto simp: float_array_def dest: injD)
qed

lemma np_outer_nth:
  "length (np_outer u v) = length u"
  "i < length u \<Longrightarrow> length (np_outer u v ! i) = length v"
  "i < length u \<Longrightarrow> j < length v \<Longrightarrow> np_outer u v ! i ! j = np_multiply (u ! i) (v ! j)"
  by (simp_all add: np_outer_def)

lemma normalizer_nth:
  "length (normalizer M) = length M"
  "i < length M \<Longrightarrow> length (normalizer M ! i) = length M"
  "i < length M \<Longrightarrow> j < length M \<Longrightarrow>
     normalizer M ! i ! j = np_multiply (np_sqrt (Finite (M ! i ! i))) (np_sqrt (Finite (M ! j ! j)))"
  by (simp_all add: normalizer_def Let_def np_outer_nth np_diagonal_nth)

lemma normalizer_nonneg:
  assumes "i < length M" "j < length M" "0 \<le> M ! i ! i" "0 \<le> M ! j ! j"
  shows "normalizer M ! i ! j = Finite (sqrt (M ! i ! i * M ! j ! j))"
  using assms by (simp add: normalizer_nth real_sqrt_mult)

lemma mat_divide_nth:
  "length (mat_divide A B) = min (length A) (length B)"
  "i < length A \<Longrightarrow> i < length B \<Longrightarrow> length (mat_divide A B ! i) = min (length (A ! i)) (length (B ! i))"
  "i < length A \<Longrightarrow> i < length B \<Longrightarrow> j < length (A ! i) \<Longrightarrow> j < length (B ! i) \<Longrightarrow>
     mat_divide A B ! i ! j = np_true_divide (A ! i ! j) (B ! i ! j)"
  by (simp_all add: mat_divide_def)

lemma matrix_norm_nth:
  assumes "square n M"
  shows "square n (matrix_norm M)"
    and "i < n \<Longrightarrow> j < n \<Longrightarrow>
         matrix_norm M ! i ! j = np_true_divide (Finite (M ! i ! j)) (normalizer M ! i ! j)"
  using assms
  by (simp_all add: square_def matrix_norm_def mat_divide_nth normalizer_nth float_array_nth)

lemma sum_list_map2_nth:
  "length xs = length ys \<Longrightarrow> sum_list (map2 f xs ys) = (\<Sum>l<length xs. f (xs ! l) (ys ! l))"
proof -
  assume len: "length xs = length ys"
  have "sum_list (map2 f xs ys) = (\<Sum>l<length (map2 f xs ys). map2 f xs ys ! l)"
    by (simp add: sum_list_sum_nth atLeast0LessThan)
  also have "\<dots> = (\<Sum>l<length xs. f (xs ! l) (ys ! l))"
    using len by (intro sum.cong) simp_all
  finally show ?thesis .
qed

lemma matmul_nth:
  "length (matmul c A B) = length A"
  "i < length A \<Longrightarrow> length (matmul c A B ! i) = c"
  "i < length A \<Longrightarrow> j < c \<Longrightarrow> length (A ! i) = length B \<Longrightarrow>
     matmul c A B ! i ! j = (\<Sum>l<length B. A ! i ! l * B ! l ! j)"
  by (simp_all add: matmul_def sum_list_map2_nth)

lemma np_diag_nth:
  "length (np_diag v) = length v"
  "i < length v \<Longrightarrow> length (np_diag v ! i) = length v"
  "i < length v \<Longrightarrow> j < length v \<Longrightarrow> np_diag v ! i ! j = (if i = j then v ! i else 0)"
  by (simp_all add: np_diag_def)

lemma kVal_le: "kVal S \<le> length S"
  by (simp add: kVal_def)

lemma ncols_square: "square n M \<Longrightarrow> ncols M = n"
  by (cases M) (auto simp: square_def ncols_def)

lemma matrix_inverse_norm_nth:
  assumes "square n U" "length S = n" "square n Vh"
  shows "square n (matrix_inverse_norm U S Vh)"
    and "i < n \<Longrightarrow> j < n \<Longrightarrow>
         matrix_inverse_norm U S Vh ! i ! j = (\<Sum>l<kVal S. U ! i ! l * (1 / S ! l) * Vh ! l ! j)"
proof -
  let ?k = "kVal S"
  let ?Uk = "map (take ?k) U"
  let ?D = "np_diag (map (\<lambda>s. 1 / s) (take ?k S))"
  let ?UD = "matmul ?k ?Uk ?D"
  have k: "?k \<le> n" using kVal_le[of S] assms(2) by simp
  have lenU: "length U = n" "\<And>i. i < n \<Longrightarrow> length (U ! i) = n"
    and lenV: "length Vh = n" "\<And>i. i < n \<Longrightarrow> length (Vh ! i) = n"
    using assms by (simp_all add: square_def)
  have nc: "ncols Vh = n" using assms(3) by (rule ncols_square)
  have lenD: "length ?D = ?k" using k assms(2) by (simp add: np_diag_nth)
  have UD: "?UD ! i ! l = U ! i ! l * (1 / S ! l)" if "i < n" "l < ?k" for i l
  proof -
    have "?UD ! i ! l = (\<Sum>m<length ?D. ?Uk ! i ! m * ?D ! m ! l)"
      using that k lenU lenD by (intro matmul_nth(3)) simp_all
    also have "\<dots> = (\<Sum>m<?k. U ! i ! m * (if m = l then 1 / S ! m else 0))"
      unfolding lenD using that k lenU assms(2)
      by (intro sum.cong) (simp_all add: np_diag_nth)
    also have "\<dots> = (\<Sum>m<?k. if m = l then U ! i ! l * (1 / S ! l) else 0)"
      by (intro sum.cong) simp_all
    also have "\<dots> = U ! i ! l * (1 / S ! l)"
      using that by simp
    finally show ?thesis .
  qed
  have lenUD: "length ?UD = n" "\<And>i. i < n \<Longrightarrow> length (?UD ! i) = ?k"
    using lenU by (simp_all add: matmul_nth)
  show "square n (matrix_inverse_norm U S Vh)"
    using lenUD by (simp add: square_def matrix_inverse_norm_def nc matmul_nth)
  show "matrix_inverse_norm U S Vh ! i ! j = (\<Sum>l<?k. U ! i ! l * (1 / S ! l) * Vh ! l ! j)"
    if "i < n" "j < n"
  proof -
    have "matrix_inverse_norm U S Vh ! i ! j
        = (\<Sum>l<length (take ?k Vh). ?UD ! i ! l * take ?k Vh ! l ! j)"
      unfolding matrix_inverse_norm_def nc
      using that k lenUD lenV by (intro matmul_nth(3)) simp_all
    also have "\<dots> = (\<Sum>l<?k. U ! i ! l * (1 / S ! l) * Vh ! l ! j)"
      using that k lenV(1) by (intro sum.cong) (simp_all add: UD)
    finally show ?thesis .
  qed
qed

lemma descending_filter_take:
  "sorted_wrt (\<lambda>a b. a \<ge> b) S \<Longrightarrow>
   take (length (filter (\<lambda>s. s > t) S)) S = filter (\<lambda>s. s > t) S" for t :: real
proof (induction S)
  case Nil
  then show ?case by simp
next
  case (Cons a S)
  show ?case
  proof (cases "a > t")
    case True
    with Cons show ?thesis by simp
  next
    case False
    with Cons.prems have "\<forall>s\<in>set S. \<not> s > t" by auto
    then have "filter (\<lambda>s. s > t) S = []" by (simp add: filter_empty_conv)
    with False show ?thesis by simp
  qed
qed


lemma invertSVD_nth:
  assumes "square n M" "svd_fn (matrix_norm M) = Inr (U, S, Vh)"
    and "square n U" "length S = n" "square n Vh"
  shows "invertSVD svd_fn M
           = Inr (mat_divide (float_array (matrix_inverse_norm U S Vh)) (normalizer M), S)"
    and "square n (mat_divide (float_array (matrix_inverse_norm U S Vh)) (normalizer M))"
    and "i < n \<Longrightarrow> j < n \<Longrightarrow>
         mat_divide (float_array (matrix_inverse_norm U S Vh)) (normalizer M) ! i ! j
           = np_true_divide (Finite (\<Sum>l<kVal S. U ! i ! l * (1 / S ! l) * Vh ! l ! j))
               (normalizer M ! i ! j)"
proof -
  note X = matrix_inverse_norm_nth[OF assms(3,4,5)]
  have lenX: "length (matrix_inverse_norm U S Vh) = n"
    "\<And>i. i < n \<Longrightarrow> length (matrix_inverse_norm U S Vh ! i) = n"
    using X(1) by (simp_all add: square_def)
  have lenM: "length M = n" using assms(1) by (simp add: square_def)
  show "invertSVD svd_fn M
          = Inr (mat_divide (float_array (matrix_inverse_norm U S Vh)) (normalizer M), S)"
    using assms(2) by (simp add: invertSVD_def)
  show "square n (mat_divide (float_array (matrix_inverse_norm U S Vh)) (normalizer M))"
    using lenX lenM by (simp add: square_def mat_divide_nth normalizer_nth float_array_nth)
  show "mat_divide (float_array (matrix_inverse_norm U S Vh)) (normalizer M) ! i ! j
           = np_true_divide (Finite (\<Sum>l<kVal S. U ! i ! l * (1 / S ! l) * Vh ! l ! j))
               (normalizer M ! i ! j)"
    if "i < n" "j < n"
    using that lenX lenM
    by (simp add: mat_divide_nth normalizer_nth(1,2) float_array_nth X(2))
qed

text \<open>
  Claim C5.  For a square matrix \<open>M\<close> with a non-negative diagonal (where \<^verbatim>\<open>np.sqrt\<close> is
  the real square root) \<^verbatim>\<open>invertSVD\<close> divides every entry \<open>M[i,j]\<close> by
  \<open>sqrt (M[i,i] * M[j,j])\<close>, hands the normalized matrix to the singular value
  decomposition, counts the \<open>k\<close> singular values strictly above \<open>1e-10\<close> and keeps the
  first \<open>k\<close>, which are exactly those above the threshold because the values come in
  descending order, rebuilds \<open>sum over l < k of U[i,l] * (1 / S[l]) * Vh[l,j]\<close>, divides
  by the same normalizer again, and returns this matrix together with all the singular
  values \<open>S\<close>.  Both divisions are numpy's: where the divisor \<open>sqrt (M[i,i] * M[j,j])\<close> is
  not zero the quotient is the real one, and where it is zero the quotient is an
  infinity or NaN.
\<close>

theorem C5_invertSVD_steps:
  assumes "square n M" and "\<forall>i<n. 0 \<le> M ! i ! i"
    and "svd_fn (matrix_norm M) = Inr (U, S, Vh)"
    and "square n U" "length S = n" "square n Vh"
    and "sorted_wrt (\<lambda>a b. a \<ge> b) S"
  shows "(\<forall>i<n. \<forall>j<n. matrix_norm M ! i ! j
            = np_true_divide (Finite (M ! i ! j)) (Finite (sqrt (M ! i ! i * M ! j ! j))))
    \<and> (\<forall>i<n. \<forall>j<n. M ! i ! i * M ! j ! j \<noteq> 0 \<longrightarrow>
          matrix_norm M ! i ! j = Finite (M ! i ! j / sqrt (M ! i ! i * M ! j ! j)))
    \<and> kVal S = length (filter (\<lambda>s. s > 1 / 10 ^ 10) S)
    \<and> take (kVal S) S = filter (\<lambda>s. s > 1 / 10 ^ 10) S
    \<and> (\<exists>R. invertSVD svd_fn M = Inr (R, S) \<and> square n R
          \<and> (\<forall>i<n. \<forall>j<n. R ! i ! j
                = np_true_divide (Finite (\<Sum>l<kVal S. U ! i ! l * (1 / S ! l) * Vh ! l ! j))
                    (Finite (sqrt (M ! i ! i * M ! j ! j))))
          \<and> (\<forall>i<n. \<forall>j<n. M ! i ! i * M ! j ! j \<noteq> 0 \<longrightarrow>
                R ! i ! j
                  = Finite ((\<Sum>l<kVal S. U ! i ! l * (1 / S ! l) * Vh ! l ! j)
                              / sqrt (M ! i ! i * M ! j ! j))))"
proof -
  have lenM: "length M = n" using assms(1) by (simp add: square_def)
  have nz: "normalizer M ! i ! j = Finite (sqrt (M ! i ! i * M ! j ! j))" if "i < n" "j < n" for i j
    using normalizer_nonneg[of i M j] that assms(2) lenM by simp
  have a: "\<forall>i<n. \<forall>j<n. matrix_norm M ! i ! j
            = np_true_divide (Finite (M ! i ! j)) (Finite (sqrt (M ! i ! i * M ! j ! j)))"
    using matrix_norm_nth(2)[OF assms(1)] nz by simp
  then have a': "\<forall>i<n. \<forall>j<n. M ! i ! i * M ! j ! j \<noteq> 0 \<longrightarrow>
          matrix_norm M ! i ! j = Finite (M ! i ! j / sqrt (M ! i ! i * M ! j ! j))"
    by simp
  have b: "kVal S = length (filter (\<lambda>s. s > 1 / 10 ^ 10) S)"
    by (simp add: kVal_def thresh_def)
  have c: "take (kVal S) S = filter (\<lambda>s. s > 1 / 10 ^ 10) S"
    unfolding b using assms(7) by (rule descending_filter_take)
  note R = invertSVD_nth[where svd_fn = svd_fn, OF assms(1,3,4,5,6)]
  have d: "\<forall>i<n. \<forall>j<n.
             mat_divide (float_array (matrix_inverse_norm U S Vh)) (normalizer M) ! i ! j
                = np_true_divide (Finite (\<Sum>l<kVal S. U ! i ! l * (1 / S ! l) * Vh ! l ! j))
                    (Finite (sqrt (M ! i ! i * M ! j ! j)))"
    using R(3) nz by simp
  then have d': "\<forall>i<n. \<forall>j<n. M ! i ! i * M ! j ! j \<noteq> 0 \<longrightarrow>
             mat_divide (float_array (matrix_inverse_norm U S Vh)) (normalizer M) ! i ! j
                = Finite ((\<Sum>l<kVal S. U ! i ! l * (1 / S ! l) * Vh ! l ! j)
                              / sqrt (M ! i ! i * M ! j ! j))"
    by simp
  from a a' b c d d' R(1,2) show ?thesis by blast
qed

lemma ex_matrix_norm:
  "matrix_norm [[1, 1], [1, 1]] = [[Finite 1, Finite 1], [Finite 1, Finite 1]]"
  by (simp add: matrix_norm_def normalizer_def np_diagonal_def np_outer_def mat_divide_def
      float_array_def numeral_2_eq_2 Let_def)

lemma ex_invertSVD2:
  "invertSVD ex_svd2 [[1, 1], [1, 1]]
     = Inr ([[Finite (1 / 4), Finite (1 / 4)], [Finite (1 / 4), Finite (1 / 4)]], [2, 0])"
  by (simp add: invertSVD_def ex_matrix_norm ex_svd2_def matrix_inverse_norm_def kVal_def
      thresh_def matmul_def np_diag_def ncols_def normalizer_def np_diagonal_def np_outer_def
      mat_divide_def float_array_def numeral_2_eq_2 Let_def)

text \<open>
  The matrix of ones has the singular values 2 and 0: the second is dropped, and both
  are returned.
\<close>

theorem C5_invertSVD_steps_witness:
  "invertSVD ex_svd2 [[1, 1], [1, 1]]
     = Inr ([[Finite (1 / 4), Finite (1 / 4)], [Finite (1 / 4), Finite (1 / 4)]], [2, 0])
   \<and> kVal [2, 0] = 1 \<and> take (kVal [2, 0]) [2, 0] = [2]
   \<and> matrix_norm [[1, 1], [1, 1]] ! 0 ! 1 = Finite 1"
proof -
  have "square 2 [[1, 1], [1, 1 :: real]]" "\<forall>i<2. 0 \<le> [[1, 1], [1, 1 :: real]] ! i ! i"
    "square 2 [[1 / sqrt 2, 1 / sqrt 2], [1 / sqrt 2, - (1 / sqrt 2)]]"
    by (simp_all add: square_def numeral_2_eq_2 less_Suc_eq)
  from C5_invertSVD_steps[where svd_fn = ex_svd2 and S = "[2, 0]", OF this(1,2) _ this(3) _ this(3)]
  show ?thesis
    by (simp add: ex_svd2_def ex_invertSVD2 ex_matrix_norm)
qed

lemma mat_eqI:
  assumes "length A = n" "length B = n"
    and "\<And>i. i < n \<Longrightarrow> length (A ! i) = m" "\<And>i. i < n \<Longrightarrow> length (B ! i) = m"
    and "\<And>i j. i < n \<Longrightarrow> j < m \<Longrightarrow> A ! i ! j = B ! i ! j"
  shows "A = B"
proof (rule nth_equalityI)
  show "length A = length B" using assms(1,2) by simp
  fix i assume "i < length A"
  then have i: "i < n" using assms(1) by simp
  show "A ! i = B ! i"
  proof (rule nth_equalityI)
    show "length (A ! i) = length (B ! i)" using assms(3,4) i by simp
    fix j assume "j < length (A ! i)"
    then have "j < m" using assms(3) i by simp
    with i show "A ! i ! j = B ! i ! j" by (rule assms(5))
  qed
qed







lemma ex_zero_matrix:
  "normalizer [[0]] = [[Finite 0]]" "matrix_norm [[0]] = [[NaN]]"
  by (simp_all add: matrix_norm_def normalizer_def np_diagonal_def np_outer_def mat_divide_def
      float_array_def signed_inf_def Let_def)

lemma ex_zero_diagonal:
  "matrix_norm [[0, 1], [- 1, 4]] = [[NaN, PosInf], [NegInf, Finite 1]]"
  by (simp add: matrix_norm_def normalizer_def np_diagonal_def np_outer_def mat_divide_def
      float_array_def signed_inf_def numeral_2_eq_2 Let_def)

lemma ex_quiet_detector_loop:
  "detector_loop ex_collaborators (fst (detection_SNR ex_network_quiet))
     (iloc ex_parameter_values 0) [''luminosity_distance''] ''IMRPhenomD'' ex_waveform_class False
     (detectors ex_network_quiet)
     (zeros (length [''luminosity_distance'']) (length [''luminosity_distance'']), 0)
     = Inr ([[0]], 25)"
  by (simp add: ex_network_quiet_def zeros_def ex_cdf ex_sqrt)

lemma ex_quiet_signal_step:
  "signal_step ex_collaborators ex_network_quiet ex_parameter_values [''luminosity_distance'']
     ''IMRPhenomD'' ex_waveform_class False None 0 st = Inl LinAlgError"
proof -
  have "invertSVD (svd ex_collaborators) [[0]] = Inl LinAlgError"
    by (simp add: invertSVD_def ex_zero_matrix ex_collaborators_def ex_svd_def)
  with ex_quiet_detector_loop show ?thesis
    by (simp add: signal_step_def Let_def split: prod.splits)
qed

lemma ex_quiet_compute_network_errors:
  "compute_network_errors ex_collaborators ex_network_quiet ex_parameter_values
     [''luminosity_distance''] ''IMRPhenomD'' ex_waveform_class False = Inl LinAlgError"
  by (simp add: compute_network_errors_def network_arrays_def ex_rows Let_def numeral_2_eq_2
      ex_quiet_signal_step)


lemma pinv_sum:
  fixes u v :: "nat \<Rightarrow> nat \<Rightarrow> real" and s :: "nat \<Rightarrow> real"
  assumes ou: "\<And>a b. a < n \<Longrightarrow> b < n \<Longrightarrow> (\<Sum>k<n. u k a * u k b) = (if a = b then 1 else 0)"
    and ov: "\<And>a b. a < n \<Longrightarrow> b < n \<Longrightarrow> (\<Sum>k<n. v k a * v k b) = (if a = b then 1 else 0)"
    and s: "\<And>l. l < n \<Longrightarrow> s l \<noteq> 0"
    and ij: "i < n" "j < n"
  shows "(\<Sum>a<n. (\<Sum>m<n. u a m * s m * v m i) * (\<Sum>l<n. u a l * (1 / s l) * v l j))
           = (if i = j then 1 else 0)"
proof -
  define c where "c m l = s m * v m i * ((1 / s l) * v l j)" for m l
  have "(\<Sum>a<n. (\<Sum>m<n. u a m * s m * v m i) * (\<Sum>l<n. u a l * (1 / s l) * v l j))
      = (\<Sum>a<n. \<Sum>m<n. \<Sum>l<n. (u a m * u a l) * c m l)"
    unfolding sum_product c_def by (intro sum.cong refl) (simp add: mult_ac)
  also have "\<dots> = (\<Sum>m<n. \<Sum>a<n. \<Sum>l<n. (u a m * u a l) * c m l)"
    by (rule sum.swap)
  also have "\<dots> = (\<Sum>m<n. \<Sum>l<n. \<Sum>a<n. (u a m * u a l) * c m l)"
    by (intro sum.cong refl sum.swap)
  also have "\<dots> = (\<Sum>m<n. \<Sum>l<n. (\<Sum>a<n. u a m * u a l) * c m l)"
    by (simp add: sum_distrib_right)
  also have "\<dots> = (\<Sum>m<n. \<Sum>l<n. (if l = m then c m m else 0))"
    by (intro sum.cong refl) (auto simp: ou)
  also have "\<dots> = (\<Sum>m<n. c m m)"
    by (intro sum.cong refl) simp
  also have "\<dots> = (\<Sum>m<n. v m i * v m j)"
    unfolding c_def by (intro sum.cong refl) (simp add: s)
  also have "\<dots> = (if i = j then 1 else 0)"
    using ov[OF ij] .
  finally show ?thesis .
qed


lemma eye_nth:
  "length (eye n) = n" "i < n \<Longrightarrow> length (eye n ! i) = n"
  "i < n \<Longrightarrow> j < n \<Longrightarrow> eye n ! i ! j = (if i = j then 1 else 0)"
  by (simp_all add: eye_def np_diag_nth)

lemma kVal_all:
  assumes "\<forall>l<length S. S ! l > thresh"
  shows "kVal S = length S"
proof -
  have "\<forall>s\<in>set S. s > thresh"
    using assms by (auto simp: in_set_conv_nth)
  then show ?thesis by (simp add: kVal_def)
qed

lemma invertSVD_round_trip:
  fixes svd_fn :: "npmat \<Rightarrow> error + mat \<times> real list \<times> mat"
  assumes sym: "symmetric n M" and pos: "\<forall>i<n. 0 < M ! i ! i"
    and svd: "svd_fn (matrix_norm M) = Inr (U, S, Vh)"
    and con: "svd_contract n (matrix_norm M) U S Vh"
    and big: "\<forall>l<n. S ! l > thresh"
  shows "\<exists>R. mat_divide (float_array (matrix_inverse_norm U S Vh)) (normalizer M) = float_array R
           \<and> matmul n M R = eye n"
proof -
  define d where "d i = sqrt (M ! i ! i)" for i
  define X where "X a j = (\<Sum>l<n. U ! a ! l * (1 / S ! l) * Vh ! l ! j)" for a j
  define N where "N i j = (\<Sum>l<n. U ! i ! l * S ! l * Vh ! l ! j)" for i j
  define R where "R = map (\<lambda>a. map (\<lambda>j. X a j / (d a * d j)) [0..<n]) [0..<n]"
  have sqM: "square n M" and lenM: "length M = n" "\<And>i. i < n \<Longrightarrow> length (M ! i) = n"
    and symM: "\<And>i j. i < n \<Longrightarrow> j < n \<Longrightarrow> M ! i ! j = M ! j ! i"
    using sym by (simp_all add: symmetric_def square_def)
  have sqU: "square n U" and lenS: "length S = n" and sqV: "square n Vh"
    and norm_eq: "\<And>i j. i < n \<Longrightarrow> j < n \<Longrightarrow> matrix_norm M ! i ! j = Finite (N i j)"
    and ou: "\<And>a b. a < n \<Longrightarrow> b < n \<Longrightarrow> (\<Sum>k<n. U ! k ! a * U ! k ! b) = (if a = b then 1 else 0)"
    and ov: "\<And>a b. a < n \<Longrightarrow> b < n \<Longrightarrow> (\<Sum>k<n. Vh ! k ! a * Vh ! k ! b) = (if a = b then 1 else 0)"
    using con by (simp_all add: svd_contract_def N_def)
  have dpos: "0 < d i" if "i < n" for i
    using pos that by (simp add: d_def)
  have nz: "normalizer M ! i ! j = Finite (d i * d j)" "d i * d j \<noteq> 0" if "i < n" "j < n" for i j
  proof -
    have "0 < M ! i ! i" "0 < M ! j ! j" using pos that by simp_all
    then show "normalizer M ! i ! j = Finite (d i * d j)"
      using that lenM(1) by (simp add: normalizer_nth d_def)
    show "d i * d j \<noteq> 0" using dpos[OF that(1)] dpos[OF that(2)] by simp
  qed
  have k: "kVal S = n"
    using kVal_all[of S] big lenS by simp
  have Snz: "S ! l \<noteq> 0" if "l < n" for l
  proof -
    have "(0::real) < thresh" by (simp add: thresh_def)
    also have "thresh < S ! l" using big that by simp
    finally show ?thesis by simp
  qed
  note Rn = invertSVD_nth[where svd_fn = svd_fn, OF sqM svd sqU lenS sqV]
  have lenR: "length R = n" "\<And>a. a < n \<Longrightarrow> length (R ! a) = n"
    by (simp_all add: R_def)
  have Rent: "R ! a ! j = X a j / (d a * d j)" if "a < n" "j < n" for a j
    using that by (simp add: R_def)
  have Req: "mat_divide (float_array (matrix_inverse_norm U S Vh)) (normalizer M) = float_array R"
  proof (rule mat_eqI[where n = n and m = n])
    show "length (mat_divide (float_array (matrix_inverse_norm U S Vh)) (normalizer M)) = n"
      using Rn(2) by (simp add: square_def)
    show "length (float_array R) = n" using lenR by (simp add: float_array_nth)
    show "length (mat_divide (float_array (matrix_inverse_norm U S Vh)) (normalizer M) ! i) = n"
      if "i < n" for i
      using Rn(2) that by (simp add: square_def)
    show "length (float_array R ! i) = n" if "i < n" for i
      using lenR that by (simp add: float_array_nth)
    show "mat_divide (float_array (matrix_inverse_norm U S Vh)) (normalizer M) ! i ! j
            = float_array R ! i ! j" if "i < n" "j < n" for i j
      using Rn(3)[OF that] nz[OF that] lenR that
      by (simp add: float_array_nth Rent X_def k)
  qed
  have Ment: "M ! i ! a = d i * d a * N a i" if "i < n" "a < n" for i a
  proof -
    have "Finite (N a i) = matrix_norm M ! a ! i" using norm_eq that by simp
    also have "\<dots> = Finite (M ! a ! i / (d a * d i))"
      using matrix_norm_nth(2)[OF sqM that(2,1)] nz[OF that(2,1)] by simp
    finally have "N a i = M ! a ! i / (d a * d i)" by simp
    moreover have "d a * d i \<noteq> 0" using dpos[OF that(1)] dpos[OF that(2)] by simp
    ultimately have "M ! a ! i = d i * d a * N a i" by (simp add: field_simps)
    with symM[OF that] show ?thesis by simp
  qed
  have NX: "(\<Sum>a<n. N a i * X a j) = (if i = j then 1 else 0)" if "i < n" "j < n" for i j
    unfolding N_def X_def
    by (rule pinv_sum[where u = "\<lambda>a l. U ! a ! l" and v = "\<lambda>l j. Vh ! l ! j" and s = "\<lambda>l. S ! l",
          OF ou ov Snz that])
  have ent: "matmul n M R ! i ! j = (if i = j then 1 else 0)" if "i < n" "j < n" for i j
  proof -
    have "matmul n M R ! i ! j = (\<Sum>a<length R. M ! i ! a * R ! a ! j)"
      using that lenM lenR by (intro matmul_nth(3)) simp_all
    also have "\<dots> = (\<Sum>a<n. M ! i ! a * R ! a ! j)"
      using lenR by simp
    also have "\<dots> = (\<Sum>a<n. (d i / d j) * (N a i * X a j))"
    proof (intro sum.cong refl)
      fix a assume "a \<in> {..<n}"
      then have a: "a < n" by simp
      have "d a \<noteq> 0" "d j \<noteq> 0" using dpos[OF a] dpos[OF that(2)] by auto
      then show "M ! i ! a * R ! a ! j = (d i / d j) * (N a i * X a j)"
        by (simp add: Ment[OF that(1) a] Rent[OF a that(2)])
    qed
    also have "\<dots> = (d i / d j) * (\<Sum>a<n. N a i * X a j)"
      by (simp add: sum_distrib_left)
    also have "\<dots> = (if i = j then 1 else 0)"
      using dpos[OF that(1)] dpos[OF that(2)] by (auto simp: NX[OF that])
    finally show ?thesis .
  qed
  have "matmul n M R = eye n"
    using lenM ent by (intro mat_eqI[where n = n and m = n]) (simp_all add: matmul_nth eye_nth)
  with Req show ?thesis by blast
qed


text \<open>
  Claim C6.  Let \<open>M\<close> be a symmetric matrix with a strictly positive diagonal, and let
  the singular value decomposition of its normalized matrix have all its singular
  values strictly above \<open>1e-10\<close>.  Then nothing is truncated, every entry of the first
  component of \<^verbatim>\<open>invertSVD(M)\<close> is finite, and the product of \<open>M\<close> with this matrix is the
  identity matrix, exactly: the two divisions by the normalizer cancel against the
  diagonal scaling of \<open>M\<close>.
\<close>

theorem C6_invertSVD_round_trip:
  fixes svd_fn :: "npmat \<Rightarrow> error + mat \<times> real list \<times> mat"
  assumes "symmetric n M" and "\<forall>i<n. 0 < M ! i ! i"
    and "svd_fn (matrix_norm M) = Inr (U, S, Vh)"
    and "svd_contract n (matrix_norm M) U S Vh"
    and "\<forall>l<n. S ! l > 1 / 10 ^ 10"
  shows "\<exists>R. invertSVD svd_fn M = Inr (float_array R, S) \<and> kVal S = n \<and> matmul n M R = eye n"
proof -
  have big: "\<forall>l<n. S ! l > thresh"
    using assms(5) by (simp add: thresh_def)
  have "length S = n" using assms(4) by (simp add: svd_contract_def)
  with big have "kVal S = n" using kVal_all[of S] by simp
  moreover have "invertSVD svd_fn M
      = Inr (mat_divide (float_array (matrix_inverse_norm U S Vh)) (normalizer M), S)"
    using assms(3) by (simp add: invertSVD_def)
  ultimately show ?thesis
    using invertSVD_round_trip[where svd_fn = svd_fn, OF assms(1-4) big] by auto
qed

lemma ex_matrix_norm3:
  "matrix_norm [[4, 2], [2, 4]] = [[Finite 1, Finite (1 / 2)], [Finite (1 / 2), Finite 1]]"
  by (simp add: matrix_norm_def normalizer_def np_diagonal_def np_outer_def mat_divide_def
      float_array_def numeral_2_eq_2 Let_def)

lemma ex_svd3_contract:
  "svd_contract 2 (matrix_norm [[4, 2], [2, 4]])
     [[1 / sqrt 2, 1 / sqrt 2], [1 / sqrt 2, - (1 / sqrt 2)]] [3 / 2, 1 / 2]
     [[1 / sqrt 2, 1 / sqrt 2], [1 / sqrt 2, - (1 / sqrt 2)]]"
  by (simp add: svd_contract_def ex_matrix_norm3 square_def numeral_2_eq_2 less_Suc_eq
      lessThan_Suc all_conj_distrib)

lemma ex_sqrt2: "sqrt 2 * (c * sqrt 2) = 2 * c"
  by simp

lemma ex_invertSVD3:
  "invertSVD ex_svd3 [[4, 2], [2, 4]]
     = Inr (float_array [[1 / 3, - (1 / 6)], [- (1 / 6), 1 / 3]], [3 / 2, 1 / 2])"
  by (simp add: invertSVD_def ex_matrix_norm3 ex_svd3_def matrix_inverse_norm_def kVal_def
      thresh_def matmul_def np_diag_def ncols_def normalizer_def np_diagonal_def np_outer_def
      mat_divide_def float_array_def numeral_2_eq_2 Let_def ex_sqrt2)

text \<open>The matrix \<open>[[4, 2], [2, 4]]\<close>, with singular values \<open>3/2\<close> and \<open>1/2\<close> after normalization.\<close>

theorem C6_invertSVD_round_trip_witness:
  "invertSVD ex_svd3 [[4, 2], [2, 4]]
     = Inr ([[Finite (1 / 3), Finite (- (1 / 6))], [Finite (- (1 / 6)), Finite (1 / 3)]],
            [3 / 2, 1 / 2])
   \<and> matmul 2 [[4, 2], [2, 4]] [[1 / 3, - (1 / 6)], [- (1 / 6), 1 / 3]] = eye 2"
proof -
  have "symmetric 2 [[4, 2], [2, 4]]" "\<forall>i<2. 0 < [[4, 2], [2, 4 :: real]] ! i ! i"
    "ex_svd3 (matrix_norm [[4, 2], [2, 4]])
       = Inr ([[1 / sqrt 2, 1 / sqrt 2], [1 / sqrt 2, - (1 / sqrt 2)]], [3 / 2, 1 / 2],
              [[1 / sqrt 2, 1 / sqrt 2], [1 / sqrt 2, - (1 / sqrt 2)]])"
    "\<forall>l<2. [3 / 2, 1 / 2 :: real] ! l > 1 / 10 ^ 10"
    by (simp_all add: symmetric_def ex_svd3_def numeral_2_eq_2 less_Suc_eq)
  from C6_invertSVD_round_trip[where svd_fn = ex_svd3, OF this(1,2,3) ex_svd3_contract this(4)]
  have "matmul 2 [[4, 2], [2, 4]] [[1 / 3, - (1 / 6)], [- (1 / 6), 1 / 3]] = eye 2"
    by (simp add: ex_invertSVD3 float_array_inj)
  then show ?thesis
    by (simp add: ex_invertSVD3 float_array_def)
qed

end
